theory Spec2Isabelle
  imports Complex_Main
begin

section \<open>Faults and the result type\<close>

text \<open>
  The module under verification is \<^verbatim>\<open>proteinfoundation/nn/protein_transformer.py\<close>.
  Every Python exception the modelled code can raise is a value of \<open>error\<close>; a
  computation that may raise returns \<open>error + 'a\<close> with \<open>Inl\<close> for the fault.
\<close>

datatype error = RuntimeError | AttributeError | TypeError | IndexError | KeyError
  | ZeroDivisionError | ValueError

type_synonym 'a result = "error + 'a"

definition and_then :: "'a result \<Rightarrow> ('a \<Rightarrow> 'b result) \<Rightarrow> 'b result" where
  "and_then m f = (case m of Inl e \<Rightarrow> Inl e | Inr x \<Rightarrow> f x)"

text \<open>
  A list comprehension whose elements may raise: the first fault, in list order, is the
  fault of the whole comprehension.
\<close>

fun collect :: "'a result list \<Rightarrow> 'a list result" where
  "collect [] = Inr []"
| "collect (r # rs) = and_then r (\<lambda>x. and_then (collect rs) (\<lambda>xs. Inr (x # xs)))"

section \<open>Tensors\<close>

text \<open>
  A tensor is its shape together with its entries in row-major order, as a contiguous
  torch tensor is. Entries are real numbers: floating-point rounding, infinities and NaN
  are outside the model. \<open>elem t idx\<close> reads one entry, \<open>mk s f\<close> tabulates a tensor
  of shape \<open>s\<close> from an index function.
\<close>

datatype 'a tensor = Tensor (shape: "nat list") (data: "'a list")

fun indices :: "nat list \<Rightarrow> nat list list" where
  "indices [] = [[]]"
| "indices (n # s) = concat (map (\<lambda>i. map ((#) i) (indices s)) [0..<n])"

fun offset :: "nat list \<Rightarrow> nat list \<Rightarrow> nat" where
  "offset (n # s) (i # idx) = i * prod_list s + offset s idx"
| "offset s idx = 0"

definition elem :: "'a tensor \<Rightarrow> nat list \<Rightarrow> 'a" where
  "elem t idx = data t ! offset (shape t) idx"

definition mk :: "nat list \<Rightarrow> (nat list \<Rightarrow> 'a) \<Rightarrow> 'a tensor" where
  "mk s f = Tensor s (map f (indices s))"

definition valid_idx :: "nat list \<Rightarrow> nat list \<Rightarrow> bool" where
  "valid_idx s idx = list_all2 (<) idx s"

definition well_formed :: "'a tensor \<Rightarrow> bool" where
  "well_formed t = (length (data t) = prod_list (shape t))"

subsection \<open>The torch operations the module uses\<close>

text \<open>\<^verbatim>\<open>torch.zeros(*s)\<close>, \<^verbatim>\<open>torch.ones(*s, dtype=torch.bool)\<close> and \<^verbatim>\<open>m * 1.0\<close>.\<close>

definition zeros :: "nat list \<Rightarrow> real tensor" where
  "zeros s = mk s (\<lambda>idx. 0)"

definition ones_bool :: "nat list \<Rightarrow> bool tensor" where
  "ones_bool s = mk s (\<lambda>idx. True)"

definition to_float :: "bool tensor \<Rightarrow> real tensor" where
  "to_float m = mk (shape m) (\<lambda>idx. of_bool (elem m idx))"

text \<open>
  Broadcasting: shapes are aligned at their last dimension; two sizes are compatible when
  they are equal or one of them is 1. \<open>bidx s idx\<close> is the index of an operand of shape
  \<open>s\<close> that entry \<open>idx\<close> of the broadcast result reads. An incompatible pair of shapes
  raises \<^verbatim>\<open>RuntimeError\<close>.
\<close>

fun broadcast_rev :: "nat list \<Rightarrow> nat list \<Rightarrow> nat list option" where
  "broadcast_rev [] ys = Some ys"
| "broadcast_rev xs [] = Some xs"
| "broadcast_rev (x # xs) (y # ys) =
     (if x = y \<or> y = 1 then map_option ((#) x) (broadcast_rev xs ys)
      else if x = 1 then map_option ((#) y) (broadcast_rev xs ys)
      else None)"

definition broadcast_shapes :: "nat list \<Rightarrow> nat list \<Rightarrow> nat list option" where
  "broadcast_shapes s1 s2 = map_option rev (broadcast_rev (rev s1) (rev s2))"

definition bidx :: "nat list \<Rightarrow> nat list \<Rightarrow> nat list" where
  "bidx s idx = map2 (\<lambda>n i. if n = 1 then 0 else i) s (drop (length idx - length s) idx)"

definition binop :: "('a \<Rightarrow> 'b \<Rightarrow> 'c) \<Rightarrow> 'a tensor \<Rightarrow> 'b tensor \<Rightarrow> 'c tensor result" where
  "binop f x y =
     (case broadcast_shapes (shape x) (shape y) of
        None \<Rightarrow> Inl RuntimeError
      | Some s \<Rightarrow> Inr (mk s (\<lambda>idx. f (elem x (bidx (shape x) idx)) (elem y (bidx (shape y) idx)))))"

definition add :: "real tensor \<Rightarrow> real tensor \<Rightarrow> real tensor result" where
  "add x y = binop (+) x y"

text \<open>
  Indexing with \<^verbatim>\<open>None\<close>: \<open>unsqueeze k\<close> inserts a dimension of size 1 at position
  \<open>k\<close>. \<^verbatim>\<open>x[..., None]\<close> is \<open>unsqueeze_last\<close> and never fails; a subscript that
  writes \<open>ncolons\<close> explicit slices, such as \<^verbatim>\<open>mask[:, None, :]\<close>, raises
  \<^verbatim>\<open>IndexError\<close> on a tensor of smaller rank.
\<close>

definition unsqueeze :: "nat \<Rightarrow> 'a tensor \<Rightarrow> 'a tensor" where
  "unsqueeze k x =
     mk (take k (shape x) @ 1 # drop k (shape x)) (\<lambda>idx. elem x (take k idx @ drop (Suc k) idx))"

definition unsqueeze_last :: "'a tensor \<Rightarrow> 'a tensor" where
  "unsqueeze_last x = unsqueeze (length (shape x)) x"

definition index_none :: "nat \<Rightarrow> nat \<Rightarrow> 'a tensor \<Rightarrow> 'a tensor result" where
  "index_none ncolons k x =
     (if length (shape x) < ncolons then Inl IndexError else Inr (unsqueeze k x))"

text \<open>\<^verbatim>\<open>x * mask[..., None]\<close> with a boolean mask, and the product of two boolean masks.\<close>

definition mul_mask :: "real tensor \<Rightarrow> bool tensor \<Rightarrow> real tensor result" where
  "mul_mask x m = binop (\<lambda>v keep. v * of_bool keep) x (unsqueeze_last m)"

definition mul_bool :: "bool tensor \<Rightarrow> bool tensor \<Rightarrow> bool tensor result" where
  "mul_bool x y = binop (\<and>) x y"

text \<open>
  \<^verbatim>\<open>torch.cat([x, y], dim=d)\<close>: both tensors have the same rank and agree on every
  dimension but \<open>d\<close>. \<open>slice_from ncolons d r\<close> is the subscript that keeps positions
  \<open>r\<close> onwards along dimension \<open>d\<close>, written with \<open>ncolons\<close> explicit slices
  (\<^verbatim>\<open>x[:, r:, :]\<close> is \<open>slice_from 3 1 r x\<close>); \<^verbatim>\<open>t.expand(b, -1, -1)\<close> is
  \<open>expand_batch b t\<close>.
\<close>

definition cat :: "nat \<Rightarrow> 'a tensor \<Rightarrow> 'a tensor \<Rightarrow> 'a tensor result" where
  "cat d x y =
     (if d < length (shape x) \<and> length (shape x) = length (shape y)
         \<and> (shape x)[d := 0] = (shape y)[d := 0]
      then Inr (mk ((shape x)[d := shape x ! d + shape y ! d])
                  (\<lambda>idx. if idx ! d < shape x ! d then elem x idx
                         else elem y (idx[d := idx ! d - shape x ! d])))
      else Inl RuntimeError)"

definition slice_from :: "nat \<Rightarrow> nat \<Rightarrow> nat \<Rightarrow> 'a tensor \<Rightarrow> 'a tensor result" where
  "slice_from ncolons d r x =
     (if length (shape x) < ncolons \<or> length (shape x) \<le> d then Inl IndexError
      else Inr (mk ((shape x)[d := shape x ! d - r]) (\<lambda>idx. elem x (idx[d := idx ! d + r]))))"

definition expand_batch :: "nat \<Rightarrow> 'a tensor \<Rightarrow> 'a tensor result" where
  "expand_batch b x =
     (case shape x of
        [n0, n1, n2] \<Rightarrow>
          if n0 = 1 \<or> n0 = b
          then Inr (mk [b, n1, n2] (\<lambda>idx. elem x ((if n0 = 1 then 0 else hd idx) # tl idx)))
          else Inl RuntimeError
      | _ \<Rightarrow> Inl RuntimeError)"

text \<open>
  \<^verbatim>\<open>a, b = x.chunk(2, dim=-1)\<close>: a last dimension of size \<open>m\<close> is cut after
  \<open>(m + 1) div 2\<close> entries; a last dimension of size 1 gives one chunk only and the
  unpacking raises \<^verbatim>\<open>ValueError\<close>.
\<close>

definition narrow_last :: "nat \<Rightarrow> nat \<Rightarrow> 'a tensor \<Rightarrow> 'a tensor" where
  "narrow_last start len x =
     mk (butlast (shape x) @ [len]) (\<lambda>idx. elem x (butlast idx @ [last idx + start]))"

definition chunk2_last :: "'a tensor \<Rightarrow> ('a tensor \<times> 'a tensor) result" where
  "chunk2_last x =
     (if shape x = [] then Inl IndexError
      else let m = last (shape x); c = (m + 1) div 2 in
        if m = 1 then Inl ValueError
        else Inr (narrow_last 0 c x, narrow_last c (m - c) x))"

text \<open>\<^verbatim>\<open>torch.mean(x)\<close> as a 0-dimensional tensor, and a 0-dimensional tensor times a number.\<close>

definition mean :: "real tensor \<Rightarrow> real tensor" where
  "mean x = Tensor [] [sum_list (data x) / of_nat (length (data x))]"

definition scale :: "real tensor \<Rightarrow> real \<Rightarrow> real tensor" where
  "scale x a = mk (shape x) (\<lambda>idx. elem x idx * a)"

subsection \<open>\<^verbatim>\<open>torch.nn.Linear\<close> and \<^verbatim>\<open>torch.nn.LayerNorm\<close>\<close>

text \<open>
  Both act on the last dimension and raise \<^verbatim>\<open>RuntimeError\<close> when its size is not the
  one they were built for. \<open>weight L o j\<close> is the entry of the weight matrix at output
  \<open>o\<close> and input \<open>j\<close>; the layer norm uses the biased variance.
\<close>

record linear =
  in_features :: nat
  out_features :: nat
  weight :: "nat \<Rightarrow> nat \<Rightarrow> real"
  bias :: "(nat \<Rightarrow> real) option"

definition Linear_forward :: "linear \<Rightarrow> real tensor \<Rightarrow> real tensor result" where
  "Linear_forward L x =
     (if shape x = [] \<or> last (shape x) \<noteq> in_features L then Inl RuntimeError
      else Inr (mk (butlast (shape x) @ [out_features L])
        (\<lambda>idx. sum_list (map (\<lambda>j. elem x (butlast idx @ [j]) * weight L (last idx) j)
                              [0..<in_features L])
               + (case bias L of None \<Rightarrow> 0 | Some b \<Rightarrow> b (last idx)))))"

record layer_norm =
  normalized_shape :: nat
  ln_weight :: "nat \<Rightarrow> real"
  ln_bias :: "nat \<Rightarrow> real"
  eps :: real

definition LayerNorm_forward :: "layer_norm \<Rightarrow> real tensor \<Rightarrow> real tensor result" where
  "LayerNorm_forward N x =
     (if shape x = [] \<or> last (shape x) \<noteq> normalized_shape N then Inl RuntimeError
      else Inr (mk (shape x)
        (\<lambda>idx. let row = map (\<lambda>j. elem x (butlast idx @ [j])) [0..<normalized_shape N];
                  mu = sum_list row / of_nat (normalized_shape N);
                  var = sum_list (map (\<lambda>v. (v - mu)\<^sup>2) row) / of_nat (normalized_shape N)
              in (elem x idx - mu) / sqrt (var + eps N) * ln_weight N (last idx)
                 + ln_bias N (last idx))))"

definition LayerNorm :: "nat \<Rightarrow> (nat \<Rightarrow> real) \<Rightarrow> (nat \<Rightarrow> real) \<Rightarrow> layer_norm" where
  "LayerNorm d w b = \<lparr>normalized_shape = d, ln_weight = w, ln_bias = b, eps = 1 / 100000\<rparr>"

section \<open>External collaborators\<close>

text \<open>
  The feature factory, the adaptive layer norm and its output scale, SwiGLU, the
  pair-biased attention, the pair transition and the triangle multiplications are
  imported by the module and not defined in it. Each instance is a function that may
  raise; nothing is assumed about what it returns. \<^verbatim>\<open>checkpoint(f, *args)\<close> returns
  what \<^verbatim>\<open>f(*args)\<close> returns.
\<close>

record batch_nn =
  x_t :: "real tensor"
  batch_mask :: "bool tensor"
  other_fields :: "string \<Rightarrow> real tensor option"

type_synonym feature_factory = "batch_nn \<Rightarrow> real tensor result"
type_synonym adaptive = "real tensor \<Rightarrow> real tensor \<Rightarrow> bool tensor \<Rightarrow> real tensor result"
type_synonym swiglu = "real tensor \<Rightarrow> real tensor result"
type_synonym pair_bias_attention =
  "real tensor \<Rightarrow> real tensor option \<Rightarrow> bool tensor \<Rightarrow> real tensor result"
type_synonym pair_op = "real tensor \<Rightarrow> real tensor \<Rightarrow> real tensor result"

definition checkpoint :: "pair_op \<Rightarrow> real tensor \<Rightarrow> real tensor \<Rightarrow> real tensor result" where
  "checkpoint f p pm = f p pm"

section \<open>Transition and TransitionADALN\<close>

record transition_params =
  tp_ln_weight :: "nat \<Rightarrow> real"
  tp_ln_bias :: "nat \<Rightarrow> real"
  tp_swish_weight :: "nat \<Rightarrow> nat \<Rightarrow> real"
  tp_swiglu :: swiglu
  tp_out_weight :: "nat \<Rightarrow> nat \<Rightarrow> real"

record transition =
  use_layer_norm :: bool
  ln :: "layer_norm option"
  swish_linear_0 :: linear
  swish_linear_1 :: swiglu
  linear_out :: linear

definition Transition_init :: "transition_params \<Rightarrow> nat \<Rightarrow> nat \<Rightarrow> bool \<Rightarrow> transition" where
  "Transition_init p width expansion_factor layer_norm =
     (let dim_inner = width * expansion_factor in
      \<lparr>use_layer_norm = layer_norm,
       ln = (if layer_norm then Some (LayerNorm width (tp_ln_weight p) (tp_ln_bias p)) else None),
       swish_linear_0 = \<lparr>in_features = width, out_features = dim_inner * 2,
                         weight = tp_swish_weight p, bias = None\<rparr>,
       swish_linear_1 = tp_swiglu p,
       linear_out = \<lparr>in_features = dim_inner, out_features = width,
                     weight = tp_out_weight p, bias = None\<rparr>\<rparr>)"

definition Transition_forward :: "transition \<Rightarrow> real tensor \<Rightarrow> bool tensor \<Rightarrow> real tensor result" where
  "Transition_forward T x m =
     and_then (if use_layer_norm T
               then (case ln T of None \<Rightarrow> Inl AttributeError | Some N \<Rightarrow> LayerNorm_forward N x)
               else Inr x) (\<lambda>x.
     and_then (Linear_forward (swish_linear_0 T) x) (\<lambda>h.
     and_then (swish_linear_1 T h) (\<lambda>h.
     and_then (Linear_forward (linear_out T) h) (\<lambda>x.
     mul_mask x m))))"

record transition_adaln =
  ta_adaln :: adaptive
  ta_transition :: transition
  ta_scale_output :: adaptive

definition TransitionADALN_forward ::
  "transition_adaln \<Rightarrow> real tensor \<Rightarrow> real tensor \<Rightarrow> bool tensor \<Rightarrow> real tensor result" where
  "TransitionADALN_forward T x cond m =
     and_then (ta_adaln T x cond m) (\<lambda>x.
     and_then (Transition_forward (ta_transition T) x m) (\<lambda>x.
     and_then (ta_scale_output T x cond m) (\<lambda>x.
     mul_mask x m)))"

section \<open>MultiHeadBiasedAttentionADALN_MM\<close>

record mhba_adaln =
  ma_adaln :: adaptive
  ma_mha :: pair_bias_attention
  ma_scale_output :: adaptive

text \<open>
  \<^verbatim>\<open>MultiHeadBiasedAttentionADALN_MM.__init__\<close> starts with
  \<^verbatim>\<open>dim_head = int(dim_token // nheads)\<close>, which raises \<^verbatim>\<open>ZeroDivisionError\<close>
  when \<^verbatim>\<open>nheads\<close> is 0; the three sub-modules are external.
\<close>

definition MultiHeadBiasedAttentionADALN_MM_init ::
  "adaptive \<Rightarrow> pair_bias_attention \<Rightarrow> adaptive \<Rightarrow> nat \<Rightarrow> nat \<Rightarrow> mhba_adaln result" where
  "MultiHeadBiasedAttentionADALN_MM_init adaln attention scale_output dim_token n_heads =
     (if n_heads = 0 then Inl ZeroDivisionError
      else Inr \<lparr>ma_adaln = adaln, ma_mha = attention, ma_scale_output = scale_output\<rparr>)"

definition MultiHeadBiasedAttentionADALN_MM_forward ::
  "mhba_adaln \<Rightarrow> real tensor \<Rightarrow> real tensor option \<Rightarrow> real tensor \<Rightarrow> bool tensor
     \<Rightarrow> real tensor result" where
  "MultiHeadBiasedAttentionADALN_MM_forward A x pair_rep cond m =
     and_then (index_none 2 2 m) (\<lambda>m_col.
     and_then (index_none 2 1 m) (\<lambda>m_row.
     and_then (mul_bool m_col m_row) (\<lambda>pair_mask.
     and_then (ma_adaln A x cond m) (\<lambda>x.
     and_then (ma_mha A x pair_rep pair_mask) (\<lambda>x.
     and_then (ma_scale_output A x cond m) (\<lambda>x.
     mul_mask x m))))))"

section \<open>MultiheadAttnAndTransition\<close>

record block_params =
  bp_mhba_adaln :: adaptive
  bp_mhba_mha :: pair_bias_attention
  bp_mhba_scale_output :: adaptive
  bp_transition_adaln :: adaptive
  bp_transition :: transition_params
  bp_transition_scale_output :: adaptive

record block =
  parallel :: bool
  blk_use_attn_pair_bias :: bool
  residual_mha :: bool
  residual_transition :: bool
  mhba :: mhba_adaln
  blk_transition :: transition_adaln

text \<open>
  \<^verbatim>\<open>MultiheadAttnAndTransition.__init__\<close>, with the default \<^verbatim>\<open>expansion_factor=4\<close>
  passed explicitly by the caller of the model.
\<close>

definition MultiheadAttnAndTransition_init ::
  "block_params \<Rightarrow> nat \<Rightarrow> nat \<Rightarrow> nat \<Rightarrow> nat \<Rightarrow> bool \<Rightarrow> bool \<Rightarrow> bool \<Rightarrow> bool \<Rightarrow> bool \<Rightarrow> nat
     \<Rightarrow> block result" where
  "MultiheadAttnAndTransition_init p dim_token dim_pair n_heads dim_cond res_mha res_transition
       parallel_mha_transition use_pair_bias use_qk_ln expansion_factor =
     (let res_transition =
            (if parallel_mha_transition \<and> res_mha \<and> res_transition then False
             else res_transition) in
      and_then (MultiHeadBiasedAttentionADALN_MM_init (bp_mhba_adaln p) (bp_mhba_mha p)
                  (bp_mhba_scale_output p) dim_token n_heads) (\<lambda>attention.
      Inr \<lparr>parallel = parallel_mha_transition,
           blk_use_attn_pair_bias = use_pair_bias,
           residual_mha = res_mha,
           residual_transition = res_transition,
           mhba = attention,
           blk_transition = \<lparr>ta_adaln = bp_transition_adaln p,
                             ta_transition = Transition_init (bp_transition p) dim_token
                                               expansion_factor False,
                             ta_scale_output = bp_transition_scale_output p\<rparr>\<rparr>))"

definition apply_mha ::
  "block \<Rightarrow> real tensor \<Rightarrow> real tensor option \<Rightarrow> real tensor \<Rightarrow> bool tensor \<Rightarrow> real tensor result" where
  "apply_mha B x pair_rep cond m =
     and_then (MultiHeadBiasedAttentionADALN_MM_forward (mhba B) x pair_rep cond m) (\<lambda>x_attn.
     and_then (if residual_mha B then add x_attn x else Inr x_attn) (\<lambda>x_attn.
     mul_mask x_attn m))"

definition apply_transition ::
  "block \<Rightarrow> real tensor \<Rightarrow> real tensor \<Rightarrow> bool tensor \<Rightarrow> real tensor result" where
  "apply_transition B x cond m =
     and_then (TransitionADALN_forward (blk_transition B) x cond m) (\<lambda>x_tr.
     and_then (if residual_transition B then add x_tr x else Inr x_tr) (\<lambda>x_tr.
     mul_mask x_tr m))"

definition MultiheadAttnAndTransition_forward ::
  "block \<Rightarrow> real tensor \<Rightarrow> real tensor option \<Rightarrow> real tensor \<Rightarrow> bool tensor \<Rightarrow> real tensor result" where
  "MultiheadAttnAndTransition_forward B x pair_rep cond m =
     and_then (mul_mask x m) (\<lambda>x.
     and_then (if parallel B
               then and_then (apply_mha B x pair_rep cond m) (\<lambda>a.
                    and_then (apply_transition B x cond m) (\<lambda>t. add a t))
               else and_then (apply_mha B x pair_rep cond m) (\<lambda>x.
                    apply_transition B x cond m)) (\<lambda>x.
     mul_mask x m))"

section \<open>PairReprUpdate\<close>

record pair_update_params =
  pp_ln_weight :: "nat \<Rightarrow> real"
  pp_ln_bias :: "nat \<Rightarrow> real"
  pp_linear_x_weight :: "nat \<Rightarrow> nat \<Rightarrow> real"
  pp_tri_mult_out :: pair_op
  pp_tri_mult_in :: pair_op
  pp_transition_out :: pair_op

record pair_repr_update =
  pu_use_tri_mult :: bool
  layer_norm_in :: layer_norm
  linear_x :: linear
  tri_mult_out :: "pair_op option"
  tri_mult_in :: "pair_op option"
  transition_out :: pair_op

definition PairReprUpdate_init :: "pair_update_params \<Rightarrow> nat \<Rightarrow> nat \<Rightarrow> bool \<Rightarrow> pair_repr_update" where
  "PairReprUpdate_init p tok_dim pair_dim tri_mult =
     \<lparr>pu_use_tri_mult = tri_mult,
      layer_norm_in = LayerNorm tok_dim (pp_ln_weight p) (pp_ln_bias p),
      linear_x = \<lparr>in_features = tok_dim, out_features = 2 * pair_dim,
                  weight = pp_linear_x_weight p, bias = None\<rparr>,
      tri_mult_out = (if tri_mult then Some (pp_tri_mult_out p) else None),
      tri_mult_in = (if tri_mult then Some (pp_tri_mult_in p) else None),
      transition_out = pp_transition_out p\<rparr>"

definition apply_mask :: "real tensor \<Rightarrow> bool tensor \<Rightarrow> real tensor result" where
  "apply_mask pair_rep pair_mask = mul_mask pair_rep pair_mask"

definition pair_mask_of :: "bool tensor \<Rightarrow> bool tensor result" where
  "pair_mask_of m =
     and_then (index_none 2 1 m) (\<lambda>m_row.
     and_then (index_none 2 2 m) (\<lambda>m_col.
     mul_bool m_row m_col))"

text \<open>
  The first statements of \<^verbatim>\<open>PairReprUpdate.forward\<close>, up to the first
  \<^verbatim>\<open>_apply_mask\<close>: the pair mask, the masked token tensor, its layer norm and projection,
  the two chunks, and their broadcast sum with the pair tensor. The pair tensor can be
  \<^verbatim>\<open>None\<close> at the call; the first \<^verbatim>\<open>+\<close> then raises \<^verbatim>\<open>TypeError\<close>.
\<close>

definition outer_sum_step ::
  "pair_repr_update \<Rightarrow> real tensor \<Rightarrow> real tensor option \<Rightarrow> bool tensor
     \<Rightarrow> (real tensor \<times> bool tensor) result" where
  "outer_sum_step U x pair_rep m =
     and_then (pair_mask_of m) (\<lambda>pair_mask.
     and_then (mul_mask x m) (\<lambda>x.
     and_then (LayerNorm_forward (layer_norm_in U) x) (\<lambda>x_norm.
     and_then (Linear_forward (linear_x U) x_norm) (\<lambda>x_proj.
     and_then (chunk2_last x_proj) (\<lambda>(x_proj_1, x_proj_2).
     and_then (index_none 3 1 x_proj_1) (\<lambda>cols.
     and_then (case pair_rep of None \<Rightarrow> Inl TypeError | Some p \<Rightarrow> add p cols) (\<lambda>p.
     and_then (index_none 3 2 x_proj_2) (\<lambda>rows.
     and_then (add p rows) (\<lambda>p.
     and_then (apply_mask p pair_mask) (\<lambda>p.
     Inr (p, pair_mask)))))))))))"

definition residual_pair_op ::
  "pair_op \<Rightarrow> real tensor \<Rightarrow> bool tensor \<Rightarrow> real tensor result" where
  "residual_pair_op f p pair_mask =
     and_then (checkpoint f p (to_float pair_mask)) (\<lambda>delta.
     and_then (add p delta) (\<lambda>p.
     apply_mask p pair_mask))"

definition PairReprUpdate_forward ::
  "pair_repr_update \<Rightarrow> real tensor \<Rightarrow> real tensor option \<Rightarrow> bool tensor \<Rightarrow> real tensor result" where
  "PairReprUpdate_forward U x pair_rep m =
     and_then (outer_sum_step U x pair_rep m) (\<lambda>(p, pair_mask).
     and_then (if pu_use_tri_mult U
               then (case tri_mult_out U of None \<Rightarrow> Inl AttributeError | Some f \<Rightarrow>
                       and_then (residual_pair_op f p pair_mask) (\<lambda>p.
                       (case tri_mult_in U of None \<Rightarrow> Inl AttributeError | Some g \<Rightarrow>
                          residual_pair_op g p pair_mask)))
               else Inr p) (\<lambda>p.
     residual_pair_op (transition_out U) p pair_mask))"

section \<open>PairReprBuilder\<close>

record pair_builder_params =
  pb_init_repr :: feature_factory
  pb_cond :: feature_factory
  pb_adaln :: adaptive

record pair_repr_builder =
  prb_init_repr_factory :: feature_factory
  prb_cond_factory :: "feature_factory option"
  prb_adaln :: "adaptive option"

definition PairReprBuilder_init ::
  "pair_builder_params \<Rightarrow> string list option \<Rightarrow> pair_repr_builder" where
  "PairReprBuilder_init p feats_cond =
     (let without_cond = \<lparr>prb_init_repr_factory = pb_init_repr p, prb_cond_factory = None,
                            prb_adaln = None\<rparr>
      in case feats_cond of
           None \<Rightarrow> without_cond
         | Some fs \<Rightarrow>
             if 0 < length fs
             then \<lparr>prb_init_repr_factory = pb_init_repr p, prb_cond_factory = Some (pb_cond p),
                   prb_adaln = Some (pb_adaln p)\<rparr>
             else without_cond)"

definition PairReprBuilder_forward :: "pair_repr_builder \<Rightarrow> batch_nn \<Rightarrow> real tensor result" where
  "PairReprBuilder_forward B batch =
     (let m = batch_mask batch in
      and_then (index_none 2 2 m) (\<lambda>m_col.
      and_then (index_none 2 1 m) (\<lambda>m_row.
      and_then (mul_bool m_col m_row) (\<lambda>pair_mask.
      and_then (prb_init_repr_factory B batch) (\<lambda>repr.
      (case prb_cond_factory B of
         None \<Rightarrow> Inr repr
       | Some cf \<Rightarrow>
           and_then (cf batch) (\<lambda>cond.
           (case prb_adaln B of None \<Rightarrow> Inl AttributeError
            | Some f \<Rightarrow> f repr cond pair_mask))))))))"

section \<open>ProteinTransformerAF3\<close>

text \<open>
  The keyword arguments of the constructor. A key read with \<^verbatim>\<open>kwargs.get\<close> is an
  option, \<open>None\<close> when the key is absent; \<open>kw_feats_pair_cond\<close> is read
  with \<^verbatim>\<open>kwargs["feats_pair_cond"]\<close>, so its outer \<open>None\<close> is the absent key and raises
  \<^verbatim>\<open>KeyError\<close>. The feature lists that only reach the feature factory are left out.
\<close>

record kwargs =
  kw_use_attn_pair_bias :: bool
  kw_nlayers :: int
  kw_token_dim :: nat
  kw_pair_repr_dim :: nat
  kw_dim_cond :: nat
  kw_nheads :: nat
  kw_residual_mha :: bool
  kw_residual_transition :: bool
  kw_parallel_mha_transition :: bool
  kw_update_pair_repr :: "bool option"
  kw_update_pair_repr_every_n :: "int option"
  kw_use_tri_mult :: "bool option"
  kw_use_qkln :: "bool option"
  kw_num_buckets_predict_pair :: "nat option"
  kw_num_registers :: "int option"
  kw_feats_pair_cond :: "string list option option"

text \<open>
  The values of the learned parameters and the instances of the external modules, one
  per place where the constructor creates one. \<open>np_randn i k\<close> is the sample that
  \<^verbatim>\<open>torch.randn(num_registers, token_dim)\<close> draws at row \<open>i\<close>, column \<open>k\<close>.
\<close>

record net_params =
  np_randn :: "nat \<Rightarrow> nat \<Rightarrow> real"
  np_linear_3d_embed :: "nat \<Rightarrow> nat \<Rightarrow> real"
  np_init_repr_factory :: feature_factory
  np_cond_factory :: feature_factory
  np_transition_c_1 :: transition_params
  np_transition_c_2 :: transition_params
  np_pair_repr_builder :: pair_builder_params
  np_transformer_layers :: "nat \<Rightarrow> block_params"
  np_pair_update_layers :: "nat \<Rightarrow> pair_update_params"
  np_pair_head_ln_weight :: "nat \<Rightarrow> real"
  np_pair_head_ln_bias :: "nat \<Rightarrow> real"
  np_pair_head_weight :: "nat \<Rightarrow> nat \<Rightarrow> real"
  np_pair_head_bias :: "nat \<Rightarrow> real"
  np_decoder_ln_weight :: "nat \<Rightarrow> real"
  np_decoder_ln_bias :: "nat \<Rightarrow> real"
  np_decoder_weight :: "nat \<Rightarrow> nat \<Rightarrow> real"

record protein_transformer =
  use_attn_pair_bias :: bool
  nlayers :: int
  token_dim :: nat
  pair_repr_dim :: nat
  update_pair_repr :: bool
  update_pair_repr_every_n :: int
  use_tri_mult :: bool
  use_qkln :: bool
  num_buckets_predict_pair :: "nat option"
  num_registers :: nat
  registers :: "real tensor option"
  linear_3d_embed :: linear
  init_repr_factory :: feature_factory
  cond_factory :: feature_factory
  transition_c_1 :: transition
  transition_c_2 :: transition
  pair_repr_builder :: "pair_repr_builder option"
  transformer_layers :: "block list"
  pair_update_layers :: "pair_repr_update option list option"
  pair_head_prediction :: "(layer_norm \<times> linear) option"
  coors_3d_decoder :: "layer_norm \<times> linear"

subsection \<open>The constructor\<close>

text \<open>The register block of \<^verbatim>\<open>__init__\<close>: the count and the parameter.\<close>

definition init_registers :: "net_params \<Rightarrow> kwargs \<Rightarrow> nat \<times> real tensor option" where
  "init_registers p kw =
     (case kw_num_registers kw of
        None \<Rightarrow> (0, None)
      | Some k \<Rightarrow>
          if k \<le> 0 then (0, None)
          else (nat k, Some (mk [nat k, kw_token_dim kw]
                               (\<lambda>idx. np_randn p (idx ! 0) (idx ! 1) / 20))))"

text \<open>
  The pair builder and the reconciled \<^verbatim>\<open>self.update_pair_repr\<close>: without pair bias no
  builder is made and the flag is set to \<^verbatim>\<open>False\<close>.
\<close>

definition init_pair_repr ::
  "net_params \<Rightarrow> kwargs \<Rightarrow> (pair_repr_builder option \<times> bool) result" where
  "init_pair_repr p kw =
     (let requested = (case kw_update_pair_repr kw of None \<Rightarrow> False | Some u \<Rightarrow> u) in
      if kw_use_attn_pair_bias kw
      then (case kw_feats_pair_cond kw of
              None \<Rightarrow> Inl KeyError
            | Some feats_cond \<Rightarrow>
                Inr (Some (PairReprBuilder_init (np_pair_repr_builder p) feats_cond), requested))
      else Inr (None, False))"

text \<open>
  The list comprehension that fills \<^verbatim>\<open>self.pair_update_layers\<close>: one entry for every
  \<open>i\<close> in \<^verbatim>\<open>range(nlayers - 1)\<close>, a layer when \<^verbatim>\<open>i % update_pair_repr_every_n == 0\<close>
  and \<^verbatim>\<open>None\<close> otherwise. The remainder by zero raises.
\<close>

definition init_pair_update_layers ::
  "net_params \<Rightarrow> kwargs \<Rightarrow> int \<Rightarrow> bool \<Rightarrow> pair_repr_update option list result" where
  "init_pair_update_layers p kw every_n tri_mult =
     (if every_n = 0 \<and> 0 < nat (kw_nlayers kw - 1) then Inl ZeroDivisionError
      else Inr (map (\<lambda>i. if int i mod every_n = 0
                          then Some (PairReprUpdate_init (np_pair_update_layers p i)
                                       (kw_token_dim kw) (kw_pair_repr_dim kw) tri_mult)
                          else None)
                    [0..<nat (kw_nlayers kw - 1)]))"

text \<open>
  The list comprehension that fills \<^verbatim>\<open>self.transformer_layers\<close>: one block for every
  index in \<^verbatim>\<open>range(nlayers)\<close>.
\<close>

definition init_transformer_layers :: "net_params \<Rightarrow> kwargs \<Rightarrow> bool \<Rightarrow> block list result" where
  "init_transformer_layers p kw qkln =
     collect (map (\<lambda>i. MultiheadAttnAndTransition_init (np_transformer_layers p i)
                          (kw_token_dim kw) (kw_pair_repr_dim kw) (kw_nheads kw) (kw_dim_cond kw)
                          (kw_residual_mha kw) (kw_residual_transition kw)
                          (kw_parallel_mha_transition kw) (kw_use_attn_pair_bias kw) qkln 4)
                  [0..<nat (kw_nlayers kw)])"

text \<open>
  \<^verbatim>\<open>ProteinTransformerAF3.__init__\<close>. The statements that can raise run in the order of
  the source: the pair builder, the trunk blocks, the pair update layers.
\<close>

definition ProteinTransformerAF3_init :: "net_params \<Rightarrow> kwargs \<Rightarrow> protein_transformer result" where
  "ProteinTransformerAF3_init p kw =
     (let every_n = (case kw_update_pair_repr_every_n kw of None \<Rightarrow> 2 | Some n \<Rightarrow> n);
          tri_mult = (case kw_use_tri_mult kw of None \<Rightarrow> False | Some u \<Rightarrow> u);
          qkln = (case kw_use_qkln kw of None \<Rightarrow> False | Some u \<Rightarrow> u);
          buckets = kw_num_buckets_predict_pair kw;
          (n_reg, regs) = init_registers p kw
      in
      and_then (init_pair_repr p kw) (\<lambda>(builder, update).
      and_then (init_transformer_layers p kw qkln) (\<lambda>blocks.
      and_then (if update
                then and_then (init_pair_update_layers p kw every_n tri_mult) (\<lambda>layers.
                       Inr (Some layers,
                            (case buckets of
                               None \<Rightarrow> None
                             | Some nb \<Rightarrow>
                                 Some (LayerNorm (kw_pair_repr_dim kw) (np_pair_head_ln_weight p)
                                         (np_pair_head_ln_bias p),
                                       \<lparr>in_features = kw_pair_repr_dim kw, out_features = nb,
                                        weight = np_pair_head_weight p,
                                        bias = Some (np_pair_head_bias p)\<rparr>))))
                else Inr (None, None)) (\<lambda>(update_layers, head).
      Inr \<lparr>use_attn_pair_bias = kw_use_attn_pair_bias kw,
           nlayers = kw_nlayers kw,
           token_dim = kw_token_dim kw,
           pair_repr_dim = kw_pair_repr_dim kw,
           update_pair_repr = update,
           update_pair_repr_every_n = every_n,
           use_tri_mult = tri_mult,
           use_qkln = qkln,
           num_buckets_predict_pair = buckets,
           num_registers = n_reg,
           registers = regs,
           linear_3d_embed = \<lparr>in_features = 3, out_features = kw_token_dim kw,
                              weight = np_linear_3d_embed p, bias = None\<rparr>,
           init_repr_factory = np_init_repr_factory p,
           cond_factory = np_cond_factory p,
           transition_c_1 = Transition_init (np_transition_c_1 p) (kw_dim_cond kw) 2 False,
           transition_c_2 = Transition_init (np_transition_c_2 p) (kw_dim_cond kw) 2 False,
           pair_repr_builder = builder,
           transformer_layers = blocks,
           pair_update_layers = update_layers,
           pair_head_prediction = head,
           coors_3d_decoder =
             (LayerNorm (kw_token_dim kw) (np_decoder_ln_weight p) (np_decoder_ln_bias p),
              \<lparr>in_features = kw_token_dim kw, out_features = 3,
               weight = np_decoder_weight p, bias = None\<rparr>)\<rparr>))))"

subsection \<open>Registers\<close>

text \<open>
  \<^verbatim>\<open>_extend_w_registers\<close>. With registers, \<^verbatim>\<open>b, n, _ = seqs.shape\<close> needs a tensor of
  rank 3, and \<^verbatim>\<open>pair.shape[-1]\<close> is evaluated whether or not a pair tensor was built:
  on \<^verbatim>\<open>None\<close> it raises \<^verbatim>\<open>AttributeError\<close>.
\<close>

definition extend_w_registers ::
  "protein_transformer \<Rightarrow> real tensor \<Rightarrow> real tensor option \<Rightarrow> bool tensor \<Rightarrow> real tensor
     \<Rightarrow> (real tensor \<times> real tensor option \<times> bool tensor \<times> real tensor) result" where
  "extend_w_registers net seqs pair m cond_seq =
     (if num_registers net = 0 then Inr (seqs, pair, m, cond_seq)
      else case shape seqs of
        [b, n, d] \<Rightarrow>
          (case pair of
             None \<Rightarrow> Inl AttributeError
           | Some pair_t \<Rightarrow>
               if shape pair_t = [] then Inl IndexError
               else if shape cond_seq = [] then Inl IndexError
               else
                 let dim_pair = last (shape pair_t);
                     r = num_registers net;
                     dim_c = last (shape cond_seq)
                 in (case registers net of
                       None \<Rightarrow> Inl TypeError
                     | Some regs \<Rightarrow>
                         and_then (index_none 2 0 regs) (\<lambda>reg_expanded.
                         and_then (expand_batch b reg_expanded) (\<lambda>reg_expanded.
                         and_then (cat 1 reg_expanded seqs) (\<lambda>seqs.
                         and_then (cat 1 (ones_bool [b, r]) m) (\<lambda>m.
                         and_then (cat 1 (zeros [b, r, n, dim_pair]) pair_t) (\<lambda>pair_t.
                         and_then (cat 2 (zeros [b, r + n, r, dim_pair]) pair_t) (\<lambda>pair_t.
                         and_then (cat 1 (zeros [b, r, dim_c]) cond_seq) (\<lambda>cond_seq.
                         Inr (seqs, Some pair_t, m, cond_seq))))))))))
      | _ \<Rightarrow> Inl ValueError)"

text \<open>\<^verbatim>\<open>_undo_registers\<close>; subscripting \<^verbatim>\<open>None\<close> raises \<^verbatim>\<open>TypeError\<close>.\<close>

definition undo_registers ::
  "protein_transformer \<Rightarrow> real tensor \<Rightarrow> real tensor option \<Rightarrow> bool tensor
     \<Rightarrow> (real tensor \<times> real tensor option \<times> bool tensor) result" where
  "undo_registers net seqs pair m =
     (if num_registers net = 0 then Inr (seqs, pair, m)
      else let r = num_registers net in
        and_then (slice_from 3 1 r seqs) (\<lambda>seqs.
        and_then (case pair of
                    None \<Rightarrow> Inl TypeError
                  | Some pair_t \<Rightarrow>
                      and_then (slice_from 4 1 r pair_t) (\<lambda>pair_t. slice_from 4 2 r pair_t))
                 (\<lambda>pair_t.
        and_then (slice_from 2 1 r m) (\<lambda>m.
        Inr (seqs, Some pair_t, m)))))"

subsection \<open>The forward pass\<close>

text \<open>
  The statements of \<^verbatim>\<open>forward\<close> in their order, each group a definition of its own:
  the conditioning, the initial token tensor, the pair tensor, the register extension,
  the trunk loop, and the decoding. \<open>forward_repr\<close> is \<^verbatim>\<open>forward\<close> up to and including
  \<^verbatim>\<open>_undo_registers\<close>; \<open>forward\<close> is the whole method.
\<close>

definition conditioning :: "protein_transformer \<Rightarrow> batch_nn \<Rightarrow> real tensor result" where
  "conditioning net batch =
     (let m = batch_mask batch in
      and_then (cond_factory net batch) (\<lambda>c.
      and_then (Transition_forward (transition_c_1 net) c m) (\<lambda>c.
      Transition_forward (transition_c_2 net) c m)))"

definition initial_seqs :: "protein_transformer \<Rightarrow> batch_nn \<Rightarrow> real tensor result" where
  "initial_seqs net batch =
     (let m = batch_mask batch in
      and_then (mul_mask (x_t batch) m) (\<lambda>coors_3d.
      and_then (Linear_forward (linear_3d_embed net) coors_3d) (\<lambda>embedded.
      and_then (mul_mask embedded m) (\<lambda>coors_embed.
      and_then (init_repr_factory net batch) (\<lambda>seq_f_repr.
      and_then (add coors_embed seq_f_repr) (\<lambda>seqs.
      mul_mask seqs m))))))"

definition initial_pair :: "protein_transformer \<Rightarrow> batch_nn \<Rightarrow> real tensor option result" where
  "initial_pair net batch =
     (if use_attn_pair_bias net
      then (case pair_repr_builder net of
              None \<Rightarrow> Inl AttributeError
            | Some B \<Rightarrow> and_then (PairReprBuilder_forward B batch) (\<lambda>p. Inr (Some p)))
      else Inr None)"

text \<open>
  The three nested tests that guard the pair update after block \<open>i\<close>:
  \<^verbatim>\<open>if self.update_pair_repr\<close>, \<^verbatim>\<open>if i < self.nlayers - 1\<close>, and
  \<^verbatim>\<open>if self.pair_update_layers[i] is not None\<close>. \<open>pair_update_at net i\<close> is the
  update layer that runs after block \<open>i\<close>, or \<open>None\<close> when none does.
\<close>

definition pair_update_at :: "protein_transformer \<Rightarrow> nat \<Rightarrow> pair_repr_update option result" where
  "pair_update_at net i =
     (if update_pair_repr net then
        if int i < nlayers net - 1 then
          (case pair_update_layers net of
             None \<Rightarrow> Inl AttributeError
           | Some layers \<Rightarrow> if length layers \<le> i then Inl IndexError else Inr (layers ! i))
        else Inr None
      else Inr None)"

text \<open>One iteration of the trunk loop: block \<open>i\<close>, then the guarded pair update.\<close>

definition trunk_step ::
  "protein_transformer \<Rightarrow> real tensor \<Rightarrow> bool tensor \<Rightarrow> nat \<Rightarrow> real tensor \<times> real tensor option
     \<Rightarrow> (real tensor \<times> real tensor option) result" where
  "trunk_step net c m i st =
     (case st of (seqs, pair_rep) \<Rightarrow>
      if length (transformer_layers net) \<le> i then Inl IndexError
      else
        and_then (MultiheadAttnAndTransition_forward (transformer_layers net ! i)
                    seqs pair_rep c m) (\<lambda>seqs.
        and_then (pair_update_at net i) (\<lambda>layer.
        (case layer of
           None \<Rightarrow> Inr (seqs, pair_rep)
         | Some U \<Rightarrow>
             and_then (PairReprUpdate_forward U seqs pair_rep m) (\<lambda>p.
             Inr (seqs, Some p))))))"

fun trunk_loop ::
  "protein_transformer \<Rightarrow> real tensor \<Rightarrow> bool tensor \<Rightarrow> nat list
     \<Rightarrow> real tensor \<times> real tensor option \<Rightarrow> (real tensor \<times> real tensor option) result" where
  "trunk_loop net c m [] st = Inr st"
| "trunk_loop net c m (i # rest) st =
     and_then (trunk_step net c m i st) (trunk_loop net c m rest)"

definition run_trunk ::
  "protein_transformer \<Rightarrow> real tensor \<Rightarrow> real tensor option \<Rightarrow> real tensor \<Rightarrow> bool tensor
     \<Rightarrow> (real tensor \<times> real tensor option) result" where
  "run_trunk net seqs pair_rep c m = trunk_loop net c m [0..<nat (nlayers net)] (seqs, pair_rep)"

text \<open>
  \<open>trunk_inputs\<close> is \<^verbatim>\<open>forward\<close> up to and including \<^verbatim>\<open>_extend_w_registers\<close>:
  the four values the trunk loop starts from.
\<close>

definition trunk_inputs ::
  "protein_transformer \<Rightarrow> batch_nn
     \<Rightarrow> (real tensor \<times> real tensor option \<times> bool tensor \<times> real tensor) result" where
  "trunk_inputs net batch =
     and_then (conditioning net batch) (\<lambda>c.
     and_then (initial_seqs net batch) (\<lambda>seqs.
     and_then (initial_pair net batch) (\<lambda>pair_rep.
     extend_w_registers net seqs pair_rep (batch_mask batch) c)))"

definition forward_repr ::
  "protein_transformer \<Rightarrow> batch_nn \<Rightarrow> (real tensor \<times> real tensor option \<times> bool tensor) result" where
  "forward_repr net batch =
     and_then (trunk_inputs net batch) (\<lambda>(seqs, pair_rep, m, c).
     and_then (run_trunk net seqs pair_rep c m) (\<lambda>(seqs, pair_rep).
     undo_registers net seqs pair_rep m))"

record nn_out =
  pair_pred :: "real tensor option"
  coors_pred :: "real tensor"

definition sequential_ln_linear :: "layer_norm \<times> linear \<Rightarrow> real tensor \<Rightarrow> real tensor result" where
  "sequential_ln_linear layers x =
     and_then (LayerNorm_forward (fst layers) x) (Linear_forward (snd layers))"

definition decode ::
  "protein_transformer \<Rightarrow> real tensor \<Rightarrow> real tensor option \<Rightarrow> bool tensor \<Rightarrow> nn_out result" where
  "decode net seqs pair_rep m =
     and_then (sequential_ln_linear (coors_3d_decoder net) seqs) (\<lambda>decoded.
     and_then (mul_mask decoded m) (\<lambda>final_coors.
     if update_pair_repr net \<and> num_buckets_predict_pair net \<noteq> None
     then (case pair_head_prediction net of
             None \<Rightarrow> Inl AttributeError
           | Some head \<Rightarrow>
               (case pair_rep of
                  None \<Rightarrow> Inl TypeError
                | Some p \<Rightarrow>
                    and_then (sequential_ln_linear head p) (\<lambda>pair_pred_t.
                    and_then (add final_coors (scale (mean pair_pred_t) 0)) (\<lambda>final_coors.
                    and_then (mul_mask final_coors m) (\<lambda>final_coors.
                    Inr \<lparr>pair_pred = Some pair_pred_t, coors_pred = final_coors\<rparr>)))))
     else Inr \<lparr>pair_pred = None, coors_pred = final_coors\<rparr>))"

definition forward :: "protein_transformer \<Rightarrow> batch_nn \<Rightarrow> nn_out result" where
  "forward net batch =
     and_then (forward_repr net batch) (\<lambda>(seqs, pair_rep, m). decode net seqs pair_rep m)"

section \<open>The schedule of pair updates in the words of the specification\<close>

text \<open>
  The specification states the schedule as one condition on the block index: a pair
  update runs after block \<open>i\<close> when updates are enabled, \<open>i < nlayers - 1\<close> and
  \<open>i mod update_pair_repr_every_n = 0\<close>. The definitions below follow that sentence,
  not the code: \<open>scheduled\<close> is the condition, \<open>scheduled_step\<close> is block \<open>i\<close>
  followed by the update layer of index \<open>i\<close> when the condition holds, and
  \<open>scheduled_forward_repr\<close> runs these steps for the blocks \<open>0, \<dots>, nlayers - 1\<close>
  between the register extension and its undoing. The code instead fills a list of
  optional layers in the constructor and tests three nested conditions in the loop; the
  theorem on the schedule compares the two.
\<close>

definition scheduled :: "protein_transformer \<Rightarrow> nat \<Rightarrow> bool" where
  "scheduled net i =
     (update_pair_repr net \<and> int i < nlayers net - 1
      \<and> int i mod update_pair_repr_every_n net = 0)"

definition scheduled_step ::
  "net_params \<Rightarrow> protein_transformer \<Rightarrow> real tensor \<Rightarrow> bool tensor \<Rightarrow> nat
     \<Rightarrow> real tensor \<times> real tensor option \<Rightarrow> (real tensor \<times> real tensor option) result" where
  "scheduled_step p net c m i st =
     (case st of (seqs, pair_rep) \<Rightarrow>
        and_then (MultiheadAttnAndTransition_forward (transformer_layers net ! i)
                    seqs pair_rep c m) (\<lambda>seqs.
        if scheduled net i
        then and_then (PairReprUpdate_forward
                         (PairReprUpdate_init (np_pair_update_layers p i) (token_dim net)
                            (pair_repr_dim net) (use_tri_mult net))
                         seqs pair_rep m) (\<lambda>pair_rep. Inr (seqs, Some pair_rep))
        else Inr (seqs, pair_rep)))"

fun scheduled_loop ::
  "net_params \<Rightarrow> protein_transformer \<Rightarrow> real tensor \<Rightarrow> bool tensor \<Rightarrow> nat list
     \<Rightarrow> real tensor \<times> real tensor option \<Rightarrow> (real tensor \<times> real tensor option) result" where
  "scheduled_loop p net c m [] st = Inr st"
| "scheduled_loop p net c m (i # rest) st =
     and_then (scheduled_step p net c m i st) (scheduled_loop p net c m rest)"

definition scheduled_forward_repr ::
  "net_params \<Rightarrow> protein_transformer \<Rightarrow> batch_nn
     \<Rightarrow> (real tensor \<times> real tensor option \<times> bool tensor) result" where
  "scheduled_forward_repr p net batch =
     and_then (trunk_inputs net batch) (\<lambda>(seqs, pair_rep, m, c).
     and_then (scheduled_loop p net c m [0..<nat (nlayers net)] (seqs, pair_rep))
       (\<lambda>(seqs, pair_rep).
     undo_registers net seqs pair_rep m))"

section \<open>Contracts of the external modules\<close>

text \<open>
  The shape contracts the external modules document: an adaptive layer norm, an adaptive
  output scale and an attention return a tensor of the shape of their first argument,
  and SwiGLU halves the last dimension. They are hypotheses of the theorems that say a
  result is produced; the theorems about values do not need them.
\<close>

definition keeps_shape :: "adaptive \<Rightarrow> bool" where
  "keeps_shape f = (\<forall>x cond m. \<exists>y. f x cond m = Inr y \<and> shape y = shape x)"

definition attention_keeps_shape :: "pair_bias_attention \<Rightarrow> bool" where
  "attention_keeps_shape f = (\<forall>x pair_rep pair_mask. \<exists>y. f x pair_rep pair_mask = Inr y \<and> shape y = shape x)"

definition swiglu_halves :: "swiglu \<Rightarrow> bool" where
  "swiglu_halves f =
     (\<forall>x. shape x \<noteq> [] \<longrightarrow>
        (\<exists>y. f x = Inr y \<and> shape y = butlast (shape x) @ [last (shape x) div 2]))"

definition block_contract :: "block_params \<Rightarrow> bool" where
  "block_contract bp =
     (keeps_shape (bp_mhba_adaln bp) \<and> attention_keeps_shape (bp_mhba_mha bp)
      \<and> keeps_shape (bp_mhba_scale_output bp) \<and> keeps_shape (bp_transition_adaln bp)
      \<and> swiglu_halves (tp_swiglu (bp_transition bp))
      \<and> keeps_shape (bp_transition_scale_output bp))"

text \<open>
  For the pair update: the pair transition and the triangle multiplications return a
  tensor of the shape of the pair tensor they are given. \<open>net_contract\<close> collects the
  contracts of every external module of a network for one batch, with the documented
  shapes of the batch: the feature factories return tensors \<open>[b, n, width]\<close> (sequence
  mode) or \<open>[b, n, n, width]\<close> (pair mode).
\<close>

definition pair_op_keeps_shape :: "pair_op \<Rightarrow> bool" where
  "pair_op_keeps_shape f = (\<forall>p pair_mask. \<exists>y. f p pair_mask = Inr y \<and> shape y = shape p)"

definition pair_update_contract :: "pair_update_params \<Rightarrow> bool" where
  "pair_update_contract pp =
     (pair_op_keeps_shape (pp_tri_mult_out pp) \<and> pair_op_keeps_shape (pp_tri_mult_in pp)
      \<and> pair_op_keeps_shape (pp_transition_out pp))"

definition returns_shape :: "feature_factory \<Rightarrow> batch_nn \<Rightarrow> nat list \<Rightarrow> bool" where
  "returns_shape f batch s = (\<exists>y. f batch = Inr y \<and> shape y = s)"

definition net_contract :: "net_params \<Rightarrow> kwargs \<Rightarrow> batch_nn \<Rightarrow> bool" where
  "net_contract p kw batch =
     (case shape (batch_mask batch) of
        [b, n] \<Rightarrow>
          shape (x_t batch) = [b, n, 3]
          \<and> returns_shape (np_cond_factory p) batch [b, n, kw_dim_cond kw]
          \<and> returns_shape (np_init_repr_factory p) batch [b, n, kw_token_dim kw]
          \<and> swiglu_halves (tp_swiglu (np_transition_c_1 p))
          \<and> swiglu_halves (tp_swiglu (np_transition_c_2 p))
          \<and> returns_shape (pb_init_repr (np_pair_repr_builder p)) batch
                [b, n, n, kw_pair_repr_dim kw]
          \<and> returns_shape (pb_cond (np_pair_repr_builder p)) batch [b, n, n, kw_dim_cond kw]
          \<and> keeps_shape (pb_adaln (np_pair_repr_builder p))
          \<and> (\<forall>i<nat (kw_nlayers kw). block_contract (np_transformer_layers p i))
          \<and> (\<forall>i<nat (kw_nlayers kw). pair_update_contract (np_pair_update_layers p i))
      | _ \<Rightarrow> False)"

section \<open>Sample inputs\<close>

text \<open>
  Concrete instances on which the theorems below are evaluated: external modules that
  keep the shape of their input (the SwiGLU halves the last dimension, as the real one
  does), feature factories that return tensors of ones, all weights 1, and a batch of
  one sample with two positions of which the second is padding.
\<close>

definition demo_adaptive :: adaptive where
  "demo_adaptive x cond m = Inr x"

definition demo_swiglu :: swiglu where
  "demo_swiglu x = Inr (narrow_last 0 (last (shape x) div 2) x)"

definition demo_attention :: pair_bias_attention where
  "demo_attention x pair_rep pair_mask = Inr x"

definition demo_pair_op :: pair_op where
  "demo_pair_op p pair_mask = Inr p"

definition demo_seq_factory :: "nat \<Rightarrow> feature_factory" where
  "demo_seq_factory d batch = Inr (mk (shape (batch_mask batch) @ [d]) (\<lambda>idx. 1))"

definition demo_pair_factory :: "nat \<Rightarrow> feature_factory" where
  "demo_pair_factory d batch =
     (case shape (batch_mask batch) of
        [b, n] \<Rightarrow> Inr (mk [b, n, n, d] (\<lambda>idx. 1))
      | _ \<Rightarrow> Inl RuntimeError)"

definition demo_transition_params :: transition_params where
  "demo_transition_params =
     \<lparr>tp_ln_weight = (\<lambda>k. 1), tp_ln_bias = (\<lambda>k. 0), tp_swish_weight = (\<lambda>out j. 1),
      tp_swiglu = demo_swiglu, tp_out_weight = (\<lambda>out j. 1)\<rparr>"

definition demo_block_params :: block_params where
  "demo_block_params =
     \<lparr>bp_mhba_adaln = demo_adaptive, bp_mhba_mha = demo_attention,
      bp_mhba_scale_output = demo_adaptive, bp_transition_adaln = demo_adaptive,
      bp_transition = demo_transition_params, bp_transition_scale_output = demo_adaptive\<rparr>"

definition demo_pair_update_params :: pair_update_params where
  "demo_pair_update_params =
     \<lparr>pp_ln_weight = (\<lambda>k. 1), pp_ln_bias = (\<lambda>k. 0), pp_linear_x_weight = (\<lambda>out j. 1),
      pp_tri_mult_out = demo_pair_op, pp_tri_mult_in = demo_pair_op,
      pp_transition_out = demo_pair_op\<rparr>"

definition demo_params :: net_params where
  "demo_params =
     \<lparr>np_randn = (\<lambda>i k. 1),
      np_linear_3d_embed = (\<lambda>out j. 1),
      np_init_repr_factory = demo_seq_factory 1,
      np_cond_factory = demo_seq_factory 1,
      np_transition_c_1 = demo_transition_params,
      np_transition_c_2 = demo_transition_params,
      np_pair_repr_builder = \<lparr>pb_init_repr = demo_pair_factory 1, pb_cond = demo_pair_factory 1,
                               pb_adaln = demo_adaptive\<rparr>,
      np_transformer_layers = (\<lambda>i. demo_block_params),
      np_pair_update_layers = (\<lambda>i. demo_pair_update_params),
      np_pair_head_ln_weight = (\<lambda>k. 1),
      np_pair_head_ln_bias = (\<lambda>k. 0),
      np_pair_head_weight = (\<lambda>out j. 1),
      np_pair_head_bias = (\<lambda>out. 1),
      np_decoder_ln_weight = (\<lambda>k. 1),
      np_decoder_ln_bias = (\<lambda>k. 0),
      np_decoder_weight = (\<lambda>out j. 1)\<rparr>"

definition demo_kwargs :: kwargs where
  "demo_kwargs =
     \<lparr>kw_use_attn_pair_bias = True, kw_nlayers = 2, kw_token_dim = 1, kw_pair_repr_dim = 1,
      kw_dim_cond = 1, kw_nheads = 1, kw_residual_mha = True, kw_residual_transition = True,
      kw_parallel_mha_transition = False, kw_update_pair_repr = Some True,
      kw_update_pair_repr_every_n = None, kw_use_tri_mult = Some True, kw_use_qkln = None,
      kw_num_buckets_predict_pair = None, kw_num_registers = None,
      kw_feats_pair_cond = Some (Some [])\<rparr>"

definition demo_batch :: batch_nn where
  "demo_batch =
     \<lparr>x_t = mk [1, 2, 3] (\<lambda>idx. 1), batch_mask = mk [1, 2] (\<lambda>idx. idx ! 1 = 0),
      other_fields = (\<lambda>name. None)\<rparr>"

text \<open>
  A network of six blocks with an update every two blocks, whose pair transition of
  index \<open>i\<close> returns the constant \<open>10 ^ i\<close>: the pair tensor that the forward pass
  returns then records which updates ran.
\<close>

definition demo_tagged_op :: "nat \<Rightarrow> pair_op" where
  "demo_tagged_op i p pair_mask = Inr (mk (shape p) (\<lambda>idx. 10 ^ i))"

definition demo_schedule_params :: net_params where
  "demo_schedule_params =
     demo_params\<lparr>np_pair_update_layers :=
       (\<lambda>i. demo_pair_update_params\<lparr>pp_transition_out := demo_tagged_op i\<rparr>)\<rparr>"

definition demo_schedule_kwargs :: kwargs where
  "demo_schedule_kwargs =
     demo_kwargs\<lparr>kw_nlayers := 6, kw_update_pair_repr_every_n := Some 2,
                 kw_use_tri_mult := Some False\<rparr>"

text \<open>
  A pair update on tokens of width 2 whose projection sends the first normalised feature
  to \<open>x_proj_1\<close> and ten times that feature to \<open>x_proj_2\<close>, so that the column's and
  the row's contributions differ; its pair transition returns zeros. There are three
  positions, the last one padding; the first two token vectors have mean 0 and variance
  \<open>81 / 4000000\<close>, so that the layer norm divides by \<open>sqrt (121 / 4000000) = 11 / 2000\<close>.
\<close>

definition demo_zero_op :: pair_op where
  "demo_zero_op p pair_mask = Inr (mk (shape p) (\<lambda>idx. 0))"

definition demo_outer_sum_params :: pair_update_params where
  "demo_outer_sum_params =
     \<lparr>pp_ln_weight = (\<lambda>k. 1), pp_ln_bias = (\<lambda>k. 0),
      pp_linear_x_weight = (\<lambda>out j. if j = 0 then (if out = 0 then 1 else 10) else 0),
      pp_tri_mult_out = demo_pair_op, pp_tri_mult_in = demo_pair_op,
      pp_transition_out = demo_zero_op\<rparr>"

definition demo_tokens :: "real tensor" where
  "demo_tokens = Tensor [1, 3, 2] [9 / 2000, - 9 / 2000, - 9 / 2000, 9 / 2000, 5, 7]"

definition demo_mask3 :: "bool tensor" where
  "demo_mask3 = Tensor [1, 3] [True, True, False]"

definition demo_pair3 :: "real tensor" where
  "demo_pair3 = Tensor [1, 3, 3, 1] [1, 1, 1, 1, 1, 1, 1, 1, 1]"

section \<open>Facts about tensors\<close>

lemma length_indices: "length (indices s) = prod_list s"
proof (induction s)
  case Nil then show ?case by simp
next
  case (Cons n s)
  have "length (concat (map (\<lambda>i. map ((#) i) (indices s)) [0..<n])) = n * length (indices s)"
    by (induction n) simp_all
  with Cons show ?case by simp
qed

lemma nth_concat_blocks:
  assumes "\<And>i. i < n \<Longrightarrow> length (f i) = m" and "i < n" and "k < m"
  shows "concat (map f [0..<n]) ! (i * m + k) = f i ! k"
  using assms
proof (induction n)
  case 0 then show ?case by simp
next
  case (Suc n)
  have len: "length (concat (map f [0..<n])) = n * m"
    using Suc.prems(1) by (induction n) simp_all
  show ?case
  proof (cases "i < n")
    case True
    have "i * m + k < n * m"
    proof -
      have "i * m + k < i * m + m" using Suc.prems by simp
      also have "\<dots> = Suc i * m" by simp
      also have "\<dots> \<le> n * m" using True by (intro mult_le_mono1) simp
      finally show ?thesis .
    qed
    with Suc True len show ?thesis by (simp add: nth_append)
  next
    case False
    with Suc.prems have "i = n" by simp
    with len Suc.prems show ?thesis by (simp add: nth_append)
  qed
qed

lemma offset_indices:
  "valid_idx s idx \<Longrightarrow> offset s idx < prod_list s \<and> indices s ! offset s idx = idx"
proof (induction s arbitrary: idx)
  case Nil then show ?case by (simp add: valid_idx_def)
next
  case (Cons n s)
  from Cons.prems obtain i js where idx: "idx = i # js" and i: "i < n" and js: "valid_idx s js"
    by (auto simp: valid_idx_def list_all2_Cons2)
  from Cons.IH[OF js] have lt: "offset s js < prod_list s" and nth: "indices s ! offset s js = js"
    by auto
  have "i * prod_list s + offset s js < i * prod_list s + prod_list s" using lt by simp
  also have "\<dots> = Suc i * prod_list s" by simp
  also have "\<dots> \<le> n * prod_list s" using i by (intro mult_le_mono1) simp
  finally have bound: "i * prod_list s + offset s js < n * prod_list s" .
  have "concat (map (\<lambda>i. map ((#) i) (indices s)) [0..<n]) ! (i * prod_list s + offset s js)
        = map ((#) i) (indices s) ! offset s js"
    by (rule nth_concat_blocks) (use i lt in \<open>simp_all add: length_indices\<close>)
  with bound lt nth show ?case by (simp add: idx length_indices)
qed

lemma elem_mk [simp]: "valid_idx s idx \<Longrightarrow> elem (mk s f) idx = f idx"
  using offset_indices[of s idx] by (simp add: elem_def mk_def length_indices)

lemma shape_mk [simp]: "shape (mk s f) = s"
  by (simp add: mk_def)

lemma well_formed_mk [simp]: "well_formed (mk s f)"
  by (simp add: well_formed_def mk_def length_indices)

lemma set_indices: "set (indices s) = {idx. valid_idx s idx}"
proof (induction s)
  case Nil then show ?case by (auto simp: valid_idx_def)
next
  case (Cons n s)
  then show ?case by (auto simp: valid_idx_def list_all2_Cons2)
qed

lemma map_offset_indices: "map (offset s) (indices s) = [0..<prod_list s]"
proof (induction s)
  case Nil then show ?case by simp
next
  case (Cons n s)
  have blk: "map (offset (n # s)) (map ((#) i) (indices s)) = [i * prod_list s..<Suc i * prod_list s]" for i
  proof -
    have "map (offset (n # s)) (map ((#) i) (indices s)) = map (\<lambda>k. i * prod_list s + k) (map (offset s) (indices s))"
      by simp
    also have "\<dots> = map (\<lambda>k. i * prod_list s + k) [0..<prod_list s]" by (simp only: Cons.IH)
    also have "\<dots> = [i * prod_list s..<Suc i * prod_list s]"
      by (simp add: map_add_upt add.commute)
    finally show ?thesis .
  qed
  have cc: "concat (map (\<lambda>i. [i * m..<Suc i * m]) [0..<k]) = [0..<k * m]" for k m :: nat
  proof (induction k)
    case 0 then show ?case by simp
  next
    case (Suc k)
    have "[0..<k * m] @ [k * m..<Suc k * m] = [0..<Suc k * m]"
      by (metis le_add2 mult_Suc upt_add_eq_append zero_le add.commute)
    with Suc show ?case by simp
  qed
  have "map (offset (n # s)) (indices (n # s))
        = concat (map (\<lambda>i. map (offset (n # s)) (map ((#) i) (indices s))) [0..<n])"
    by (simp add: map_concat comp_def del: offset.simps)
  also have "\<dots> = concat (map (\<lambda>i. [i * prod_list s..<Suc i * prod_list s]) [0..<n])"
    by (simp only: blk)
  also have "\<dots> = [0..<n * prod_list s]" by (rule cc)
  finally show ?case by simp
qed

lemma data_eq_map_elem: "well_formed t \<Longrightarrow> data t = map (elem t) (indices (shape t))"
proof -
  assume w: "well_formed t"
  have "map (elem t) (indices (shape t)) = map ((!) (data t)) (map (offset (shape t)) (indices (shape t)))"
    by (simp add: elem_def comp_def)
  also have "\<dots> = map ((!) (data t)) [0..<length (data t)]"
    using w by (simp only: map_offset_indices well_formed_def)
  also have "\<dots> = data t" by (rule map_nth)
  finally show ?thesis by simp
qed

lemma tensor_eqI:
  assumes "well_formed x" "well_formed y" "shape x = shape y"
    and "\<And>idx. valid_idx (shape x) idx \<Longrightarrow> elem x idx = elem y idx"
  shows "x = y"
proof -
  have "map (elem x) (indices (shape x)) = map (elem y) (indices (shape x))"
    using assms(4) by (simp add: set_indices)
  with assms(1-3) have "data x = data y" by (simp add: data_eq_map_elem)
  with assms(3) show ?thesis by (simp add: tensor.expand)
qed


lemma and_then_Inr [simp]: "and_then (Inr x) f = f x"
  by (simp add: and_then_def)

lemma and_then_Inl [simp]: "and_then (Inl e) f = Inl e"
  by (simp add: and_then_def)

lemma and_then_eq_Inr: "and_then m f = Inr y \<longleftrightarrow> (\<exists>x. m = Inr x \<and> f x = Inr y)"
  by (cases m) simp_all

lemma valid_idx_simps [simp]:
  "valid_idx (n # s) (i # idx) = (i < n \<and> valid_idx s idx)"
  "valid_idx [] [] = True"
  "valid_idx [] (i # idx) = False"
  "valid_idx (n # s) [] = False"
  by (simp_all add: valid_idx_def)

lemma valid_idx_length: "valid_idx s idx \<Longrightarrow> length idx = length s"
  by (simp add: valid_idx_def list_all2_lengthD)

lemma valid_idx_nth: "valid_idx s idx \<Longrightarrow> k < length s \<Longrightarrow> idx ! k < s ! k"
  by (simp add: valid_idx_def list_all2_conv_all_nth)

lemma valid_idx_append: "valid_idx (s @ [d]) (js @ [k]) = (valid_idx s js \<and> k < d)"
proof (cases "length js = length s")
  case True
  then show ?thesis by (simp add: valid_idx_def list_all2_append)
next
  case False
  then have "\<not> valid_idx (s @ [d]) (js @ [k])" and "\<not> valid_idx s js"
    by (auto simp: valid_idx_def dest: list_all2_lengthD)
  then show ?thesis by simp
qed

lemma valid_idx_update:
  "valid_idx s idx \<Longrightarrow> j < n \<Longrightarrow> valid_idx (s[d := n]) (idx[d := j])"
  by (simp add: valid_idx_def list_all2_update_cong)

lemma bidx_valid: "valid_idx s idx \<Longrightarrow> bidx s idx = idx"
proof -
  assume v: "valid_idx s idx"
  then have "list_all2 (<) idx s" by (simp add: valid_idx_def)
  then have "map2 (\<lambda>n i. if n = 1 then 0 else i) s idx = idx"
    by (induction rule: list_all2_induct) auto
  with v show ?thesis by (simp add: bidx_def valid_idx_length)
qed

lemma bidx_append_one: "valid_idx s js \<Longrightarrow> bidx (s @ [Suc 0]) (js @ [k]) = js @ [0]"
proof -
  assume v: "valid_idx s js"
  then have "list_all2 (<) js s" by (simp add: valid_idx_def)
  then have "map2 (\<lambda>n i. if n = 1 then 0 else i) (s @ [Suc 0]) (js @ [k]) = js @ [0]"
    by (induction rule: list_all2_induct) auto
  with v show ?thesis by (simp add: bidx_def valid_idx_length)
qed

lemma binop_shape: "binop f x y = Inr z \<Longrightarrow> broadcast_shapes (shape x) (shape y) = Some (shape z)"
  by (auto simp: binop_def split: option.splits)

lemma binop_elem:
  "binop f x y = Inr z \<Longrightarrow> valid_idx (shape z) idx \<Longrightarrow>
     elem z idx = f (elem x (bidx (shape x) idx)) (elem y (bidx (shape y) idx))"
  by (auto simp: binop_def split: option.splits)

lemma shape_unsqueeze_last [simp]: "shape (unsqueeze_last m) = shape m @ [1]"
  by (simp add: unsqueeze_last_def unsqueeze_def)

lemma elem_unsqueeze_last:
  "valid_idx (shape m) js \<Longrightarrow> elem (unsqueeze_last m) (js @ [0]) = elem m js"
  by (simp add: unsqueeze_last_def unsqueeze_def valid_idx_append valid_idx_length)

lemma mul_mask_elem:
  assumes "mul_mask x m = Inr z" and "shape z = shape m @ [d]"
    and "valid_idx (shape m) js" and "k < d"
  shows "elem z (js @ [k]) = elem x (bidx (shape x) (js @ [k])) * of_bool (elem m js)"
proof -
  have v: "valid_idx (shape z) (js @ [k])" using assms by (simp add: valid_idx_append)
  show ?thesis
    using binop_elem[OF assms(1)[unfolded mul_mask_def] v] assms(3)
    by (simp add: bidx_append_one elem_unsqueeze_last)
qed

lemma mul_mask_zero:
  assumes "mul_mask x m = Inr z" and "shape z = shape m @ [d]"
    and "valid_idx (shape m) js" and "k < d" and "\<not> elem m js"
  shows "elem z (js @ [k]) = 0"
  using mul_mask_elem[OF assms(1-4)] assms(5) by simp


section \<open>Facts about the constructor\<close>

lemma collect_Inr:
  "collect rs = Inr xs \<Longrightarrow> length xs = length rs \<and> (\<forall>i<length rs. rs ! i = Inr (xs ! i))"
proof (induction rs arbitrary: xs)
  case Nil
  then show ?case by simp
next
  case (Cons r rs)
  from Cons.prems obtain x ys where r: "r = Inr x" and ys: "collect rs = Inr ys"
    and xs: "xs = x # ys"
    by (auto simp: and_then_eq_Inr)
  from Cons.IH[OF ys] have "length ys = length rs" "\<forall>i<length rs. rs ! i = Inr (ys ! i)"
    by simp_all
  then show ?case using r xs by (auto simp: nth_Cons split: nat.splits)
qed

lemma collect_all_Inr:
  "\<forall>r\<in>set rs. \<exists>x. r = Inr x \<Longrightarrow> \<exists>xs. collect rs = Inr xs"
  by (induction rs) auto

lemma block_init_fields:
  assumes "MultiheadAttnAndTransition_init bp d dp nh dc rm rt par upb qk ef = Inr B"
  shows "nh \<noteq> 0" "parallel B = par" "residual_mha B = rm"
    "residual_transition B = (rt \<and> \<not> (par \<and> rm))"
    "ma_adaln (mhba B) = bp_mhba_adaln bp" "ma_mha (mhba B) = bp_mhba_mha bp"
    "ma_scale_output (mhba B) = bp_mhba_scale_output bp"
    "ta_adaln (blk_transition B) = bp_transition_adaln bp"
    "ta_scale_output (blk_transition B) = bp_transition_scale_output bp"
    "ta_transition (blk_transition B) = Transition_init (bp_transition bp) d ef False"
  using assms
  by (auto simp: MultiheadAttnAndTransition_init_def MultiHeadBiasedAttentionADALN_MM_init_def
      Let_def and_then_eq_Inr split: if_splits)

lemma block_init_ok:
  "nh \<noteq> 0 \<Longrightarrow> \<exists>B. MultiheadAttnAndTransition_init bp d dp nh dc rm rt par upb qk ef = Inr B"
  by (simp add: MultiheadAttnAndTransition_init_def MultiHeadBiasedAttentionADALN_MM_init_def
      Let_def)

lemma init_transformer_layers_ok:
  "kw_nheads kw \<noteq> 0 \<or> kw_nlayers kw \<le> 0 \<Longrightarrow> \<exists>bs. init_transformer_layers p kw q = Inr bs"
  unfolding init_transformer_layers_def
  by (rule collect_all_Inr) (auto intro!: block_init_ok)

lemma init_cases:
  assumes "ProteinTransformerAF3_init p kw = Inr net"
  obtains builder update update_layers head where
    "init_pair_repr p kw = Inr (builder, update)"
    "update \<Longrightarrow> \<exists>layers. init_pair_update_layers p kw
         (case kw_update_pair_repr_every_n kw of None \<Rightarrow> 2 | Some n \<Rightarrow> n)
         (case kw_use_tri_mult kw of None \<Rightarrow> False | Some u \<Rightarrow> u) = Inr layers
       \<and> update_layers = Some layers
       \<and> head = (case kw_num_buckets_predict_pair kw of None \<Rightarrow> None
                 | Some nb \<Rightarrow> Some (LayerNorm (kw_pair_repr_dim kw) (np_pair_head_ln_weight p)
                                       (np_pair_head_ln_bias p),
                                     \<lparr>in_features = kw_pair_repr_dim kw, out_features = nb,
                                      weight = np_pair_head_weight p,
                                      bias = Some (np_pair_head_bias p)\<rparr>))"
    "\<not> update \<Longrightarrow> update_layers = None \<and> head = None"
    "use_attn_pair_bias net = kw_use_attn_pair_bias kw"
    "nlayers net = kw_nlayers kw"
    "token_dim net = kw_token_dim kw"
    "pair_repr_dim net = kw_pair_repr_dim kw"
    "update_pair_repr net = update"
    "update_pair_repr_every_n net = (case kw_update_pair_repr_every_n kw of None \<Rightarrow> 2 | Some n \<Rightarrow> n)"
    "use_tri_mult net = (case kw_use_tri_mult kw of None \<Rightarrow> False | Some u \<Rightarrow> u)"
    "num_buckets_predict_pair net = kw_num_buckets_predict_pair kw"
    "num_registers net = fst (init_registers p kw)"
    "registers net = snd (init_registers p kw)"
    "pair_repr_builder net = builder"
    "pair_update_layers net = update_layers"
    "pair_head_prediction net = head"
    "init_transformer_layers p kw (case kw_use_qkln kw of None \<Rightarrow> False | Some u \<Rightarrow> u)
       = Inr (transformer_layers net)"
    "transition_c_1 net = Transition_init (np_transition_c_1 p) (kw_dim_cond kw) 2 False"
    "transition_c_2 net = Transition_init (np_transition_c_2 p) (kw_dim_cond kw) 2 False"
    "cond_factory net = np_cond_factory p"
    "coors_3d_decoder net =
       (LayerNorm (kw_token_dim kw) (np_decoder_ln_weight p) (np_decoder_ln_bias p),
        \<lparr>in_features = kw_token_dim kw, out_features = 3,
         weight = np_decoder_weight p, bias = None\<rparr>)"
  using assms
  by (auto simp: ProteinTransformerAF3_init_def Let_def and_then_eq_Inr
      split: prod.splits if_splits)


lemma init_layers:
  assumes "ProteinTransformerAF3_init p kw = Inr net"
  shows "length (transformer_layers net) = nat (kw_nlayers kw)"
    and "i < nat (kw_nlayers kw) \<Longrightarrow>
         MultiheadAttnAndTransition_init (np_transformer_layers p i)
           (kw_token_dim kw) (kw_pair_repr_dim kw) (kw_nheads kw) (kw_dim_cond kw)
           (kw_residual_mha kw) (kw_residual_transition kw)
           (kw_parallel_mha_transition kw) (kw_use_attn_pair_bias kw)
           (case kw_use_qkln kw of None \<Rightarrow> False | Some u \<Rightarrow> u) 4
         = Inr (transformer_layers net ! i)"
proof -
  from assms have "init_transformer_layers p kw
      (case kw_use_qkln kw of None \<Rightarrow> False | Some u \<Rightarrow> u) = Inr (transformer_layers net)"
    by (elim init_cases)
  from collect_Inr[OF this[unfolded init_transformer_layers_def]]
  show "length (transformer_layers net) = nat (kw_nlayers kw)"
    and "i < nat (kw_nlayers kw) \<Longrightarrow>
         MultiheadAttnAndTransition_init (np_transformer_layers p i)
           (kw_token_dim kw) (kw_pair_repr_dim kw) (kw_nheads kw) (kw_dim_cond kw)
           (kw_residual_mha kw) (kw_residual_transition kw)
           (kw_parallel_mha_transition kw) (kw_use_attn_pair_bias kw)
           (case kw_use_qkln kw of None \<Rightarrow> False | Some u \<Rightarrow> u) 4
         = Inr (transformer_layers net ! i)"
    by auto
qed

text \<open>The constructor returns exactly when none of its three faults occurs.\<close>

lemma init_ok:
  assumes "kw_use_attn_pair_bias kw \<longrightarrow> kw_feats_pair_cond kw \<noteq> None"
    and "kw_nheads kw \<noteq> 0 \<or> kw_nlayers kw \<le> 0"
    and "kw_use_attn_pair_bias kw \<and> kw_update_pair_repr kw = Some True \<longrightarrow>
           kw_update_pair_repr_every_n kw \<noteq> Some 0 \<or> kw_nlayers kw \<le> 1"
  shows "\<exists>net. ProteinTransformerAF3_init p kw = Inr net"
proof -
  define update where "update = (kw_use_attn_pair_bias kw \<and> kw_update_pair_repr kw = Some True)"
  have "\<exists>builder. init_pair_repr p kw = Inr (builder, update)"
    using assms(1)
    by (cases "kw_update_pair_repr kw") (auto simp: init_pair_repr_def update_def)
  then obtain builder where pr: "init_pair_repr p kw = Inr (builder, update)"
    "update = (kw_use_attn_pair_bias kw \<and> kw_update_pair_repr kw = Some True)"
    using update_def by blast
  obtain bs where bs: "init_transformer_layers p kw
      (case kw_use_qkln kw of None \<Rightarrow> False | Some u \<Rightarrow> u) = Inr bs"
    using init_transformer_layers_ok[OF assms(2)] by blast
  have "update \<longrightarrow> (\<exists>ls. init_pair_update_layers p kw
         (case kw_update_pair_repr_every_n kw of None \<Rightarrow> 2 | Some n \<Rightarrow> n)
         (case kw_use_tri_mult kw of None \<Rightarrow> False | Some u \<Rightarrow> u) = Inr ls)"
    using assms(3) pr(2)
    by (cases "kw_update_pair_repr_every_n kw") (auto simp: init_pair_update_layers_def)
  then show ?thesis
    using pr(1) bs
    by (cases "init_registers p kw"; cases update)
       (auto simp: ProteinTransformerAF3_init_def Let_def)
qed

lemma pair_update_at_init:
  assumes init: "ProteinTransformerAF3_init p kw = Inr net"
  shows "pair_update_at net i =
     Inr (if update_pair_repr net \<and> int i < nlayers net - 1
             \<and> int i mod update_pair_repr_every_n net = 0
          then Some (PairReprUpdate_init (np_pair_update_layers p i) (token_dim net)
                       (pair_repr_dim net) (use_tri_mult net))
          else None)"
proof (cases "update_pair_repr net \<and> int i < nlayers net - 1")
  case False
  then show ?thesis by (auto simp: pair_update_at_def)
next
  case True
  from init obtain layers where
    L: "init_pair_update_layers p kw (update_pair_repr_every_n net) (use_tri_mult net) = Inr layers"
    and pl: "pair_update_layers net = Some layers"
    and nl: "nlayers net = kw_nlayers kw" and td: "token_dim net = kw_token_dim kw"
    and pd: "pair_repr_dim net = kw_pair_repr_dim kw"
    using True by (elim init_cases) auto
  from True nl have i: "i < nat (kw_nlayers kw - 1)" by (simp add: zless_nat_eq_int_zless)
  from L have layers: "layers = map (\<lambda>i. if int i mod update_pair_repr_every_n net = 0
                          then Some (PairReprUpdate_init (np_pair_update_layers p i)
                                       (kw_token_dim kw) (kw_pair_repr_dim kw) (use_tri_mult net))
                          else None) [0..<nat (kw_nlayers kw - 1)]"
    by (auto simp: init_pair_update_layers_def split: if_splits)
  show ?thesis
    using True i by (simp add: pair_update_at_def pl layers td pd)
qed

section \<open>Operations that succeed on matching shapes\<close>

lemma broadcast_rev_same [simp]: "broadcast_rev s s = Some s"
  by (induction s) simp_all

lemma broadcast_shapes_same [simp]: "broadcast_shapes s s = Some s"
  by (simp add: broadcast_shapes_def)

lemma broadcast_shapes_last_one [simp]: "broadcast_shapes (s @ [d]) (s @ [Suc 0]) = Some (s @ [d])"
  by (simp add: broadcast_shapes_def)

lemma mul_mask_ok:
  assumes "shape x = shape m @ [d]"
  obtains z where "mul_mask x m = Inr z" "shape z = shape x"
  using assms by (simp add: mul_mask_def binop_def)

lemma add_ok:
  assumes "shape x = shape y"
  obtains z where "add x y = Inr z" "shape z = shape x"
  using assms by (simp add: add_def binop_def)

lemma broadcast_shapes_col_row [simp]:
  "broadcast_shapes [b, n, Suc 0] [b, Suc 0, n] = Some [b, n, n]"
  "broadcast_shapes [b, Suc 0, n] [b, n, Suc 0] = Some [b, n, n]"
  by (cases "n = Suc 0"; simp add: broadcast_shapes_def)+

lemma pair_mask_ok:
  assumes "shape m = [b, n]"
  obtains pm where
    "and_then (index_none 2 2 m) (\<lambda>m_col. and_then (index_none 2 1 m) (\<lambda>m_row. mul_bool m_col m_row))
       = Inr pm"
    "shape pm = [b, n, n]"
  using assms
  by (simp add: index_none_def unsqueeze_def mul_bool_def binop_def)

lemma Linear_forward_ok:
  assumes "shape x = s @ [in_features L]"
  obtains y where "Linear_forward L x = Inr y" "shape y = s @ [out_features L]"
  using assms by (simp add: Linear_forward_def)

lemma Transition_forward_ok:
  assumes T: "T = Transition_init tp w ef False" and sw: "swiglu_halves (tp_swiglu tp)"
    and x: "shape x = shape m @ [w]"
  obtains y where "Transition_forward T x m = Inr y" "shape y = shape x"
proof -
  obtain h where h: "Linear_forward (swish_linear_0 T) x = Inr h" "shape h = shape m @ [w * ef * 2]"
    using Linear_forward_ok[of x "shape m" "swish_linear_0 T"] x
    by (auto simp: T Transition_init_def Let_def)
  have "shape h \<noteq> []" using h(2) by simp
  with sw obtain g where "tp_swiglu tp h = Inr g"
      "shape g = butlast (shape h) @ [last (shape h) div 2]"
    unfolding swiglu_halves_def by blast
  then have g: "swish_linear_1 T h = Inr g" "shape g = shape m @ [w * ef]"
    using h(2) by (simp_all add: T Transition_init_def Let_def)
  obtain y where y: "Linear_forward (linear_out T) g = Inr y" "shape y = shape m @ [w]"
    using Linear_forward_ok[of g "shape m" "linear_out T"] g(2)
    by (auto simp: T Transition_init_def Let_def)
  obtain z where z: "mul_mask y m = Inr z" "shape z = shape y"
    using mul_mask_ok[OF y(2)] by blast
  have "Transition_forward T x m = Inr z"
    using h g y z by (simp add: Transition_forward_def T Transition_init_def Let_def)
  with z y x that show ?thesis by simp
qed


lemma add_ex: "shape x = shape y \<Longrightarrow> \<exists>z. add x y = Inr z \<and> shape z = shape x"
  by (simp add: add_def binop_def)

lemma keeps_shapeE:
  assumes "keeps_shape f"
  obtains y where "f x cond m = Inr y" "shape y = shape x"
  using assms unfolding keeps_shape_def by blast

lemma mhba_ok:
  assumes "keeps_shape (ma_adaln A)" "attention_keeps_shape (ma_mha A)"
    "keeps_shape (ma_scale_output A)" and x: "shape x = [b, n, d]" and m: "shape m = [b, n]"
  obtains y where "MultiHeadBiasedAttentionADALN_MM_forward A x pair_rep cond m = Inr y"
    "shape y = shape x"
proof -
  obtain pm where pm: "and_then (index_none 2 2 m)
      (\<lambda>m_col. and_then (index_none 2 1 m) (\<lambda>m_row. mul_bool m_col m_row)) = Inr pm"
    using pair_mask_ok[OF m] by blast
  then obtain m_col m_row where mc: "index_none 2 2 m = Inr m_col"
    and mr: "index_none 2 1 m = Inr m_row" and mb: "mul_bool m_col m_row = Inr pm"
    by (auto simp: and_then_eq_Inr)
  obtain x1 where x1: "ma_adaln A x cond m = Inr x1" "shape x1 = shape x"
    using keeps_shapeE[OF assms(1)] by blast
  obtain x2 where x2: "ma_mha A x1 pair_rep pm = Inr x2" "shape x2 = shape x1"
    using assms(2) unfolding attention_keeps_shape_def by blast
  obtain x3 where x3: "ma_scale_output A x2 cond m = Inr x3" "shape x3 = shape x2"
    using keeps_shapeE[OF assms(3)] by blast
  have "shape x3 = shape m @ [d]" using x3 x2 x1 x m by simp
  then obtain y where y: "mul_mask x3 m = Inr y" "shape y = shape x3"
    using mul_mask_ok by blast
  have "MultiHeadBiasedAttentionADALN_MM_forward A x pair_rep cond m = Inr y"
    using mc mr mb x1 x2 x3 y by (simp add: MultiHeadBiasedAttentionADALN_MM_forward_def)
  with y x3 x2 x1 that show ?thesis by simp
qed

lemma TransitionADALN_ok:
  assumes "keeps_shape (ta_adaln T)" "keeps_shape (ta_scale_output T)"
    and tr: "ta_transition T = Transition_init tp d ef False" and sw: "swiglu_halves (tp_swiglu tp)"
    and x: "shape x = shape m @ [d]"
  obtains y where "TransitionADALN_forward T x cond m = Inr y" "shape y = shape x"
proof -
  obtain x1 where x1: "ta_adaln T x cond m = Inr x1" "shape x1 = shape x"
    using keeps_shapeE[OF assms(1)] by blast
  have "shape x1 = shape m @ [d]" using x1 x by simp
  then obtain x2 where x2: "Transition_forward (ta_transition T) x1 m = Inr x2" "shape x2 = shape x1"
    using Transition_forward_ok[OF tr sw] by blast
  obtain x3 where x3: "ta_scale_output T x2 cond m = Inr x3" "shape x3 = shape x2"
    using keeps_shapeE[OF assms(2)] by blast
  have "shape x3 = shape m @ [d]" using x3 x2 x1 x by simp
  then obtain y where y: "mul_mask x3 m = Inr y" "shape y = shape x3"
    using mul_mask_ok by blast
  have "TransitionADALN_forward T x cond m = Inr y"
    using x1 x2 x3 y by (simp add: TransitionADALN_forward_def)
  with y x3 x2 x1 that show ?thesis by simp
qed

lemma block_ok:
  assumes B: "MultiheadAttnAndTransition_init bp d dp nh dc rm rt par upb qk ef = Inr B"
    and bc: "block_contract bp" and x: "shape x = [b, n, d]" and m: "shape m = [b, n]"
  obtains y where "MultiheadAttnAndTransition_forward B x pair_rep cond m = Inr y"
    "shape y = shape x"
proof -
  have A: "keeps_shape (ma_adaln (mhba B))" "attention_keeps_shape (ma_mha (mhba B))"
    "keeps_shape (ma_scale_output (mhba B))"
    "keeps_shape (ta_adaln (blk_transition B))" "keeps_shape (ta_scale_output (blk_transition B))"
    "ta_transition (blk_transition B) = Transition_init (bp_transition bp) d ef False"
    "swiglu_halves (tp_swiglu (bp_transition bp))"
    using bc by (simp_all add: block_init_fields[OF B] block_contract_def)
  have xm: "shape x = shape m @ [d]" using x m by simp
  have mha: "\<exists>y. apply_mha B x' pair_rep cond m = Inr y \<and> shape y = shape x'"
    if x': "shape x' = [b, n, d]" for x'
  proof -
    obtain a where a: "MultiHeadBiasedAttentionADALN_MM_forward (mhba B) x' pair_rep cond m = Inr a"
      "shape a = shape x'"
      using mhba_ok[OF A(1-3) x' m] by blast
    have "\<exists>a'. (if residual_mha B then add a x' else Inr a) = Inr a' \<and> shape a' = shape x'"
      using add_ex[OF a(2)] a(2) by (cases "residual_mha B") auto
    then obtain a' where a': "(if residual_mha B then add a x' else Inr a) = Inr a'"
      "shape a' = shape x'" by blast
    have "shape a' = shape m @ [d]" using a' x' m by simp
    then obtain y where y: "mul_mask a' m = Inr y" "shape y = shape a'"
      using mul_mask_ok by blast
    have "apply_mha B x' pair_rep cond m = Inr y" using a a' y by (simp add: apply_mha_def)
    with y a' show ?thesis by simp
  qed
  have tr: "\<exists>y. apply_transition B x' cond m = Inr y \<and> shape y = shape x'"
    if x': "shape x' = [b, n, d]" for x'
  proof -
    have "shape x' = shape m @ [d]" using x' m by simp
    then obtain a where a: "TransitionADALN_forward (blk_transition B) x' cond m = Inr a"
      "shape a = shape x'"
      using TransitionADALN_ok[OF A(4,5,6,7)] by blast
    have "\<exists>a'. (if residual_transition B then add a x' else Inr a) = Inr a'
             \<and> shape a' = shape x'"
      using add_ex[OF a(2)] a(2) by (cases "residual_transition B") auto
    then obtain a' where a': "(if residual_transition B then add a x' else Inr a) = Inr a'"
      "shape a' = shape x'" by blast
    have "shape a' = shape m @ [d]" using a' x' m by simp
    then obtain y where y: "mul_mask a' m = Inr y" "shape y = shape a'"
      using mul_mask_ok by blast
    have "apply_transition B x' cond m = Inr y" using a a' y by (simp add: apply_transition_def)
    with y a' show ?thesis by simp
  qed
  obtain x0 where x0: "mul_mask x m = Inr x0" "shape x0 = shape x"
    using mul_mask_ok[OF xm] by blast
  have x0s: "shape x0 = [b, n, d]" using x0 x by simp
  obtain x1 where x1: "(if parallel B
               then and_then (apply_mha B x0 pair_rep cond m) (\<lambda>a.
                    and_then (apply_transition B x0 cond m) (\<lambda>t. add a t))
               else and_then (apply_mha B x0 pair_rep cond m) (\<lambda>x.
                    apply_transition B x cond m)) = Inr x1" "shape x1 = [b, n, d]"
  proof (cases "parallel B")
    case True
    obtain a where a: "apply_mha B x0 pair_rep cond m = Inr a" "shape a = shape x0"
      using mha[OF x0s] by blast
    obtain t where t: "apply_transition B x0 cond m = Inr t" "shape t = shape x0"
      using tr[OF x0s] by blast
    have "shape a = shape t" using a t by simp
    from add_ex[OF this] obtain s where s: "add a t = Inr s" "shape s = shape a" by blast
    show ?thesis using that[of s] True a t s x0s by simp
  next
    case False
    obtain a where a: "apply_mha B x0 pair_rep cond m = Inr a" "shape a = shape x0"
      using mha[OF x0s] by blast
    have "shape a = [b, n, d]" using a x0s by simp
    then obtain t where t: "apply_transition B a cond m = Inr t" "shape t = shape a"
      using tr by blast
    show ?thesis using that[of t] False a t x0s by simp
  qed
  have "shape x1 = shape m @ [d]" using x1 m by simp
  then obtain y where y: "mul_mask x1 m = Inr y" "shape y = shape x1"
    using mul_mask_ok by blast
  have "MultiheadAttnAndTransition_forward B x pair_rep cond m = Inr y"
    using x0 x1 y by (simp add: MultiheadAttnAndTransition_forward_def)
  with y x1 x that show ?thesis by simp
qed


lemma trunk_loop_no_update:
  assumes init: "ProteinTransformerAF3_init p kw = Inr net"
    and nou: "\<not> update_pair_repr net"
    and bc: "\<forall>i<nat (kw_nlayers kw). block_contract (np_transformer_layers p i)"
    and m: "shape m = [b, n]"
  shows "shape seqs = [b, n, kw_token_dim kw] \<Longrightarrow> \<forall>i\<in>set is. i < nat (kw_nlayers kw) \<Longrightarrow>
     \<exists>seqs'. trunk_loop net c m is (seqs, pair_rep) = Inr (seqs', pair_rep)
        \<and> shape seqs' = shape seqs"
proof (induction "is" arbitrary: seqs)
  case Nil
  then show ?case by simp
next
  case (Cons i rest)
  from Cons.prems have i: "i < nat (kw_nlayers kw)" by simp
  note B = init_layers(2)[OF init i]
  have len: "\<not> length (transformer_layers net) \<le> i"
    using i by (simp add: init_layers(1)[OF init])
  from bc i have c: "block_contract (np_transformer_layers p i)" by simp
  obtain y where y: "MultiheadAttnAndTransition_forward (transformer_layers net ! i)
       seqs pair_rep c m = Inr y" "shape y = shape seqs"
    using block_ok[OF B c Cons.prems(1) m] by blast
  have step: "trunk_step net c m i (seqs, pair_rep) = Inr (y, pair_rep)"
    using y len nou by (simp add: trunk_step_def pair_update_at_def)
  have "shape y = [b, n, kw_token_dim kw]" using y Cons.prems by simp
  from Cons.IH[OF this] Cons.prems(2) obtain seqs' where
    "trunk_loop net c m rest (y, pair_rep) = Inr (seqs', pair_rep)" "shape seqs' = shape y"
    by auto
  with step y show ?case by simp
qed

lemma trunk_loop_pair_unchanged:
  assumes nou: "\<not> update_pair_repr net"
  shows "trunk_loop net c m is (seqs, pair_rep) = Inr out \<Longrightarrow> snd out = pair_rep"
proof (induction "is" arbitrary: seqs)
  case Nil
  then show ?case by auto
next
  case (Cons i rest)
  from Cons.prems obtain st where st: "trunk_step net c m i (seqs, pair_rep) = Inr st"
    and rest: "trunk_loop net c m rest st = Inr out"
    by (auto simp: and_then_eq_Inr)
  from st nou obtain y where "st = (y, pair_rep)"
    by (auto simp: trunk_step_def pair_update_at_def and_then_eq_Inr split: if_splits)
  with rest Cons.IH show ?case by simp
qed

section \<open>Evaluating the sample inputs\<close>

lemmas demo_defs = demo_params_def demo_kwargs_def demo_batch_def demo_block_params_def
  demo_pair_update_params_def demo_transition_params_def demo_adaptive_def demo_swiglu_def
  demo_attention_def demo_pair_op_def demo_seq_factory_def demo_pair_factory_def
  demo_tagged_op_def demo_schedule_params_def demo_schedule_kwargs_def demo_zero_op_def
  demo_outer_sum_params_def demo_tokens_def demo_mask3_def demo_pair3_def

lemmas init_defs = ProteinTransformerAF3_init_def Let_def init_registers_def init_pair_repr_def
  init_pair_update_layers_def Transition_init_def MultiheadAttnAndTransition_init_def
  MultiHeadBiasedAttentionADALN_MM_init_def init_transformer_layers_def
  PairReprUpdate_init_def PairReprBuilder_init_def LayerNorm_def

lemmas op_defs = mul_mask_def binop_def broadcast_shapes_def add_def mul_bool_def
  index_none_def unsqueeze_def unsqueeze_last_def narrow_last_def Linear_forward_def
  LayerNorm_forward_def cat_def slice_from_def expand_batch_def zeros_def ones_bool_def
  chunk2_last_def to_float_def

lemma demo_conditioning:
  "ProteinTransformerAF3_init demo_params kw = Inr net \<Longrightarrow> kw_dim_cond kw = 1 \<Longrightarrow>
   \<exists>c. conditioning net demo_batch = Inr c \<and> shape c = [1, 2, 1]"
  by (elim init_cases)
     (simp add: conditioning_def Transition_forward_def demo_defs init_defs op_defs)

lemma init_embed:
  "ProteinTransformerAF3_init p kw = Inr net \<Longrightarrow>
   linear_3d_embed net = \<lparr>in_features = 3, out_features = kw_token_dim kw,
                           weight = np_linear_3d_embed p, bias = None\<rparr>
   \<and> init_repr_factory net = np_init_repr_factory p"
  by (auto simp: ProteinTransformerAF3_init_def Let_def and_then_eq_Inr
      split: prod.splits if_splits)

lemma demo_initial_seqs:
  "ProteinTransformerAF3_init demo_params kw = Inr net \<Longrightarrow> kw_token_dim kw = 1 \<Longrightarrow>
   \<exists>s. initial_seqs net demo_batch = Inr s \<and> shape s = [1, 2, 1]"
  by (drule init_embed) (simp add: initial_seqs_def Let_def demo_defs op_defs)


section \<open>Registers: extending and undoing\<close>

lemma valid_idx_2E:
  assumes "valid_idx [a, b] idx"
  obtains i j where "idx = [i, j]" "i < a" "j < b"
  using assms by (auto simp: valid_idx_def list_all2_Cons2)

lemma valid_idx_3E:
  assumes "valid_idx [a, b, c] idx"
  obtains i j k where "idx = [i, j, k]" "i < a" "j < b" "k < c"
  using assms by (auto simp: valid_idx_def list_all2_Cons2)

lemma valid_idx_4E:
  assumes "valid_idx [a, b, c, d] idx"
  obtains i j k l where "idx = [i, j, k, l]" "i < a" "j < b" "k < c" "l < d"
  using assms by (auto simp: valid_idx_def list_all2_Cons2)

lemma extend_undo_registers:
  assumes regs: "registers net = Some regs" "shape regs = [num_registers net, d]"
    and r: "0 < num_registers net"
    and s: "shape seqs = [b, n, d]" "shape pair_t = [b, n, n, dp]" "shape m = [b, n]"
      "shape cond_seq = [b, n, dc]"
    and w: "well_formed seqs" "well_formed pair_t" "well_formed m"
  shows "\<exists>seqs' pair' m' cond'.
      extend_w_registers net seqs (Some pair_t) m cond_seq = Inr (seqs', Some pair', m', cond')
      \<and> shape seqs' = [b, num_registers net + n, d]
      \<and> shape pair' = [b, num_registers net + n, num_registers net + n, dp]
      \<and> shape m' = [b, num_registers net + n]
      \<and> shape cond' = [b, num_registers net + n, dc]
      \<and> undo_registers net seqs' (Some pair') m' = Inr (seqs, Some pair_t, m)"
proof -
  define r where "r = num_registers net"
  have r0: "r \<noteq> 0" "num_registers net = r" using r by (simp_all add: r_def)
  obtain seqs' pair' m' cond' where
    ext: "extend_w_registers net seqs (Some pair_t) m cond_seq = Inr (seqs', Some pair', m', cond')"
    and sh: "shape seqs' = [b, r + n, d]" "shape pair' = [b, r + n, r + n, dp]"
      "shape m' = [b, r + n]" "shape cond' = [b, r + n, dc]"
    and es: "\<And>i j k. i < b \<Longrightarrow> j < n \<Longrightarrow> k < d \<Longrightarrow> elem seqs' [i, j + r, k] = elem seqs [i, j, k]"
    and ep: "\<And>i j k l. i < b \<Longrightarrow> j < n \<Longrightarrow> k < n \<Longrightarrow> l < dp \<Longrightarrow>
                elem pair' [i, j + r, k + r, l] = elem pair_t [i, j, k, l]"
    and em: "\<And>i j. i < b \<Longrightarrow> j < n \<Longrightarrow> elem m' [i, j + r] = elem m [i, j]"
    using regs s r0
    by (simp add: extend_w_registers_def index_none_def unsqueeze_def expand_batch_def cat_def
        zeros_def ones_bool_def)
  have u1: "slice_from 3 1 r seqs' = Inr seqs"
  proof -
    obtain y where y: "slice_from 3 1 r seqs' = Inr y" "shape y = [b, n, d]"
      "\<And>i j k. i < b \<Longrightarrow> j < n \<Longrightarrow> k < d \<Longrightarrow> elem y [i, j, k] = elem seqs' [i, j + r, k]"
      using sh by (simp add: slice_from_def)
    have "y = seqs"
    proof (rule tensor_eqI)
      show "well_formed y" using y(1) sh by (auto simp: slice_from_def)
      show "well_formed seqs" by fact
      show "shape y = shape seqs" using y s by simp
      fix idx assume "valid_idx (shape y) idx"
      then obtain i j k where "idx = [i, j, k]" "i < b" "j < n" "k < d"
        using y(2) by (auto elim: valid_idx_3E)
      then show "elem y idx = elem seqs idx" using y(3) es by simp
    qed
    with y show ?thesis by simp
  qed
  have u2: "and_then (slice_from 4 1 r pair') (\<lambda>pair_t. slice_from 4 2 r pair_t) = Inr pair_t"
  proof -
    obtain y where y: "and_then (slice_from 4 1 r pair') (\<lambda>pair_t. slice_from 4 2 r pair_t) = Inr y"
      "shape y = [b, n, n, dp]" "well_formed y"
      "\<And>i j k l. i < b \<Longrightarrow> j < n \<Longrightarrow> k < n \<Longrightarrow> l < dp \<Longrightarrow>
          elem y [i, j, k, l] = elem pair' [i, j + r, k + r, l]"
      using sh by (simp add: slice_from_def)
    have "y = pair_t"
    proof (rule tensor_eqI)
      show "well_formed y" by fact
      show "well_formed pair_t" by fact
      show "shape y = shape pair_t" using y s by simp
      fix idx assume "valid_idx (shape y) idx"
      then obtain i j k l where "idx = [i, j, k, l]" "i < b" "j < n" "k < n" "l < dp"
        using y(2) by (auto elim: valid_idx_4E)
      then show "elem y idx = elem pair_t idx" using y(4) ep by simp
    qed
    with y show ?thesis by simp
  qed
  have u3: "slice_from 2 1 r m' = Inr m"
  proof -
    obtain y where y: "slice_from 2 1 r m' = Inr y" "shape y = [b, n]" "well_formed y"
      "\<And>i j. i < b \<Longrightarrow> j < n \<Longrightarrow> elem y [i, j] = elem m' [i, j + r]"
      using sh by (simp add: slice_from_def)
    have "y = m"
    proof (rule tensor_eqI)
      show "well_formed y" by fact
      show "well_formed m" by fact
      show "shape y = shape m" using y s by simp
      fix idx assume "valid_idx (shape y) idx"
      then obtain i j where "idx = [i, j]" "i < b" "j < n"
        using y(2) by (auto elim: valid_idx_2E)
      then show "elem y idx = elem m idx" using y(4) em by simp
    qed
    with y show ?thesis by simp
  qed
  have "undo_registers net seqs' (Some pair') m' = Inr (seqs, Some pair_t, m)"
    using r0 u1 u2 u3 by (simp add: undo_registers_def Let_def)
  with ext sh show ?thesis unfolding r_def by blast
qed


lemma init_registers_shape:
  assumes init: "ProteinTransformerAF3_init p kw = Inr net" and r: "num_registers net \<noteq> 0"
  obtains regs where "registers net = Some regs" "shape regs = [num_registers net, kw_token_dim kw]"
proof -
  from init have "num_registers net = fst (init_registers p kw)"
    "registers net = snd (init_registers p kw)"
    by (elim init_cases; simp)+
  with r that show ?thesis
    by (auto simp: init_registers_def split: option.splits if_splits)
qed

section \<open>Entries of broadcast sums and masks\<close>

lemma bidx_3 [simp]:
  "i < b \<Longrightarrow> j < n \<Longrightarrow> bidx [b, n, Suc 0] [i, j, k] = [i, j, 0]"
  "i < b \<Longrightarrow> j < n \<Longrightarrow> k < d \<Longrightarrow> bidx [b, n, d] [i, j, k] = [i, j, k]"
  "i < b \<Longrightarrow> k < n \<Longrightarrow> bidx [b, Suc 0, n] [i, j, k] = [i, 0, k]"
  by (auto simp: bidx_def)

lemma bidx_4 [simp]:
  "i < b \<Longrightarrow> j < n \<Longrightarrow> k < n' \<Longrightarrow> l < d \<Longrightarrow> bidx [b, n, n', d] [i, j, k, l] = [i, j, k, l]"
  "i < b \<Longrightarrow> k < n' \<Longrightarrow> l < d \<Longrightarrow> bidx [b, Suc 0, n', d] [i, j, k, l] = [i, 0, k, l]"
  "i < b \<Longrightarrow> j < n \<Longrightarrow> l < d \<Longrightarrow> bidx [b, n, Suc 0, d] [i, j, k, l] = [i, j, 0, l]"
  "i < b \<Longrightarrow> j < n \<Longrightarrow> k < n' \<Longrightarrow> bidx [b, n, n', Suc 0] [i, j, k, l] = [i, j, k, 0]"
  by (auto simp: bidx_def)

lemma broadcast_shapes_4 [simp]:
  "broadcast_shapes [b, n, n, d] [b, Suc 0, n, d] = Some [b, n, n, d]"
  "broadcast_shapes [b, n, n, d] [b, n, Suc 0, d] = Some [b, n, n, d]"
  "broadcast_shapes [b, n, n, d] [b, n, n, Suc 0] = Some [b, n, n, d]"
  by (simp_all add: broadcast_shapes_def)

lemma pair_mask_of_elem:
  assumes "shape m = [b, n]"
  obtains pm where "pair_mask_of m = Inr pm" "shape pm = [b, n, n]" "well_formed pm"
    "\<And>i j k. i < b \<Longrightarrow> j < n \<Longrightarrow> k < n \<Longrightarrow> elem pm [i, j, k] = (elem m [i, k] \<and> elem m [i, j])"
  using assms
  by (simp add: pair_mask_of_def index_none_def unsqueeze_def mul_bool_def binop_def)


lemma chunk2_last_even:
  assumes "shape x = [b, n, 2 * d]"
  obtains x1 x2 where "chunk2_last x = Inr (x1, x2)" "shape x1 = [b, n, d]" "shape x2 = [b, n, d]"
    "\<And>i j l. i < b \<Longrightarrow> j < n \<Longrightarrow> l < d \<Longrightarrow> elem x1 [i, j, l] = elem x [i, j, l]"
    "\<And>i j l. i < b \<Longrightarrow> j < n \<Longrightarrow> l < d \<Longrightarrow> elem x2 [i, j, l] = elem x [i, j, d + l]"
proof -
  have a: "(2 * d + 1) div 2 = d" "2 * d \<noteq> Suc 0" "2 * d - d = d" by presburger+
  show ?thesis
    using assms a that by (simp add: chunk2_last_def narrow_last_def Let_def add.commute)
qed


lemma apply_mask_elem4:
  assumes "shape p = [b, n, n, d]" "shape pm = [b, n, n]"
  obtains z where "apply_mask p pm = Inr z" "shape z = [b, n, n, d]"
    "\<And>i j k l. i < b \<Longrightarrow> j < n \<Longrightarrow> k < n \<Longrightarrow> l < d \<Longrightarrow>
        elem z [i, j, k, l] = elem p [i, j, k, l] * of_bool (elem pm [i, j, k])"
  using assms
  by (simp add: apply_mask_def mul_mask_def binop_def unsqueeze_last_def unsqueeze_def)

lemma add_cols:
  assumes "shape p = [b, n, n, d]" "shape x1 = [b, n, d]"
  obtains cols z where "index_none 3 1 x1 = Inr cols" "add p cols = Inr z"
    "shape z = [b, n, n, d]"
    "\<And>i j k l. i < b \<Longrightarrow> j < n \<Longrightarrow> k < n \<Longrightarrow> l < d \<Longrightarrow>
        elem z [i, j, k, l] = elem p [i, j, k, l] + elem x1 [i, k, l]"
  using assms
  by (simp add: index_none_def add_def binop_def unsqueeze_def)

lemma add_rows:
  assumes "shape p = [b, n, n, d]" "shape x2 = [b, n, d]"
  obtains rows z where "index_none 3 2 x2 = Inr rows" "add p rows = Inr z"
    "shape z = [b, n, n, d]"
    "\<And>i j k l. i < b \<Longrightarrow> j < n \<Longrightarrow> k < n \<Longrightarrow> l < d \<Longrightarrow>
        elem z [i, j, k, l] = elem p [i, j, k, l] + elem x2 [i, j, l]"
  using assms
  by (simp add: index_none_def add_def binop_def unsqueeze_def)


lemma outer_sum_step_entries:
  assumes U: "U = PairReprUpdate_init pp td pd tri"
    and s: "shape x = [b, n, td]" "shape pair_t = [b, n, n, pd]" "shape m = [b, n]"
  shows "\<exists>xm xn proj x_proj_1 x_proj_2 pair_mask p'.
      mul_mask x m = Inr xm
      \<and> LayerNorm_forward (layer_norm_in U) xm = Inr xn
      \<and> Linear_forward (linear_x U) xn = Inr proj
      \<and> chunk2_last proj = Inr (x_proj_1, x_proj_2)
      \<and> shape x_proj_1 = [b, n, pd] \<and> shape x_proj_2 = [b, n, pd]
      \<and> outer_sum_step U x (Some pair_t) m = Inr (p', pair_mask)
      \<and> shape p' = [b, n, n, pd]
      \<and> (\<forall>i<b. \<forall>j<n. \<forall>k<n. \<forall>l<pd.
            elem p' [i, j, k, l] =
              (elem pair_t [i, j, k, l] + elem x_proj_1 [i, k, l] + elem x_proj_2 [i, j, l])
              * of_bool (elem m [i, j] \<and> elem m [i, k]))
      \<and> shape pair_mask = [b, n, n]"
proof -
  obtain pm where pm: "pair_mask_of m = Inr pm" "shape pm = [b, n, n]"
    "\<And>i j k. i < b \<Longrightarrow> j < n \<Longrightarrow> k < n \<Longrightarrow> elem pm [i, j, k] = (elem m [i, k] \<and> elem m [i, j])"
    by (rule pair_mask_of_elem[OF s(3)]) blast
  obtain xm where xm: "mul_mask x m = Inr xm" "shape xm = [b, n, td]"
    using mul_mask_ok[of x m td] s by auto
  obtain xn where xn: "LayerNorm_forward (layer_norm_in U) xm = Inr xn" "shape xn = [b, n, td]"
    using xm(2) by (simp add: U PairReprUpdate_init_def LayerNorm_def LayerNorm_forward_def)
  obtain proj where proj: "Linear_forward (linear_x U) xn = Inr proj" "shape proj = [b, n, 2 * pd]"
    using xn(2) by (simp add: U PairReprUpdate_init_def Linear_forward_def)
  obtain x1 x2 where c: "chunk2_last proj = Inr (x1, x2)" "shape x1 = [b, n, pd]"
    "shape x2 = [b, n, pd]"
    by (rule chunk2_last_even[OF proj(2)]) blast
  obtain cols a where a: "index_none 3 1 x1 = Inr cols" "add pair_t cols = Inr a"
    "shape a = [b, n, n, pd]"
    "\<And>i j k l. i < b \<Longrightarrow> j < n \<Longrightarrow> k < n \<Longrightarrow> l < pd \<Longrightarrow>
        elem a [i, j, k, l] = elem pair_t [i, j, k, l] + elem x1 [i, k, l]"
    by (rule add_cols[OF s(2) c(2)]) blast
  obtain rows a2 where a2: "index_none 3 2 x2 = Inr rows" "add a rows = Inr a2"
    "shape a2 = [b, n, n, pd]"
    "\<And>i j k l. i < b \<Longrightarrow> j < n \<Longrightarrow> k < n \<Longrightarrow> l < pd \<Longrightarrow>
        elem a2 [i, j, k, l] = elem a [i, j, k, l] + elem x2 [i, j, l]"
    by (rule add_rows[OF a(3) c(3)]) blast
  obtain p' where p': "apply_mask a2 pm = Inr p'" "shape p' = [b, n, n, pd]"
    "\<And>i j k l. i < b \<Longrightarrow> j < n \<Longrightarrow> k < n \<Longrightarrow> l < pd \<Longrightarrow>
        elem p' [i, j, k, l] = elem a2 [i, j, k, l] * of_bool (elem pm [i, j, k])"
    by (rule apply_mask_elem4[OF a2(3) pm(2)]) blast
  have step: "outer_sum_step U x (Some pair_t) m = Inr (p', pm)"
    unfolding outer_sum_step_def pm(1) xm(1) xn(1) proj(1) c(1) and_then_Inr
      prod.case a(1) a2(1)
    by (simp add: a(2) a2(2) p'(1))
  have ent: "\<forall>i<b. \<forall>j<n. \<forall>k<n. \<forall>l<pd.
            elem p' [i, j, k, l] =
              (elem pair_t [i, j, k, l] + elem x1 [i, k, l] + elem x2 [i, j, l])
              * of_bool (elem m [i, j] \<and> elem m [i, k])"
    using p'(3) a2(4) a(4) pm(3) by (auto simp: of_bool_def)
  show ?thesis
    by (intro exI[of _ xm] exI[of _ xn] exI[of _ proj] exI[of _ x1] exI[of _ x2]
        exI[of _ pm] exI[of _ p'] conjI xm(1) xn(1) proj(1) c step p'(2) ent pm(2))
qed



section \<open>The forward pass returns under the contracts\<close>

lemma conditioning_ok:
  assumes init: "ProteinTransformerAF3_init p kw = Inr net"
    and m: "shape (batch_mask batch) = [b, n]"
    and f: "returns_shape (np_cond_factory p) batch [b, n, kw_dim_cond kw]"
    and sw: "swiglu_halves (tp_swiglu (np_transition_c_1 p))"
      "swiglu_halves (tp_swiglu (np_transition_c_2 p))"
  shows "\<exists>c. conditioning net batch = Inr c \<and> shape c = [b, n, kw_dim_cond kw]"
proof -
  from init have t: "transition_c_1 net = Transition_init (np_transition_c_1 p) (kw_dim_cond kw) 2 False"
    "transition_c_2 net = Transition_init (np_transition_c_2 p) (kw_dim_cond kw) 2 False"
    "cond_factory net = np_cond_factory p"
    by (elim init_cases; simp)+
  from f obtain c0 where c0: "cond_factory net batch = Inr c0" "shape c0 = [b, n, kw_dim_cond kw]"
    by (auto simp: returns_shape_def t)
  have "shape c0 = shape (batch_mask batch) @ [kw_dim_cond kw]" using c0 m by simp
  from Transition_forward_ok[OF t(1) sw(1) this]
  obtain c1 where c1: "Transition_forward (transition_c_1 net) c0 (batch_mask batch) = Inr c1"
    "shape c1 = shape c0" by blast
  have "shape c1 = shape (batch_mask batch) @ [kw_dim_cond kw]" using c1 c0 m by simp
  from Transition_forward_ok[OF t(2) sw(2) this]
  obtain c2 where c2: "Transition_forward (transition_c_2 net) c1 (batch_mask batch) = Inr c2"
    "shape c2 = shape c1" by blast
  have "conditioning net batch = Inr c2" using c0 c1 c2 by (simp add: conditioning_def)
  with c2 c1 c0 show ?thesis by simp
qed

lemma initial_seqs_ok:
  assumes init: "ProteinTransformerAF3_init p kw = Inr net"
    and m: "shape (batch_mask batch) = [b, n]" and x: "shape (x_t batch) = [b, n, 3]"
    and f: "returns_shape (np_init_repr_factory p) batch [b, n, kw_token_dim kw]"
  shows "\<exists>s. initial_seqs net batch = Inr s \<and> shape s = [b, n, kw_token_dim kw]"
proof -
  note e = init_embed[OF init]
  have xm: "shape (x_t batch) = shape (batch_mask batch) @ [3]" using x m by simp
  obtain c3 where c3: "mul_mask (x_t batch) (batch_mask batch) = Inr c3" "shape c3 = [b, n, 3]"
    by (rule mul_mask_ok[OF xm]) (use x in auto)
  have "shape c3 = [b, n] @ [in_features (linear_3d_embed net)]" using c3 e by simp
  from Linear_forward_ok[OF this]
  obtain em where em: "Linear_forward (linear_3d_embed net) c3 = Inr em"
    "shape em = [b, n, kw_token_dim kw]" using e by auto
  have "shape em = shape (batch_mask batch) @ [kw_token_dim kw]" using em m by simp
  from mul_mask_ok[OF this]
  obtain ce where ce: "mul_mask em (batch_mask batch) = Inr ce" "shape ce = shape em" by blast
  from f obtain fr where fr: "init_repr_factory net batch = Inr fr"
    "shape fr = [b, n, kw_token_dim kw]"
    by (auto simp: returns_shape_def e)
  have "shape ce = shape fr" using ce em fr by simp
  from add_ex[OF this] obtain s0 where s0: "add ce fr = Inr s0" "shape s0 = shape ce" by blast
  have "shape s0 = shape (batch_mask batch) @ [kw_token_dim kw]" using s0 ce em m by simp
  from mul_mask_ok[OF this]
  obtain s where s: "mul_mask s0 (batch_mask batch) = Inr s" "shape s = shape s0" by blast
  have "initial_seqs net batch = Inr s"
    using c3 em ce fr s0 s by (simp add: initial_seqs_def Let_def)
  with s s0 ce em show ?thesis by simp
qed


lemma init_builder:
  assumes "ProteinTransformerAF3_init p kw = Inr net" "use_attn_pair_bias net"
  obtains fc where "pair_repr_builder net
      = Some (PairReprBuilder_init (np_pair_repr_builder p) fc)"
proof -
  from assms obtain builder update where
    a: "init_pair_repr p kw = Inr (builder, update)" "pair_repr_builder net = builder"
    "kw_use_attn_pair_bias kw"
    by (elim init_cases) simp
  from a(1,3) obtain fc where "builder = Some (PairReprBuilder_init (np_pair_repr_builder p) fc)"
    by (cases "kw_feats_pair_cond kw") (auto simp: init_pair_repr_def)
  with a(2) that show ?thesis by simp
qed

lemma initial_pair_ok:
  assumes init: "ProteinTransformerAF3_init p kw = Inr net"
    and m: "shape (batch_mask batch) = [b, n]"
    and f: "returns_shape (pb_init_repr (np_pair_repr_builder p)) batch
                [b, n, n, kw_pair_repr_dim kw]"
      "returns_shape (pb_cond (np_pair_repr_builder p)) batch [b, n, n, kw_dim_cond kw]"
      "keeps_shape (pb_adaln (np_pair_repr_builder p))"
  shows "(use_attn_pair_bias net \<longrightarrow>
            (\<exists>pt. initial_pair net batch = Inr (Some pt)
               \<and> shape pt = [b, n, n, kw_pair_repr_dim kw]))
     \<and> (\<not> use_attn_pair_bias net \<longrightarrow> initial_pair net batch = Inr None)"
proof (intro conjI impI)
  assume "\<not> use_attn_pair_bias net"
  then show "initial_pair net batch = Inr None" by (simp add: initial_pair_def)
next
  assume u: "use_attn_pair_bias net"
  from init u obtain fc where B: "pair_repr_builder net
      = Some (PairReprBuilder_init (np_pair_repr_builder p) fc)"
    by (rule init_builder)
  let ?B = "PairReprBuilder_init (np_pair_repr_builder p) fc"
  obtain pm where pm: "and_then (index_none 2 2 (batch_mask batch))
      (\<lambda>m_col. and_then (index_none 2 1 (batch_mask batch)) (\<lambda>m_row. mul_bool m_col m_row))
       = Inr pm"
    by (rule pair_mask_ok[OF m])
  then obtain m_col m_row where mc: "index_none 2 2 (batch_mask batch) = Inr m_col"
    and mr: "index_none 2 1 (batch_mask batch) = Inr m_row"
    and mb: "mul_bool m_col m_row = Inr pm"
    by (auto simp: and_then_eq_Inr)
  from f(1) obtain r0 where r0: "pb_init_repr (np_pair_repr_builder p) batch = Inr r0"
    "shape r0 = [b, n, n, kw_pair_repr_dim kw]"
    by (auto simp: returns_shape_def)
  from f(2) obtain cd where cd: "pb_cond (np_pair_repr_builder p) batch = Inr cd"
    by (auto simp: returns_shape_def)
  from f(3) obtain r1 where r1: "pb_adaln (np_pair_repr_builder p) r0 cd pm = Inr r1"
    "shape r1 = shape r0"
    by (rule keeps_shapeE)
  have "\<exists>pt. PairReprBuilder_forward ?B batch = Inr pt
           \<and> shape pt = [b, n, n, kw_pair_repr_dim kw]"
    using mc mr mb r0 cd r1
    by (auto simp: PairReprBuilder_forward_def PairReprBuilder_init_def Let_def
        split: option.splits)
  then show "\<exists>pt. initial_pair net batch = Inr (Some pt)
               \<and> shape pt = [b, n, n, kw_pair_repr_dim kw]"
    using u B by (auto simp: initial_pair_def)
qed

lemma residual_pair_op_ok:
  assumes "pair_op_keeps_shape f" "shape p = [b, n, n, d]" "shape pm = [b, n, n]"
  shows "\<exists>z. residual_pair_op f p pm = Inr z \<and> shape z = [b, n, n, d]"
proof -
  from assms(1) obtain dl where dl: "f p (to_float pm) = Inr dl" "shape dl = shape p"
    unfolding pair_op_keeps_shape_def by blast
  have "shape p = shape dl" using dl by simp
  from add_ex[OF this] obtain q where q: "add p dl = Inr q" "shape q = shape p" by blast
  have "shape q = [b, n, n, d]" using q assms by simp
  then obtain z where "apply_mask q pm = Inr z" "shape z = [b, n, n, d]"
    by (rule apply_mask_elem4[OF _ assms(3)]) blast
  with dl q show ?thesis by (simp add: residual_pair_op_def checkpoint_def)
qed

lemma PairReprUpdate_forward_ok:
  assumes U: "U = PairReprUpdate_init pp td pd tri" and c: "pair_update_contract pp"
    and s: "shape x = [b, n, td]" "shape pair_t = [b, n, n, pd]" "shape m = [b, n]"
  shows "\<exists>p'. PairReprUpdate_forward U x (Some pair_t) m = Inr p' \<and> shape p' = [b, n, n, pd]"
proof -
  from outer_sum_step_entries[OF U s]
  obtain xm xn proj x1 x2 pm p0 where big:
     "mul_mask x m = Inr xm
      \<and> LayerNorm_forward (layer_norm_in U) xm = Inr xn
      \<and> Linear_forward (linear_x U) xn = Inr proj
      \<and> chunk2_last proj = Inr (x1, x2)
      \<and> shape x1 = [b, n, pd] \<and> shape x2 = [b, n, pd]
      \<and> outer_sum_step U x (Some pair_t) m = Inr (p0, pm)
      \<and> shape p0 = [b, n, n, pd]
      \<and> (\<forall>i<b. \<forall>j<n. \<forall>k<n. \<forall>l<pd.
            elem p0 [i, j, k, l] =
              (elem pair_t [i, j, k, l] + elem x1 [i, k, l] + elem x2 [i, j, l])
              * of_bool (elem m [i, j] \<and> elem m [i, k]))
      \<and> shape pm = [b, n, n]"
    by (elim exE) (rule that)
  note c6 = big[THEN conjunct2, THEN conjunct2, THEN conjunct2, THEN conjunct2,
      THEN conjunct2, THEN conjunct2]
  note st = c6[THEN conjunct1]
  note p0 = c6[THEN conjunct2, THEN conjunct1]
  note pm = c6[THEN conjunct2, THEN conjunct2, THEN conjunct2]
  from c have k: "pair_op_keeps_shape (pp_tri_mult_out pp)" "pair_op_keeps_shape (pp_tri_mult_in pp)"
    "pair_op_keeps_shape (transition_out U)"
    by (simp_all add: pair_update_contract_def U PairReprUpdate_init_def)
  have "\<exists>p1. (if pu_use_tri_mult U
               then (case tri_mult_out U of None \<Rightarrow> Inl AttributeError | Some f \<Rightarrow>
                       and_then (residual_pair_op f p0 pm) (\<lambda>p.
                       (case tri_mult_in U of None \<Rightarrow> Inl AttributeError | Some g \<Rightarrow>
                          residual_pair_op g p pm)))
               else Inr p0) = Inr p1 \<and> shape p1 = [b, n, n, pd]"
  proof (cases tri)
    case False
    then show ?thesis using p0 by (simp add: U PairReprUpdate_init_def)
  next
    case True
    from residual_pair_op_ok[OF k(1) p0 pm] obtain q1 where
      q1: "residual_pair_op (pp_tri_mult_out pp) p0 pm = Inr q1" "shape q1 = [b, n, n, pd]"
      by blast
    from residual_pair_op_ok[OF k(2) q1(2) pm] obtain q2 where
      q2: "residual_pair_op (pp_tri_mult_in pp) q1 pm = Inr q2" "shape q2 = [b, n, n, pd]"
      by blast
    show ?thesis using True q1 q2 by (simp add: U PairReprUpdate_init_def)
  qed
  then obtain p1 where p1: "(if pu_use_tri_mult U
               then (case tri_mult_out U of None \<Rightarrow> Inl AttributeError | Some f \<Rightarrow>
                       and_then (residual_pair_op f p0 pm) (\<lambda>p.
                       (case tri_mult_in U of None \<Rightarrow> Inl AttributeError | Some g \<Rightarrow>
                          residual_pair_op g p pm)))
               else Inr p0) = Inr p1" "shape p1 = [b, n, n, pd]"
    by blast
  from residual_pair_op_ok[OF k(3) p1(2) pm] obtain p' where
    p': "residual_pair_op (transition_out U) p1 pm = Inr p'" "shape p' = [b, n, n, pd]"
    by blast
  have "PairReprUpdate_forward U x (Some pair_t) m = Inr p'"
    unfolding PairReprUpdate_forward_def st and_then_Inr prod.case p1(1)
    by (rule p'(1))
  with p' show ?thesis by blast
qed


lemma trunk_loop_ok:
  assumes init: "ProteinTransformerAF3_init p kw = Inr net"
    and bc: "\<forall>i<nat (kw_nlayers kw). block_contract (np_transformer_layers p i)"
    and pc: "\<forall>i<nat (kw_nlayers kw). pair_update_contract (np_pair_update_layers p i)"
    and m: "shape m = [b, n]"
  shows "shape seqs = [b, n, kw_token_dim kw] \<Longrightarrow>
     (update_pair_repr net \<longrightarrow>
        (\<exists>pt. pair_rep = Some pt \<and> shape pt = [b, n, n, kw_pair_repr_dim kw])) \<Longrightarrow>
     \<forall>i\<in>set is. i < nat (kw_nlayers kw) \<Longrightarrow>
     \<exists>seqs' pair'. trunk_loop net c m is (seqs, pair_rep) = Inr (seqs', pair')
        \<and> shape seqs' = [b, n, kw_token_dim kw]
        \<and> (update_pair_repr net \<longrightarrow>
              (\<exists>pt. pair' = Some pt \<and> shape pt = [b, n, n, kw_pair_repr_dim kw]))
        \<and> (\<not> update_pair_repr net \<longrightarrow> pair' = pair_rep)"
proof (induction "is" arbitrary: seqs pair_rep)
  case Nil
  then show ?case by simp
next
  case (Cons i rest)
  from Cons.prems have i: "i < nat (kw_nlayers kw)" by simp
  from init have dims: "token_dim net = kw_token_dim kw" "pair_repr_dim net = kw_pair_repr_dim kw"
    by (elim init_cases; simp)+
  note B = init_layers(2)[OF init i]
  have len: "\<not> length (transformer_layers net) \<le> i"
    using i by (simp add: init_layers(1)[OF init])
  from bc i have c1: "block_contract (np_transformer_layers p i)" by simp
  from pc i have c2: "pair_update_contract (np_pair_update_layers p i)" by simp
  obtain y where y: "MultiheadAttnAndTransition_forward (transformer_layers net ! i)
       seqs pair_rep c m = Inr y" "shape y = shape seqs"
    by (rule block_ok[OF B c1 Cons.prems(1) m])
  have ys: "shape y = [b, n, kw_token_dim kw]" using y Cons.prems(1) by simp
  let ?cond = "update_pair_repr net \<and> int i < nlayers net - 1
                 \<and> int i mod update_pair_repr_every_n net = 0"
  let ?U = "PairReprUpdate_init (np_pair_update_layers p i) (token_dim net)
               (pair_repr_dim net) (use_tri_mult net)"
  have "\<exists>pair1. trunk_step net c m i (seqs, pair_rep) = Inr (y, pair1)
          \<and> (update_pair_repr net \<longrightarrow>
                (\<exists>pt. pair1 = Some pt \<and> shape pt = [b, n, n, kw_pair_repr_dim kw]))
          \<and> (\<not> update_pair_repr net \<longrightarrow> pair1 = pair_rep)"
  proof (cases ?cond)
    case False
    have "pair_update_at net i = Inr None"
      unfolding pair_update_at_init[OF init] if_not_P[OF False] ..
    then have "trunk_step net c m i (seqs, pair_rep) = Inr (y, pair_rep)"
      using y len by (simp add: trunk_step_def)
    with Cons.prems(2) show ?thesis by simp
  next
    case True
    with Cons.prems(2) obtain pt where pt: "pair_rep = Some pt"
      "shape pt = [b, n, n, kw_pair_repr_dim kw]" by blast
    have "\<exists>p'. PairReprUpdate_forward ?U y (Some pt) m = Inr p'
            \<and> shape p' = [b, n, n, pair_repr_dim net]"
      by (rule PairReprUpdate_forward_ok[OF refl c2 _ _ m]) (simp_all add: ys pt dims)
    then obtain p' where p': "PairReprUpdate_forward ?U y (Some pt) m = Inr p'"
      "shape p' = [b, n, n, kw_pair_repr_dim kw]" using dims by auto
    have "pair_update_at net i = Inr (Some ?U)"
      unfolding pair_update_at_init[OF init] if_P[OF True] ..
    then have "trunk_step net c m i (seqs, pair_rep) = Inr (y, Some p')"
      using y len p' pt by (simp add: trunk_step_def)
    with p' True show ?thesis by simp
  qed
  then obtain pair1 where st: "trunk_step net c m i (seqs, pair_rep) = Inr (y, pair1)"
    and inv: "update_pair_repr net \<longrightarrow>
                (\<exists>pt. pair1 = Some pt \<and> shape pt = [b, n, n, kw_pair_repr_dim kw])"
    and same: "\<not> update_pair_repr net \<longrightarrow> pair1 = pair_rep"
    by blast
  from Cons.prems(3) have rest: "\<forall>i\<in>set rest. i < nat (kw_nlayers kw)" by simp
  from Cons.IH[OF ys inv rest] obtain seqs' pair' where
    r: "trunk_loop net c m rest (y, pair1) = Inr (seqs', pair')"
      "shape seqs' = [b, n, kw_token_dim kw]"
      "update_pair_repr net \<longrightarrow>
         (\<exists>pt. pair' = Some pt \<and> shape pt = [b, n, n, kw_pair_repr_dim kw])"
      "\<not> update_pair_repr net \<longrightarrow> pair' = pair1"
    by blast
  show ?case
    using st r same by (intro exI[of _ seqs'] exI[of _ pair']) simp
qed


lemma extend_ok:
  assumes regs: "registers net = Some regs" "shape regs = [num_registers net, d]"
    and r: "num_registers net \<noteq> 0"
    and s: "shape seqs = [b, n, d]" "shape pair_t = [b, n, n, dp]" "shape m = [b, n]"
      "shape cond_seq = [b, n, dc]"
  shows "\<exists>seqs' pair' m' cond'.
      extend_w_registers net seqs (Some pair_t) m cond_seq = Inr (seqs', Some pair', m', cond')
      \<and> shape seqs' = [b, num_registers net + n, d]
      \<and> shape pair' = [b, num_registers net + n, num_registers net + n, dp]
      \<and> shape m' = [b, num_registers net + n]
      \<and> shape cond' = [b, num_registers net + n, dc]
      \<and> (\<forall>i<b. \<forall>j<n. elem m' [i, j + num_registers net] = elem m [i, j])"
  using regs s r
  by (simp add: extend_w_registers_def index_none_def unsqueeze_def expand_batch_def cat_def
      zeros_def ones_bool_def Let_def)

lemma undo_ok:
  assumes r: "num_registers net \<noteq> 0"
    and s: "shape seqs = [b, num_registers net + n, d]"
      "shape pair_t = [b, num_registers net + n, num_registers net + n, dp]"
      "shape m = [b, num_registers net + n]"
  shows "\<exists>seqs' pair' m'.
      undo_registers net seqs (Some pair_t) m = Inr (seqs', Some pair', m')
      \<and> shape seqs' = [b, n, d] \<and> shape pair' = [b, n, n, dp] \<and> shape m' = [b, n]
      \<and> (\<forall>i<b. \<forall>j<n. elem m' [i, j] = elem m [i, j + num_registers net])"
  using r s
  by (simp add: undo_registers_def slice_from_def Let_def)

lemma LayerNorm_forward_ok:
  assumes "shape x = s @ [normalized_shape N]"
  obtains y where "LayerNorm_forward N x = Inr y" "shape y = shape x"
  using assms by (simp add: LayerNorm_forward_def)

lemma sequential_ln_linear_ex:
  assumes "shape x = s @ [d]" "normalized_shape (fst layers) = d" "in_features (snd layers) = d"
  shows "\<exists>y. sequential_ln_linear layers x = Inr y
           \<and> shape y = s @ [out_features (snd layers)]"
proof -
  have "shape x = s @ [normalized_shape (fst layers)]" using assms by simp
  then obtain h where h: "LayerNorm_forward (fst layers) x = Inr h" "shape h = shape x"
    by (rule LayerNorm_forward_ok)
  have "shape h = s @ [in_features (snd layers)]" using h assms by simp
  then obtain y where y: "Linear_forward (snd layers) h = Inr y"
    "shape y = s @ [out_features (snd layers)]"
    by (rule Linear_forward_ok)
  show ?thesis using h y by (simp add: sequential_ln_linear_def)
qed

lemma decode_ok:
  assumes init: "ProteinTransformerAF3_init p kw = Inr net"
    and s: "shape seqs = [b, n, kw_token_dim kw]" "shape m = [b, n]"
    and pr: "update_pair_repr net \<longrightarrow>
               (\<exists>pt. pair_rep = Some pt \<and> shape pt = [b, n, n, kw_pair_repr_dim kw])"
  shows "\<exists>out. decode net seqs pair_rep m = Inr out \<and> shape (coors_pred out) = [b, n, 3]
      \<and> (pair_pred out \<noteq> None
           \<longleftrightarrow> update_pair_repr net \<and> num_buckets_predict_pair net \<noteq> None)"
proof -
  from init have dec: "coors_3d_decoder net =
       (LayerNorm (kw_token_dim kw) (np_decoder_ln_weight p) (np_decoder_ln_bias p),
        \<lparr>in_features = kw_token_dim kw, out_features = 3,
         weight = np_decoder_weight p, bias = None\<rparr>)"
    by (elim init_cases)
  have "shape seqs = [b, n] @ [kw_token_dim kw]" using s by simp
  from sequential_ln_linear_ex[OF this, of "coors_3d_decoder net"]
  obtain d0 where d0: "sequential_ln_linear (coors_3d_decoder net) seqs = Inr d0"
    "shape d0 = [b, n] @ [out_features (snd (coors_3d_decoder net))]"
    by (auto simp: dec LayerNorm_def)
  have "shape d0 = shape m @ [3]" using d0 s dec by simp
  then obtain fc where fc: "mul_mask d0 m = Inr fc" "shape fc = shape d0"
    by (rule mul_mask_ok)
  have fcs: "shape fc = [b, n, 3]" using fc d0 dec by simp
  show ?thesis
  proof (cases "update_pair_repr net \<and> num_buckets_predict_pair net \<noteq> None")
    case False
    then have "decode net seqs pair_rep m = Inr \<lparr>pair_pred = None, coors_pred = fc\<rparr>"
      using d0 fc by (auto simp: decode_def)
    with fcs False show ?thesis by simp
  next
    case True
    then obtain nb where nb: "num_buckets_predict_pair net = Some nb" by auto
    from True pr obtain pt where pt: "pair_rep = Some pt"
      "shape pt = [b, n, n, kw_pair_repr_dim kw]" by blast
    from init True nb have head: "pair_head_prediction net =
        Some (LayerNorm (kw_pair_repr_dim kw) (np_pair_head_ln_weight p)
                (np_pair_head_ln_bias p),
              \<lparr>in_features = kw_pair_repr_dim kw, out_features = nb,
               weight = np_pair_head_weight p, bias = Some (np_pair_head_bias p)\<rparr>)"
      by (elim init_cases) auto
    let ?head = "(LayerNorm (kw_pair_repr_dim kw) (np_pair_head_ln_weight p)
                (np_pair_head_ln_bias p),
              \<lparr>in_features = kw_pair_repr_dim kw, out_features = nb,
               weight = np_pair_head_weight p, bias = Some (np_pair_head_bias p)\<rparr>)"
    have "shape pt = [b, n, n] @ [kw_pair_repr_dim kw]" using pt by simp
    from sequential_ln_linear_ex[OF this, of ?head]
    obtain pp where pp: "sequential_ln_linear ?head pt = Inr pp"
      by (auto simp: LayerNorm_def)
    have "\<exists>f1. add fc (scale (mean pp) 0) = Inr f1 \<and> shape f1 = [b, n, 3]"
      using fcs by (simp add: add_def binop_def broadcast_shapes_def scale_def mean_def)
    then obtain f1 where f1: "add fc (scale (mean pp) 0) = Inr f1" "shape f1 = [b, n, 3]"
      by blast
    have "shape f1 = shape m @ [3]" using f1 s by simp
    then obtain f2 where f2: "mul_mask f1 m = Inr f2" "shape f2 = shape f1"
      by (rule mul_mask_ok)
    have "decode net seqs pair_rep m = Inr \<lparr>pair_pred = Some pp, coors_pred = f2\<rparr>"
      using d0 fc True head pt pp f1 f2 by (simp add: decode_def)
    with f2 f1 True show ?thesis by simp
  qed
qed


lemma net_contractD:
  assumes "net_contract p kw batch" "shape (batch_mask batch) = [b, n]"
  shows "shape (x_t batch) = [b, n, 3]"
    "returns_shape (np_cond_factory p) batch [b, n, kw_dim_cond kw]"
    "returns_shape (np_init_repr_factory p) batch [b, n, kw_token_dim kw]"
    "swiglu_halves (tp_swiglu (np_transition_c_1 p))"
    "swiglu_halves (tp_swiglu (np_transition_c_2 p))"
    "returns_shape (pb_init_repr (np_pair_repr_builder p)) batch [b, n, n, kw_pair_repr_dim kw]"
    "returns_shape (pb_cond (np_pair_repr_builder p)) batch [b, n, n, kw_dim_cond kw]"
    "keeps_shape (pb_adaln (np_pair_repr_builder p))"
    "\<forall>i<nat (kw_nlayers kw). block_contract (np_transformer_layers p i)"
    "\<forall>i<nat (kw_nlayers kw). pair_update_contract (np_pair_update_layers p i)"
  using assms by (simp_all add: net_contract_def)

lemma init_update_needs_bias:
  assumes "ProteinTransformerAF3_init p kw = Inr net" "update_pair_repr net"
  shows "use_attn_pair_bias net"
  using assms
  by (elim init_cases) (auto simp: init_pair_repr_def split: if_splits option.splits)

lemma forward_repr_ok:
  assumes init: "ProteinTransformerAF3_init p kw = Inr net"
    and nc: "net_contract p kw batch" and m: "shape (batch_mask batch) = [b, n]"
    and compat: "num_registers net = 0 \<or> use_attn_pair_bias net"
  shows "\<exists>seqs pair_rep m'. forward_repr net batch = Inr (seqs, pair_rep, m')
     \<and> shape seqs = [b, n, kw_token_dim kw] \<and> shape m' = [b, n]
     \<and> (update_pair_repr net \<longrightarrow>
           (\<exists>pt. pair_rep = Some pt \<and> shape pt = [b, n, n, kw_pair_repr_dim kw]))"
proof -
  note c = net_contractD[OF nc m]
  from init have nl: "nlayers net = kw_nlayers kw" by (elim init_cases)
  obtain cd where cd: "conditioning net batch = Inr cd" "shape cd = [b, n, kw_dim_cond kw]"
    using conditioning_ok[OF init m c(2,4,5)] by blast
  obtain s0 where s0: "initial_seqs net batch = Inr s0" "shape s0 = [b, n, kw_token_dim kw]"
    using initial_seqs_ok[OF init m c(1,3)] by blast
  note ip = initial_pair_ok[OF init m c(6,7,8)]
  have all: "\<forall>i\<in>set [0..<nat (kw_nlayers kw)]. i < nat (kw_nlayers kw)" by simp
  show ?thesis
  proof (cases "use_attn_pair_bias net")
    case False
    with compat have r: "num_registers net = 0" by simp
    from False ip have p0: "initial_pair net batch = Inr None" by simp
    from False init_update_needs_bias[OF init] have nou: "\<not> update_pair_repr net" by blast
    have ti: "trunk_inputs net batch = Inr (s0, None, batch_mask batch, cd)"
      using cd s0 p0 r by (simp add: trunk_inputs_def extend_w_registers_def)
    from trunk_loop_ok[OF init c(9,10) m s0(2) _ all, of None cd] nou
    obtain s1 p1 where t: "trunk_loop net cd (batch_mask batch) [0..<nat (kw_nlayers kw)]
        (s0, None) = Inr (s1, p1)" "shape s1 = [b, n, kw_token_dim kw]"
      by auto
    have "forward_repr net batch = Inr (s1, p1, batch_mask batch)"
      using ti t r by (simp add: forward_repr_def run_trunk_def nl undo_registers_def)
    with t m nou show ?thesis by simp
  next
    case True
    with ip obtain pt where p0: "initial_pair net batch = Inr (Some pt)"
      "shape pt = [b, n, n, kw_pair_repr_dim kw]" by blast
    show ?thesis
    proof (cases "num_registers net = 0")
      case r: True
      have ti: "trunk_inputs net batch = Inr (s0, Some pt, batch_mask batch, cd)"
        using cd s0 p0 r by (simp add: trunk_inputs_def extend_w_registers_def)
      from trunk_loop_ok[OF init c(9,10) m s0(2) _ all, of "Some pt" cd] p0(2)
      obtain s1 p1 where t: "trunk_loop net cd (batch_mask batch) [0..<nat (kw_nlayers kw)]
          (s0, Some pt) = Inr (s1, p1)" "shape s1 = [b, n, kw_token_dim kw]"
        "update_pair_repr net \<longrightarrow>
           (\<exists>pt. p1 = Some pt \<and> shape pt = [b, n, n, kw_pair_repr_dim kw])"
        by auto
      have "forward_repr net batch = Inr (s1, p1, batch_mask batch)"
        using ti t r by (simp add: forward_repr_def run_trunk_def nl undo_registers_def)
      with t m show ?thesis by simp
    next
      case r: False
      let ?r = "num_registers net"
      obtain regs where regs: "registers net = Some regs"
        "shape regs = [?r, kw_token_dim kw]"
        by (rule init_registers_shape[OF init r])
      from extend_ok[OF regs r s0(2) p0(2) m cd(2)]
      obtain s1 p1 m1 c1 where e:
        "extend_w_registers net s0 (Some pt) (batch_mask batch) cd = Inr (s1, Some p1, m1, c1)"
        "shape s1 = [b, ?r + n, kw_token_dim kw]"
        "shape p1 = [b, ?r + n, ?r + n, kw_pair_repr_dim kw]"
        "shape m1 = [b, ?r + n]"
        by blast
      have ti: "trunk_inputs net batch = Inr (s1, Some p1, m1, c1)"
        using cd s0 p0 e(1) by (simp add: trunk_inputs_def)
      from trunk_loop_ok[OF init c(9,10) e(4) e(2) _ all, of "Some p1" c1] e(3)
      obtain s2 p2 where t: "trunk_loop net c1 m1 [0..<nat (kw_nlayers kw)]
          (s1, Some p1) = Inr (s2, p2)" "shape s2 = [b, ?r + n, kw_token_dim kw]"
        "update_pair_repr net \<longrightarrow>
           (\<exists>pt. p2 = Some pt \<and> shape pt = [b, ?r + n, ?r + n, kw_pair_repr_dim kw])"
        "\<not> update_pair_repr net \<longrightarrow> p2 = Some p1"
        by auto
      from t(3,4) e(3) obtain q2 where q2: "p2 = Some q2"
        "shape q2 = [b, ?r + n, ?r + n, kw_pair_repr_dim kw]"
        by (cases "update_pair_repr net") auto
      from undo_ok[OF r t(2) q2(2) e(4)]
      obtain s3 p3 m3 where u: "undo_registers net s2 (Some q2) m1 = Inr (s3, Some p3, m3)"
        "shape s3 = [b, n, kw_token_dim kw]" "shape p3 = [b, n, n, kw_pair_repr_dim kw]"
        "shape m3 = [b, n]"
        by blast
      have "forward_repr net batch = Inr (s3, Some p3, m3)"
        using ti t(1) q2(1) u(1) by (simp add: forward_repr_def run_trunk_def nl)
      with u show ?thesis by simp
    qed
  qed
qed

lemma forward_ok:
  assumes init: "ProteinTransformerAF3_init p kw = Inr net"
    and nc: "net_contract p kw batch" and m: "shape (batch_mask batch) = [b, n]"
    and compat: "num_registers net = 0 \<or> use_attn_pair_bias net"
  shows "\<exists>out. forward net batch = Inr out \<and> shape (coors_pred out) = [b, n, 3]
      \<and> (pair_pred out \<noteq> None
           \<longleftrightarrow> update_pair_repr net \<and> num_buckets_predict_pair net \<noteq> None)"
proof -
  from forward_repr_ok[OF init nc m compat]
  obtain seqs pair_rep m' where f: "forward_repr net batch = Inr (seqs, pair_rep, m')"
    "shape seqs = [b, n, kw_token_dim kw]" "shape m' = [b, n]"
    "update_pair_repr net \<longrightarrow>
           (\<exists>pt. pair_rep = Some pt \<and> shape pt = [b, n, n, kw_pair_repr_dim kw])"
    by blast
  from decode_ok[OF init f(2,3,4)] f(1) show ?thesis
    by (simp add: forward_def)
qed


section \<open>The loop of the code and the schedule of the specification\<close>

lemma trunk_step_scheduled:
  assumes init: "ProteinTransformerAF3_init p kw = Inr net" and i: "i < nat (kw_nlayers kw)"
  shows "trunk_step net c m i st = scheduled_step p net c m i st"
proof -
  have len: "\<not> length (transformer_layers net) \<le> i"
    using i by (simp add: init_layers(1)[OF init])
  obtain seqs pair_rep where st: "st = (seqs, pair_rep)" by (cases st)
  show ?thesis
  proof (cases "scheduled net i")
    case True
    then have "pair_update_at net i =
        Inr (Some (PairReprUpdate_init (np_pair_update_layers p i) (token_dim net)
                     (pair_repr_dim net) (use_tri_mult net)))"
      by (simp add: pair_update_at_init[OF init] scheduled_def)
    with True len show ?thesis by (simp add: trunk_step_def scheduled_step_def st)
  next
    case False
    then have "pair_update_at net i = Inr None"
      by (simp add: pair_update_at_init[OF init] scheduled_def)
    with False len show ?thesis by (simp add: trunk_step_def scheduled_step_def st)
  qed
qed

lemma trunk_loop_scheduled:
  assumes init: "ProteinTransformerAF3_init p kw = Inr net"
  shows "\<forall>i\<in>set is. i < nat (kw_nlayers kw) \<Longrightarrow>
         trunk_loop net c m is st = scheduled_loop p net c m is st"
proof (induction "is" arbitrary: st)
  case Nil
  then show ?case by simp
next
  case (Cons i rest)
  from Cons.prems have i: "i < nat (kw_nlayers kw)"
    and rest: "\<forall>i\<in>set rest. i < nat (kw_nlayers kw)" by simp_all
  have "trunk_loop net c m rest = scheduled_loop p net c m rest"
    by (rule ext) (rule Cons.IH[OF rest])
  then show ?case by (simp add: trunk_step_scheduled[OF init i])
qed

lemma run_trunk_scheduled:
  assumes init: "ProteinTransformerAF3_init p kw = Inr net"
  shows "run_trunk net seqs pair_rep c m
         = scheduled_loop p net c m [0..<nat (nlayers net)] (seqs, pair_rep)"
proof -
  from init have nl: "nlayers net = kw_nlayers kw" by (elim init_cases)
  show ?thesis
    unfolding run_trunk_def nl by (rule trunk_loop_scheduled[OF init]) simp
qed

lemma forward_repr_scheduled:
  assumes init: "ProteinTransformerAF3_init p kw = Inr net"
  shows "forward_repr net batch = scheduled_forward_repr p net batch"
  by (simp add: forward_repr_def scheduled_forward_repr_def run_trunk_scheduled[OF init])

lemma scheduled_6_2:
  assumes "update_pair_repr net" "nlayers net = 6" "update_pair_repr_every_n net = 2"
  shows "scheduled net i \<longleftrightarrow> i \<in> {0, 2, 4}"
  using assms unfolding scheduled_def by (simp, presburger)

section \<open>Faults of the constructor and of the forward pass without a pair tensor\<close>

lemma collect_Inl: "collect rs = Inl e \<Longrightarrow> Inl e \<in> set rs"
proof (induction rs)
  case Nil
  then show ?case by simp
next
  case (Cons r rs)
  then show ?case by (cases r; cases "collect rs") auto
qed

lemma block_init_fault:
  "MultiheadAttnAndTransition_init bp d dp nh dc rm rt par upb qk ef = Inl e
   \<Longrightarrow> e = ZeroDivisionError \<and> nh = 0"
  by (auto simp: MultiheadAttnAndTransition_init_def MultiHeadBiasedAttentionADALN_MM_init_def
      Let_def split: if_splits)

lemma init_transformer_layers_fault:
  assumes "init_transformer_layers p kw q = Inl e"
  shows "e = ZeroDivisionError \<and> kw_nheads kw = 0 \<and> 0 < kw_nlayers kw"
proof -
  from collect_Inl[OF assms[unfolded init_transformer_layers_def]]
  obtain i where i: "i < nat (kw_nlayers kw)"
    and "MultiheadAttnAndTransition_init (np_transformer_layers p i)
           (kw_token_dim kw) (kw_pair_repr_dim kw) (kw_nheads kw) (kw_dim_cond kw)
           (kw_residual_mha kw) (kw_residual_transition kw)
           (kw_parallel_mha_transition kw) (kw_use_attn_pair_bias kw) q 4 = Inl e"
    by auto
  from block_init_fault[OF this(2)] i show ?thesis by simp
qed

lemma init_no_bias_fault:
  assumes nb: "\<not> kw_use_attn_pair_bias kw" and "ProteinTransformerAF3_init p kw = Inl e"
  shows "e = ZeroDivisionError \<and> kw_nheads kw = 0 \<and> 0 < kw_nlayers kw"
proof -
  have pr: "init_pair_repr p kw = Inr (None, False)"
    using nb by (simp add: init_pair_repr_def)
  have "init_transformer_layers p kw (case kw_use_qkln kw of None \<Rightarrow> False | Some u \<Rightarrow> u)
          = Inl e"
    using assms(2)
    by (cases "init_registers p kw";
        cases "init_transformer_layers p kw (case kw_use_qkln kw of None \<Rightarrow> False | Some u \<Rightarrow> u)")
       (simp_all add: ProteinTransformerAF3_init_def Let_def pr)
  then show ?thesis by (rule init_transformer_layers_fault)
qed

lemma forward_fault_without_pair:
  assumes nr: "num_registers net \<noteq> 0" and ub: "\<not> use_attn_pair_bias net"
  shows "\<exists>e. forward net batch = Inl e"
proof -
  have e1: "\<exists>e. extend_w_registers net seqs None m c = Inl e" for seqs m c
    using nr by (simp add: extend_w_registers_def split: list.splits)
  have "\<exists>e. trunk_inputs net batch = Inl e"
  proof (cases "trunk_inputs net batch")
    case (Inl e) then show ?thesis by blast
  next
    case (Inr v)
    then obtain c seqs where "extend_w_registers net seqs None (batch_mask batch) c = Inr v"
      by (auto simp: trunk_inputs_def and_then_eq_Inr initial_pair_def ub)
    with e1 show ?thesis by (metis sum.distinct(1))
  qed
  then obtain e where "trunk_inputs net batch = Inl e" by blast
  then show ?thesis by (simp add: forward_def forward_repr_def)
qed

lemma forward_repr_without_pair:
  assumes nou: "\<not> update_pair_repr net" and ub: "\<not> use_attn_pair_bias net"
    and fr: "forward_repr net batch = Inr (seqs, pair_rep, m)"
  shows "num_registers net = 0 \<and> pair_rep = None \<and> m = batch_mask batch
     \<and> (\<exists>s0 c. trunk_inputs net batch = Inr (s0, None, batch_mask batch, c)
           \<and> run_trunk net s0 None c (batch_mask batch) = Inr (seqs, None))"
proof -
  from fr obtain s0 p0 m0 c s1 p1 where
    ti: "trunk_inputs net batch = Inr (s0, p0, m0, c)"
    and rt: "run_trunk net s0 p0 c m0 = Inr (s1, p1)"
    and un: "undo_registers net s1 p1 m0 = Inr (seqs, pair_rep, m)"
    by (auto simp: forward_repr_def and_then_eq_Inr split: prod.splits)
  from ti obtain sq cc where
    ex: "extend_w_registers net sq None (batch_mask batch) cc = Inr (s0, p0, m0, c)"
    by (auto simp: trunk_inputs_def and_then_eq_Inr initial_pair_def ub)
  have nr: "num_registers net = 0"
  proof (rule ccontr)
    assume "num_registers net \<noteq> 0"
    then have "\<exists>e. extend_w_registers net sq None (batch_mask batch) cc = Inl e"
      by (simp add: extend_w_registers_def split: list.splits)
    with ex show False by auto
  qed
  from ex nr have p0: "p0 = None" "m0 = batch_mask batch"
    by (simp_all add: extend_w_registers_def)
  from trunk_loop_pair_unchanged[OF nou rt[unfolded run_trunk_def]] have p1: "p1 = p0" by simp
  from un nr have "seqs = s1" "pair_rep = p1" "m = m0" by (simp_all add: undo_registers_def)
  with nr p0 p1 ti rt show ?thesis by auto
qed

section \<open>Evaluating the sample networks\<close>

lemmas eval_defs = mk_def elem_def bidx_def eval_nat_numeral

lemma sqrt_demo: "sqrt (121 / 4000000) = 11 / 2000"
  by (rule real_sqrt_unique) (simp_all add: power2_eq_square)

lemma demo_block_contract: "block_contract demo_block_params"
  by (simp add: demo_block_params_def block_contract_def keeps_shape_def
      attention_keeps_shape_def swiglu_halves_def demo_adaptive_def demo_attention_def
      demo_swiglu_def demo_transition_params_def narrow_last_def)

lemma demo_tagged_update:
  assumes "shape y = [1, 2, 1]"
  shows "PairReprUpdate_forward
           (PairReprUpdate_init (demo_pair_update_params\<lparr>pp_transition_out := demo_tagged_op i\<rparr>)
              1 1 False)
           y (Some (Tensor [1, 2, 2, 1] [a, b1, b2, b3])) (batch_mask demo_batch)
         = Inr (Tensor [1, 2, 2, 1] [a + 10 ^ i, 0, 0, 0])"
  using assms
  apply (simp add: PairReprUpdate_forward_def outer_sum_step_def pair_mask_of_def
        residual_pair_op_def checkpoint_def apply_mask_def demo_defs init_defs op_defs)
  apply (simp add: eval_defs)
  done


lemma demo_schedule_init:
  assumes net: "ProteinTransformerAF3_init demo_schedule_params demo_schedule_kwargs = Inr net"
  shows "update_pair_repr net" "nlayers net = 6" "update_pair_repr_every_n net = 2"
    "token_dim net = 1" "pair_repr_dim net = 1" "use_tri_mult net = False"
    "num_registers net = 0" "use_attn_pair_bias net"
    "pair_repr_builder net
       = Some (PairReprBuilder_init (np_pair_repr_builder demo_schedule_params) (Some []))"
  using net
  by (elim init_cases; simp add: init_pair_repr_def init_registers_def demo_schedule_kwargs_def
        demo_kwargs_def)+

lemma demo_schedule_step:
  assumes net: "ProteinTransformerAF3_init demo_schedule_params demo_schedule_kwargs = Inr net"
    and i: "i < 6" and s: "shape s = [1, 2, 1]"
  shows "\<exists>s'. shape s' = [1, 2, 1]
     \<and> scheduled_step demo_schedule_params net c (batch_mask demo_batch) i
          (s, Some (Tensor [1, 2, 2, 1] [a, b1, b2, b3]))
         = Inr (s', Some (if i \<in> {0, 2, 4} then Tensor [1, 2, 2, 1] [a + 10 ^ i, 0, 0, 0]
                          else Tensor [1, 2, 2, 1] [a, b1, b2, b3]))"
proof -
  note f = demo_schedule_init[OF net]
  have k: "kw_nlayers demo_schedule_kwargs = 6" "kw_token_dim demo_schedule_kwargs = 1"
    by (simp_all add: demo_schedule_kwargs_def demo_kwargs_def)
  have i': "i < nat (kw_nlayers demo_schedule_kwargs)" using i by (simp add: k)
  have bc: "block_contract (np_transformer_layers demo_schedule_params i)"
    by (simp add: demo_schedule_params_def demo_params_def demo_block_contract)
  have m: "shape (batch_mask demo_batch) = [1, 2]" by (simp add: demo_batch_def)
  have s': "shape s = [1, 2, kw_token_dim demo_schedule_kwargs]" using s by (simp add: k)
  obtain y where y: "MultiheadAttnAndTransition_forward (transformer_layers net ! i) s
       (Some (Tensor [1, 2, 2, 1] [a, b1, b2, b3])) c (batch_mask demo_batch) = Inr y"
    "shape y = shape s"
    by (rule block_ok[OF init_layers(2)[OF net i'] bc s' m])
  have ys: "shape y = [1, 2, 1]" using y s by simp
  have U: "PairReprUpdate_init (np_pair_update_layers demo_schedule_params i) (token_dim net)
             (pair_repr_dim net) (use_tri_mult net)
           = PairReprUpdate_init (demo_pair_update_params\<lparr>pp_transition_out := demo_tagged_op i\<rparr>)
               1 1 False"
    by (simp add: f demo_schedule_params_def)
  have sc: "scheduled net i \<longleftrightarrow> i \<in> {0, 2, 4}"
    by (rule scheduled_6_2[OF f(1-3)])
  show ?thesis
  proof (cases "i \<in> {0, 2, 4}")
    case True
    then have sch: "scheduled net i" using sc by simp
    have "scheduled_step demo_schedule_params net c (batch_mask demo_batch) i
          (s, Some (Tensor [1, 2, 2, 1] [a, b1, b2, b3]))
         = Inr (y, Some (Tensor [1, 2, 2, 1] [a + 10 ^ i, 0, 0, 0]))"
      unfolding scheduled_step_def prod.case y(1) and_then_Inr if_P[OF sch] U
        demo_tagged_update[OF ys] ..
    then show ?thesis unfolding if_P[OF True] using ys by blast
  next
    case False
    then have sch: "\<not> scheduled net i" using sc by simp
    have "scheduled_step demo_schedule_params net c (batch_mask demo_batch) i
          (s, Some (Tensor [1, 2, 2, 1] [a, b1, b2, b3]))
         = Inr (y, Some (Tensor [1, 2, 2, 1] [a, b1, b2, b3]))"
      unfolding scheduled_step_def prod.case y(1) and_then_Inr if_not_P[OF sch] ..
    then show ?thesis unfolding if_not_P[OF False] using ys by blast
  qed
qed

lemma demo_schedule_inputs:
  assumes net: "ProteinTransformerAF3_init demo_schedule_params demo_schedule_kwargs = Inr net"
  shows "\<exists>s0 c. shape s0 = [1, 2, 1]
     \<and> trunk_inputs net demo_batch
         = Inr (s0, Some (Tensor [1, 2, 2, 1] [1, 1, 1, 1]), batch_mask demo_batch, c)"
proof -
  note f = demo_schedule_init[OF net]
  have m: "shape (batch_mask demo_batch) = [1, 2]" by (simp add: demo_batch_def)
  have k: "kw_dim_cond demo_schedule_kwargs = 1" "kw_token_dim demo_schedule_kwargs = 1"
    by (simp_all add: demo_schedule_kwargs_def demo_kwargs_def)
  have "\<exists>c. conditioning net demo_batch = Inr c
          \<and> shape c = [1, 2, kw_dim_cond demo_schedule_kwargs]"
    by (rule conditioning_ok[OF net m])
       (simp_all add: returns_shape_def swiglu_halves_def demo_defs narrow_last_def)
  then obtain c where c: "conditioning net demo_batch = Inr c" by blast
  have "\<exists>s. initial_seqs net demo_batch = Inr s
          \<and> shape s = [1, 2, kw_token_dim demo_schedule_kwargs]"
    by (rule initial_seqs_ok[OF net m]) (simp_all add: returns_shape_def demo_defs)
  then obtain s0 where s0: "initial_seqs net demo_batch = Inr s0" "shape s0 = [1, 2, 1]"
    using k by auto
  have ip: "initial_pair net demo_batch = Inr (Some (Tensor [1, 2, 2, 1] [1, 1, 1, 1]))"
    apply (simp add: initial_pair_def f PairReprBuilder_forward_def PairReprBuilder_init_def
        demo_defs op_defs)
    apply (simp add: eval_defs)
    done
  have "trunk_inputs net demo_batch
         = Inr (s0, Some (Tensor [1, 2, 2, 1] [1, 1, 1, 1]), batch_mask demo_batch, c)"
    by (simp add: trunk_inputs_def c s0 ip extend_w_registers_def f)
  with s0 show ?thesis by blast
qed

lemma demo_block_eval:
  assumes B: "MultiheadAttnAndTransition_init demo_block_params (Suc 0) dp nh dc True True False
                upb qk 4 = Inr B"
  shows "MultiheadAttnAndTransition_forward B (Tensor [1, 2, 1] [a, b]) pair_rep c
           (batch_mask demo_batch) = Inr (Tensor [1, 2, 1] [10 * a, 0])"
  apply (simp add: MultiheadAttnAndTransition_forward_def apply_mha_def apply_transition_def
      MultiHeadBiasedAttentionADALN_MM_forward_def TransitionADALN_forward_def
      Transition_forward_def block_init_fields[OF B] demo_defs init_defs op_defs)
  apply (simp add: eval_defs)
  done

lemma demo_initial_seqs_eval:
  assumes net: "ProteinTransformerAF3_init demo_params kw = Inr net" and "kw_token_dim kw = 1"
  shows "initial_seqs net demo_batch = Inr (Tensor [1, 2, 1] [4, 0])"
  using init_embed[OF net] assms(2)
  apply (simp add: initial_seqs_def Let_def demo_defs op_defs)
  apply (simp add: eval_defs)
  done

lemma demo_decode_eval:
  assumes net: "ProteinTransformerAF3_init demo_params kw = Inr net" and "kw_token_dim kw = 1"
    and "\<not> update_pair_repr net"
  shows "decode net (Tensor [1, 2, 1] [a, b]) pair_rep (batch_mask demo_batch)
         = Inr \<lparr>pair_pred = None, coors_pred = Tensor [1, 2, 3] [0, 0, 0, 0, 0, 0]\<rparr>"
  using net assms(2,3)
  apply (elim init_cases)
  apply (simp add: decode_def sequential_ln_linear_def demo_defs init_defs op_defs)
  apply (simp add: eval_defs)
  done

section \<open>The decoding and the auxiliary head\<close>





section \<open>Evaluating the sample network with the auxiliary head\<close>






section \<open>Parallel residual exclusivity\<close>

text \<open>
  Claim C4. A block constructed with \<^verbatim>\<open>parallel_mha_transition=True\<close>,
  \<^verbatim>\<open>residual_mha=True\<close> and \<^verbatim>\<open>residual_transition=True\<close> stores
  \<^verbatim>\<open>self.residual_transition = False\<close> (and keeps the other two flags), so on every
  call \<^verbatim>\<open>_apply_transition\<close> returns the masked output of the transition and does not
  add the block input to it.
\<close>

theorem parallel_residual_exclusivity:
  "(case MultiheadAttnAndTransition_init p dim_token dim_pair n_heads dim_cond True True True
              use_pair_bias use_qk_ln expansion_factor of
      Inl e \<Rightarrow> e = ZeroDivisionError \<and> n_heads = 0
    | Inr B \<Rightarrow> n_heads \<noteq> 0 \<and> parallel B \<and> residual_mha B \<and> residual_transition B = False
       \<and> apply_transition B x cond m =
           and_then (TransitionADALN_forward (blk_transition B) x cond m)
             (\<lambda>x_tr. mul_mask x_tr m))"
  by (simp add: MultiheadAttnAndTransition_init_def MultiHeadBiasedAttentionADALN_MM_init_def
      apply_transition_def)

text \<open>
  On the sample block the transition maps a token of value 1 to 4; the block built with
  both residuals and the parallel flag returns 4 at the unmasked position, not 5.
\<close>

theorem parallel_residual_exclusivity_witness:
  "\<exists>B. MultiheadAttnAndTransition_init demo_block_params 1 1 1 1 True True True True False 4
          = Inr B
     \<and> parallel B \<and> residual_mha B \<and> residual_transition B = False
     \<and> apply_transition B (mk [1, 2, 1] (\<lambda>idx. 1)) (mk [1, 2, 1] (\<lambda>idx. 1))
           (batch_mask demo_batch)
         = and_then (TransitionADALN_forward (blk_transition B) (mk [1, 2, 1] (\<lambda>idx. 1))
                       (mk [1, 2, 1] (\<lambda>idx. 1)) (batch_mask demo_batch))
             (\<lambda>x_tr. mul_mask x_tr (batch_mask demo_batch))
     \<and> apply_transition B (mk [1, 2, 1] (\<lambda>idx. 1)) (mk [1, 2, 1] (\<lambda>idx. 1))
           (batch_mask demo_batch)
         = Inr (Tensor [1, 2, 1] [4, 0])"
proof -
  obtain B where B: "MultiheadAttnAndTransition_init demo_block_params 1 1 1 1 True True True
      True False 4 = Inr B"
    by (simp add: MultiheadAttnAndTransition_init_def MultiHeadBiasedAttentionADALN_MM_init_def)
  have e: "parallel B \<and> residual_mha B \<and> residual_transition B = False
     \<and> apply_transition B (mk [1, 2, 1] (\<lambda>idx. 1)) (mk [1, 2, 1] (\<lambda>idx. 1))
           (batch_mask demo_batch)
         = and_then (TransitionADALN_forward (blk_transition B) (mk [1, 2, 1] (\<lambda>idx. 1))
                       (mk [1, 2, 1] (\<lambda>idx. 1)) (batch_mask demo_batch))
             (\<lambda>x_tr. mul_mask x_tr (batch_mask demo_batch))"
    using parallel_residual_exclusivity[where p = demo_block_params and dim_token = 1
        and dim_pair = 1 and n_heads = 1 and dim_cond = 1 and use_pair_bias = True
        and use_qk_ln = False and expansion_factor = 4
        and x = "mk [1, 2, 1] (\<lambda>idx. 1)" and cond = "mk [1, 2, 1] (\<lambda>idx. 1)"
        and m = "batch_mask demo_batch"]
    unfolding B by simp
  have v: "and_then (TransitionADALN_forward (blk_transition B) (mk [1, 2, 1] (\<lambda>idx. 1))
                       (mk [1, 2, 1] (\<lambda>idx. 1)) (batch_mask demo_batch))
             (\<lambda>x_tr. mul_mask x_tr (batch_mask demo_batch)) = Inr (Tensor [1, 2, 1] [4, 0])"
    by (simp add: TransitionADALN_forward_def Transition_forward_def block_init_fields[OF B]
          demo_defs init_defs op_defs)
       (simp add: eval_defs)
  from e v B show ?thesis by simp
qed

section \<open>Register counts that are absent or not positive\<close>

text \<open>
  Claim C10. When \<^verbatim>\<open>num_registers\<close> is \<^verbatim>\<open>None\<close> or at most 0, the constructed
  network has \<^verbatim>\<open>num_registers = 0\<close> and no register parameter,
  \<^verbatim>\<open>_extend_w_registers\<close> and \<^verbatim>\<open>_undo_registers\<close> return their arguments, and the
  network is the one that \<^verbatim>\<open>num_registers = 0\<close> constructs.
\<close>

theorem nonpositive_registers_disabled:
  assumes "kw_num_registers kw = None \<or> (\<exists>k. kw_num_registers kw = Some k \<and> k \<le> 0)"
    and "ProteinTransformerAF3_init p kw = Inr net"
  shows "num_registers net = 0 \<and> registers net = None
     \<and> extend_w_registers net seqs pair m cond_seq = Inr (seqs, pair, m, cond_seq)
     \<and> undo_registers net seqs pair m = Inr (seqs, pair, m)
     \<and> ProteinTransformerAF3_init p (kw\<lparr>kw_num_registers := Some 0\<rparr>) = Inr net"
proof -
  have reg: "init_registers p kw = (0, None)"
    using assms(1) by (auto simp: init_registers_def)
  have reg0: "init_registers p (kw\<lparr>kw_num_registers := Some 0\<rparr>) = (0, None)"
    by (simp add: init_registers_def)
  have a: "init_pair_repr p (kw\<lparr>kw_num_registers := Some 0\<rparr>) = init_pair_repr p kw"
    by (simp add: init_pair_repr_def)
  have b: "init_pair_update_layers p (kw\<lparr>kw_num_registers := Some 0\<rparr>) e t
           = init_pair_update_layers p kw e t" for e t
    by (simp add: init_pair_update_layers_def)
  have c: "init_transformer_layers p (kw\<lparr>kw_num_registers := Some 0\<rparr>) q
           = init_transformer_layers p kw q" for q
    by (simp add: init_transformer_layers_def)
  have same: "ProteinTransformerAF3_init p (kw\<lparr>kw_num_registers := Some 0\<rparr>)
              = ProteinTransformerAF3_init p kw"
    by (simp add: ProteinTransformerAF3_init_def Let_def reg reg0 a b c
        cong: if_cong option.case_cong)
  have n: "num_registers net = 0 \<and> registers net = None"
    using assms(2)
    by (auto simp: ProteinTransformerAF3_init_def Let_def reg and_then_eq_Inr split: prod.splits)
  then show ?thesis
    using assms(2) by (simp add: extend_w_registers_def undo_registers_def same)
qed

theorem nonpositive_registers_disabled_witness:
  "\<exists>net. ProteinTransformerAF3_init demo_params (demo_kwargs\<lparr>kw_num_registers := Some (- 3)\<rparr>)
            = Inr net
     \<and> num_registers net = 0 \<and> registers net = None
     \<and> extend_w_registers net (x_t demo_batch) None (batch_mask demo_batch) (x_t demo_batch)
         = Inr (x_t demo_batch, None, batch_mask demo_batch, x_t demo_batch)
     \<and> undo_registers net (x_t demo_batch) None (batch_mask demo_batch)
         = Inr (x_t demo_batch, None, batch_mask demo_batch)
     \<and> ProteinTransformerAF3_init demo_params
          (demo_kwargs\<lparr>kw_num_registers := Some (- 3), kw_num_registers := Some 0\<rparr>) = Inr net"
proof -
  obtain net where net:
    "ProteinTransformerAF3_init demo_params (demo_kwargs\<lparr>kw_num_registers := Some (- 3)\<rparr>)
       = Inr net"
    using init_ok[of "demo_kwargs\<lparr>kw_num_registers := Some (- 3)\<rparr>" demo_params] by (auto simp: demo_kwargs_def)
  have k: "kw_num_registers (demo_kwargs\<lparr>kw_num_registers := Some (- 3)\<rparr>) = None
     \<or> (\<exists>k. kw_num_registers (demo_kwargs\<lparr>kw_num_registers := Some (- 3)\<rparr>) = Some k \<and> k \<le> 0)"
    by simp
  from nonpositive_registers_disabled[OF k net] net show ?thesis by blast
qed

section \<open>The schedule of pair updates\<close>

text \<open>
  Claim C3. On a constructed network the forward pass is the scheduled one: \<^verbatim>\<open>forward\<close>
  up to \<^verbatim>\<open>_undo_registers\<close> equals \<open>scheduled_forward_repr\<close>, in which block \<open>i\<close> is
  followed by the pair update of index \<open>i\<close> exactly when \<^verbatim>\<open>update_pair_repr\<close> is set,
  \<open>i < nlayers - 1\<close> and \<open>i mod update_pair_repr_every_n = 0\<close>, and by nothing
  otherwise; the same holds for the trunk loop from any starting tensors, for each single
  iteration, and for the layer that the three nested tests of the loop select. The
  condition does not read the batch, so this holds for every sequence length. With 6
  layers and an update every 2 layers the scheduled indices are 0, 2 and 4.
\<close>

theorem pair_update_schedule:
  assumes init: "ProteinTransformerAF3_init p kw = Inr net"
  shows "(\<forall>batch. forward_repr net batch = scheduled_forward_repr p net batch
            \<and> forward net batch =
                and_then (scheduled_forward_repr p net batch)
                  (\<lambda>(seqs, pair_rep, m). decode net seqs pair_rep m))
     \<and> (\<forall>seqs pair_rep c m.
           run_trunk net seqs pair_rep c m
             = scheduled_loop p net c m [0..<nat (nlayers net)] (seqs, pair_rep))
     \<and> (\<forall>i c m st. int i < nlayers net \<longrightarrow>
           trunk_step net c m i st = scheduled_step p net c m i st)
     \<and> (\<forall>i. pair_update_at net i =
            Inr (if scheduled net i
                 then Some (PairReprUpdate_init (np_pair_update_layers p i) (token_dim net)
                              (pair_repr_dim net) (use_tri_mult net))
                 else None))
     \<and> (update_pair_repr net \<and> nlayers net = 6 \<and> update_pair_repr_every_n net = 2 \<longrightarrow>
           (\<forall>i. scheduled net i \<longleftrightarrow> i \<in> {0, 2, 4})
           \<and> filter (scheduled net) [0..<nat (nlayers net)] = [0, 2, 4])"
proof (intro conjI allI impI)
  fix batch
  show "forward_repr net batch = scheduled_forward_repr p net batch"
    by (rule forward_repr_scheduled[OF init])
  then show "forward net batch =
                and_then (scheduled_forward_repr p net batch)
                  (\<lambda>(seqs, pair_rep, m). decode net seqs pair_rep m)"
    by (simp add: forward_def)
next
  fix seqs pair_rep c m
  show "run_trunk net seqs pair_rep c m
             = scheduled_loop p net c m [0..<nat (nlayers net)] (seqs, pair_rep)"
    by (rule run_trunk_scheduled[OF init])
next
  fix i c m st
  assume "int i < nlayers net"
  moreover from init have "nlayers net = kw_nlayers kw" by (elim init_cases)
  ultimately have "i < nat (kw_nlayers kw)" by (simp add: zless_nat_eq_int_zless)
  then show "trunk_step net c m i st = scheduled_step p net c m i st"
    by (rule trunk_step_scheduled[OF init])
next
  fix i
  show "pair_update_at net i =
            Inr (if scheduled net i
                 then Some (PairReprUpdate_init (np_pair_update_layers p i) (token_dim net)
                              (pair_repr_dim net) (use_tri_mult net))
                 else None)"
    unfolding scheduled_def by (rule pair_update_at_init[OF init])
next
  fix i
  assume a: "update_pair_repr net \<and> nlayers net = 6 \<and> update_pair_repr_every_n net = 2"
  then show "scheduled net i \<longleftrightarrow> i \<in> {0, 2, 4}" by (simp add: scheduled_6_2)
next
  assume a: "update_pair_repr net \<and> nlayers net = 6 \<and> update_pair_repr_every_n net = 2"
  then have nl: "nat (nlayers net) = 6" by simp
  have u: "[0..<6] = [0, 1, 2, 3, 4, 5::nat]" by (simp add: upt_rec)
  show "filter (scheduled net) [0..<nat (nlayers net)] = [0, 2, 4]"
    unfolding nl u using a by (simp add: scheduled_6_2)
qed

text \<open>
  On the sample network of six blocks the pair transition of index \<open>i\<close> adds \<open>10 ^ i\<close>
  to the unmasked pair entry, which starts at 1: the forward pass returns
  \<open>1 + 1 + 100 + 10000\<close> there, so the updates of index 0, 2 and 4 ran and no other.
\<close>

theorem pair_update_schedule_witness:
  "\<exists>net seqs. ProteinTransformerAF3_init demo_schedule_params demo_schedule_kwargs = Inr net
     \<and> nlayers net = 6 \<and> update_pair_repr_every_n net = 2
     \<and> filter (scheduled net) [0..<nat (nlayers net)] = [0, 2, 4]
     \<and> pair_update_at net 5 = Inr None
     \<and> forward_repr net demo_batch
         = Inr (seqs, Some (Tensor [1, 2, 2, 1] [10102, 0, 0, 0]), batch_mask demo_batch)"
proof -
  obtain net where net:
    "ProteinTransformerAF3_init demo_schedule_params demo_schedule_kwargs = Inr net"
    using init_ok[of demo_schedule_kwargs demo_schedule_params]
    by (auto simp: demo_schedule_kwargs_def demo_kwargs_def)
  note f = demo_schedule_init[OF net]
  note sched = pair_update_schedule[OF net]
  have fr: "forward_repr net demo_batch = scheduled_forward_repr demo_schedule_params net demo_batch"
    using sched by blast
  have fl: "filter (scheduled net) [0..<nat (nlayers net)] = [0, 2, 4]"
    using sched[THEN conjunct2, THEN conjunct2, THEN conjunct2, THEN conjunct2] f(1-3) by blast
  have "pair_update_at net 5 =
            Inr (if scheduled net 5
                 then Some (PairReprUpdate_init (np_pair_update_layers demo_schedule_params 5)
                              (token_dim net) (pair_repr_dim net) (use_tri_mult net))
                 else None)"
    using sched[THEN conjunct2, THEN conjunct2, THEN conjunct2, THEN conjunct1] by blast
  then have p5: "pair_update_at net 5 = Inr None"
    by (simp add: scheduled_def f)
  obtain s0 c where s0: "shape s0 = [1, 2, 1]"
    and ti: "trunk_inputs net demo_batch
         = Inr (s0, Some (Tensor [1, 2, 2, 1] [1, 1, 1, 1]), batch_mask demo_batch, c)"
    using demo_schedule_inputs[OF net] by blast
  let ?step = "scheduled_step demo_schedule_params net c (batch_mask demo_batch)"
  obtain s1 where s1: "shape s1 = [1, 2, 1]"
    "?step 0 (s0, Some (Tensor [1, 2, 2, 1] [1, 1, 1, 1]))
       = Inr (s1, Some (Tensor [1, 2, 2, 1] [2, 0, 0, 0]))"
    using demo_schedule_step[OF net _ s0, of 0 c 1 1 1 1] by auto
  obtain s2 where s2: "shape s2 = [1, 2, 1]"
    "?step 1 (s1, Some (Tensor [1, 2, 2, 1] [2, 0, 0, 0]))
       = Inr (s2, Some (Tensor [1, 2, 2, 1] [2, 0, 0, 0]))"
    using demo_schedule_step[OF net _ s1(1), of 1 c 2 0 0 0] by auto
  obtain s3 where s3: "shape s3 = [1, 2, 1]"
    "?step 2 (s2, Some (Tensor [1, 2, 2, 1] [2, 0, 0, 0]))
       = Inr (s3, Some (Tensor [1, 2, 2, 1] [102, 0, 0, 0]))"
    using demo_schedule_step[OF net _ s2(1), of 2 c 2 0 0 0] by auto
  obtain s4 where s4: "shape s4 = [1, 2, 1]"
    "?step 3 (s3, Some (Tensor [1, 2, 2, 1] [102, 0, 0, 0]))
       = Inr (s4, Some (Tensor [1, 2, 2, 1] [102, 0, 0, 0]))"
    using demo_schedule_step[OF net _ s3(1), of 3 c 102 0 0 0] by auto
  obtain s5 where s5: "shape s5 = [1, 2, 1]"
    "?step 4 (s4, Some (Tensor [1, 2, 2, 1] [102, 0, 0, 0]))
       = Inr (s5, Some (Tensor [1, 2, 2, 1] [10102, 0, 0, 0]))"
    using demo_schedule_step[OF net _ s4(1), of 4 c 102 0 0 0] by auto
  obtain s6 where s6: "shape s6 = [1, 2, 1]"
    "?step 5 (s5, Some (Tensor [1, 2, 2, 1] [10102, 0, 0, 0]))
       = Inr (s6, Some (Tensor [1, 2, 2, 1] [10102, 0, 0, 0]))"
    using demo_schedule_step[OF net _ s5(1), of 5 c 10102 0 0 0] by auto
  have u: "[0..<nat (nlayers net)] = [0, 1, 2, 3, 4, 5]" by (simp add: f upt_rec)
  have "scheduled_forward_repr demo_schedule_params net demo_batch
         = Inr (s6, Some (Tensor [1, 2, 2, 1] [10102, 0, 0, 0]), batch_mask demo_batch)"
    unfolding scheduled_forward_repr_def ti u prod.case and_then_Inr scheduled_loop.simps
      s1(2) s2(2) s3(2) s4(2) s5(2) s6(2)
    by (simp add: undo_registers_def f)
  with fr have "forward_repr net demo_batch
         = Inr (s6, Some (Tensor [1, 2, 2, 1] [10102, 0, 0, 0]), batch_mask demo_batch)"
    by simp
  with net f(2,3) fl p5 show ?thesis by blast
qed

section \<open>Construction without pair bias\<close>

text \<open>
  Claim C6. With \<^verbatim>\<open>use_attn_pair_bias=False\<close> the constructor raises only for
  \<^verbatim>\<open>nheads = 0\<close> (the division in the attention module); otherwise it returns a network
  with \<^verbatim>\<open>update_pair_repr = False\<close>, no pair builder and no pair update layers, whatever
  was requested. On that network the pair tensor of \<^verbatim>\<open>forward\<close> starts as \<^verbatim>\<open>None\<close>
  without a builder being called, no pair update runs after any block, and whenever
  \<^verbatim>\<open>forward\<close> returns, the trunk loop ran on the pair tensor \<^verbatim>\<open>None\<close> and returned it,
  and \<^verbatim>\<open>pair_pred\<close> is absent. Without registers, and with external modules that keep
  their shape contracts, \<^verbatim>\<open>forward\<close> returns: the token tensor after the trunk has
  shape \<open>[b, n, token_dim]\<close> and the coordinates \<open>[b, n, 3]\<close>. With registers
  \<^verbatim>\<open>forward\<close> raises on every batch, so the claim does not hold there.
\<close>

theorem no_pair_bias_reconciliation:
  assumes nb: "\<not> kw_use_attn_pair_bias kw"
  shows "(case ProteinTransformerAF3_init p kw of
      Inl e \<Rightarrow> e = ZeroDivisionError \<and> kw_nheads kw = 0 \<and> 0 < kw_nlayers kw
    | Inr net \<Rightarrow>
        \<not> update_pair_repr net \<and> pair_repr_builder net = None \<and> pair_update_layers net = None
      \<and> (\<forall>batch. initial_pair net batch = Inr None)
      \<and> (\<forall>i. pair_update_at net i = Inr None)
      \<and> (\<forall>batch seqs pair_rep m. forward_repr net batch = Inr (seqs, pair_rep, m) \<longrightarrow>
            pair_rep = None
            \<and> (\<exists>s0 c. trunk_inputs net batch = Inr (s0, None, batch_mask batch, c)
                  \<and> run_trunk net s0 None c (batch_mask batch) = Inr (seqs, None)))
      \<and> (\<forall>batch out. forward net batch = Inr out \<longrightarrow> pair_pred out = None)
      \<and> (\<forall>seqs c m b n.
            (\<forall>i<nat (kw_nlayers kw). block_contract (np_transformer_layers p i))
            \<and> shape seqs = [b, n, kw_token_dim kw] \<and> shape m = [b, n] \<longrightarrow>
            (\<exists>seqs'. run_trunk net seqs None c m = Inr (seqs', None)
               \<and> shape seqs' = shape seqs))
      \<and> (\<forall>batch b n. num_registers net = 0 \<and> net_contract p kw batch
              \<and> shape (batch_mask batch) = [b, n] \<longrightarrow>
            (\<exists>seqs out. forward_repr net batch = Inr (seqs, None, batch_mask batch)
               \<and> shape seqs = [b, n, kw_token_dim kw]
               \<and> forward net batch = Inr out \<and> pair_pred out = None
               \<and> shape (coors_pred out) = [b, n, 3]))
      \<and> (num_registers net \<noteq> 0 \<longrightarrow> (\<forall>batch. \<exists>e. forward net batch = Inl e)))"
proof (cases "ProteinTransformerAF3_init p kw")
  case (Inl e)
  with init_no_bias_fault[OF nb Inl] show ?thesis by simp
next
  case (Inr net)
  note init = Inr
  have pr: "init_pair_repr p kw = Inr (None, False)"
    using nb by (simp add: init_pair_repr_def)
  from init pr have f: "\<not> update_pair_repr net" "pair_repr_builder net = None"
    "pair_update_layers net = None" "\<not> use_attn_pair_bias net" "nlayers net = kw_nlayers kw"
    using nb by (elim init_cases; simp)+
  have ip: "initial_pair net batch = Inr None" for batch
    by (simp add: initial_pair_def f)
  have pu: "pair_update_at net i = Inr None" for i
    by (simp add: pair_update_at_def f)
  have fr: "pair_rep = None
            \<and> (\<exists>s0 c. trunk_inputs net batch = Inr (s0, None, batch_mask batch, c)
                  \<and> run_trunk net s0 None c (batch_mask batch) = Inr (seqs, None))"
    if "forward_repr net batch = Inr (seqs, pair_rep, m)" for batch seqs pair_rep m
    using forward_repr_without_pair[OF f(1) f(4) that] by blast
  have pp: "pair_pred out = None" if "forward net batch = Inr out" for batch out
    using that f(1)
    by (auto simp: forward_def decode_def and_then_eq_Inr split: prod.splits)
  have ok: "\<exists>seqs'. run_trunk net seqs None c m = Inr (seqs', None) \<and> shape seqs' = shape seqs"
    if "\<forall>i<nat (kw_nlayers kw). block_contract (np_transformer_layers p i)"
      "shape seqs = [b, n, kw_token_dim kw]" "shape m = [b, n]" for seqs c m b n
    using trunk_loop_no_update[OF init f(1) that(1) that(3) that(2), of "[0..<nat (kw_nlayers kw)]"]
    by (simp add: run_trunk_def f)
  have ret: "\<exists>seqs out. forward_repr net batch = Inr (seqs, None, batch_mask batch)
               \<and> shape seqs = [b, n, kw_token_dim kw]
               \<and> forward net batch = Inr out \<and> pair_pred out = None
               \<and> shape (coors_pred out) = [b, n, 3]"
    if r: "num_registers net = 0" and nc: "net_contract p kw batch"
      and m: "shape (batch_mask batch) = [b, n]" for batch b n
  proof -
    from forward_repr_ok[OF init nc m disjI1[OF r]]
    obtain seqs pair_rep m' where a: "forward_repr net batch = Inr (seqs, pair_rep, m')"
      "shape seqs = [b, n, kw_token_dim kw]" by blast
    from forward_repr_without_pair[OF f(1) f(4) a(1)]
    have b: "pair_rep = None" "m' = batch_mask batch" by simp_all
    from forward_ok[OF init nc m disjI1[OF r]]
    obtain out where c: "forward net batch = Inr out" "shape (coors_pred out) = [b, n, 3]"
      by blast
    from a b c pp[OF c(1)] show ?thesis by blast
  qed
  have flt: "\<exists>e. forward net batch = Inl e" if "num_registers net \<noteq> 0" for batch
    by (rule forward_fault_without_pair[OF that f(4)])
  have "\<not> update_pair_repr net \<and> pair_repr_builder net = None \<and> pair_update_layers net = None
      \<and> (\<forall>batch. initial_pair net batch = Inr None)
      \<and> (\<forall>i. pair_update_at net i = Inr None)
      \<and> (\<forall>batch seqs pair_rep m. forward_repr net batch = Inr (seqs, pair_rep, m) \<longrightarrow>
            pair_rep = None
            \<and> (\<exists>s0 c. trunk_inputs net batch = Inr (s0, None, batch_mask batch, c)
                  \<and> run_trunk net s0 None c (batch_mask batch) = Inr (seqs, None)))
      \<and> (\<forall>batch out. forward net batch = Inr out \<longrightarrow> pair_pred out = None)
      \<and> (\<forall>seqs c m b n.
            (\<forall>i<nat (kw_nlayers kw). block_contract (np_transformer_layers p i))
            \<and> shape seqs = [b, n, kw_token_dim kw] \<and> shape m = [b, n] \<longrightarrow>
            (\<exists>seqs'. run_trunk net seqs None c m = Inr (seqs', None)
               \<and> shape seqs' = shape seqs))
      \<and> (\<forall>batch b n. num_registers net = 0 \<and> net_contract p kw batch
              \<and> shape (batch_mask batch) = [b, n] \<longrightarrow>
            (\<exists>seqs out. forward_repr net batch = Inr (seqs, None, batch_mask batch)
               \<and> shape seqs = [b, n, kw_token_dim kw]
               \<and> forward net batch = Inr out \<and> pair_pred out = None
               \<and> shape (coors_pred out) = [b, n, 3]))
      \<and> (num_registers net \<noteq> 0 \<longrightarrow> (\<forall>batch. \<exists>e. forward net batch = Inl e))"
    apply (intro conjI allI impI f(1-3) ip pu)
    subgoal by (rule fr[THEN conjunct1])
    subgoal by (rule fr[THEN conjunct2])
    subgoal by (rule pp)
    subgoal by (rule ok) blast+
    subgoal by (rule ret) blast+
    subgoal by (rule flt)
    done
  then show ?thesis by (simp add: init)
qed

text \<open>
  On the sample network without pair bias each block multiplies the unmasked token by 10:
  the token tensor goes from 4 to 400 through the two blocks. With one register the
  forward pass raises, and with \<^verbatim>\<open>nheads = 0\<close> the constructor does.
\<close>

theorem no_pair_bias_reconciliation_witness:
  "\<exists>net net'.
     ProteinTransformerAF3_init demo_params (demo_kwargs\<lparr>kw_use_attn_pair_bias := False\<rparr>)
       = Inr net
     \<and> \<not> update_pair_repr net \<and> pair_repr_builder net = None \<and> pair_update_layers net = None
     \<and> initial_pair net demo_batch = Inr None
     \<and> pair_update_at net 0 = Inr None
     \<and> forward_repr net demo_batch
         = Inr (Tensor [1, 2, 1] [400, 0], None, batch_mask demo_batch)
     \<and> forward net demo_batch
         = Inr \<lparr>pair_pred = None, coors_pred = Tensor [1, 2, 3] [0, 0, 0, 0, 0, 0]\<rparr>
     \<and> ProteinTransformerAF3_init demo_params
          (demo_kwargs\<lparr>kw_use_attn_pair_bias := False, kw_num_registers := Some 1\<rparr>) = Inr net'
     \<and> (\<exists>e. forward net' demo_batch = Inl e)
     \<and> ProteinTransformerAF3_init demo_params
          (demo_kwargs\<lparr>kw_use_attn_pair_bias := False, kw_nheads := 0\<rparr>) = Inl ZeroDivisionError"
proof -
  let ?kw = "demo_kwargs\<lparr>kw_use_attn_pair_bias := False\<rparr>"
  let ?kwr = "demo_kwargs\<lparr>kw_use_attn_pair_bias := False, kw_num_registers := Some 1\<rparr>"
  let ?kwz = "demo_kwargs\<lparr>kw_use_attn_pair_bias := False, kw_nheads := 0\<rparr>"
  obtain net where net: "ProteinTransformerAF3_init demo_params ?kw = Inr net"
    using init_ok[of ?kw demo_params] by (auto simp: demo_kwargs_def)
  obtain net' where net': "ProteinTransformerAF3_init demo_params ?kwr = Inr net'"
    using init_ok[of ?kwr demo_params] by (auto simp: demo_kwargs_def)
  have nb: "\<not> kw_use_attn_pair_bias ?kw" "\<not> kw_use_attn_pair_bias ?kwr"
    "\<not> kw_use_attn_pair_bias ?kwz" by simp_all
  have k: "kw_token_dim ?kw = 1" "kw_dim_cond ?kw = 1" "kw_nlayers ?kw = 2"
    by (simp_all add: demo_kwargs_def)
  from no_pair_bias_reconciliation[OF nb(1), of demo_params]
  have a: "\<not> update_pair_repr net" "pair_repr_builder net = None" "pair_update_layers net = None"
    "initial_pair net demo_batch = Inr None" "pair_update_at net 0 = Inr None"
    "pair_update_at net 1 = Inr None"
    by (simp_all add: net)
  from net have r: "num_registers net = 0" "nlayers net = 2"
    by (elim init_cases; simp add: init_registers_def demo_kwargs_def)+
  from net' have r': "num_registers net' \<noteq> 0"
    by (elim init_cases) (simp add: init_registers_def demo_kwargs_def)
  from no_pair_bias_reconciliation[OF nb(2), of demo_params] r'
  have flt: "\<exists>e. forward net' demo_batch = Inl e"
    by (simp add: net')
  have "ProteinTransformerAF3_init demo_params ?kwz = Inl ZeroDivisionError"
  proof (cases "ProteinTransformerAF3_init demo_params ?kwz")
    case (Inl e)
    with no_pair_bias_reconciliation[OF nb(3), of demo_params] show ?thesis by simp
  next
    case (Inr n0)
    from init_layers(2)[OF Inr, of 0] have False
      by (simp add: demo_kwargs_def MultiheadAttnAndTransition_init_def
          MultiHeadBiasedAttentionADALN_MM_init_def)
    then show ?thesis ..
  qed
  note zero = this
  obtain c where c: "conditioning net demo_batch = Inr c"
    using demo_conditioning[OF net k(2)] by blast
  have s0: "initial_seqs net demo_batch = Inr (Tensor [1, 2, 1] [4, 0])"
    by (rule demo_initial_seqs_eval[OF net k(1)])
  have ti: "trunk_inputs net demo_batch
              = Inr (Tensor [1, 2, 1] [4, 0], None, batch_mask demo_batch, c)"
    by (simp add: trunk_inputs_def c s0 a(4) extend_w_registers_def r)
  have len: "\<not> length (transformer_layers net) \<le> 0" "\<not> length (transformer_layers net) \<le> 1"
    by (simp_all add: init_layers(1)[OF net] k)
  have B0: "MultiheadAttnAndTransition_init demo_block_params (Suc 0) (Suc 0) (Suc 0) (Suc 0)
                True True False False False 4 = Inr (transformer_layers net ! 0)"
    using init_layers(2)[OF net, of 0] by (simp add: demo_kwargs_def demo_params_def)
  have B1: "MultiheadAttnAndTransition_init demo_block_params (Suc 0) (Suc 0) (Suc 0) (Suc 0)
                True True False False False 4 = Inr (transformer_layers net ! 1)"
    using init_layers(2)[OF net, of 1] by (simp add: demo_kwargs_def demo_params_def)
  have st0: "trunk_step net c (batch_mask demo_batch) 0 (Tensor [1, 2, 1] [4, 0], None)
             = Inr (Tensor [1, 2, 1] [40, 0], None)"
    unfolding trunk_step_def prod.case if_not_P[OF len(1)] a(5)
      demo_block_eval[OF B0] and_then_Inr
    by simp
  have st1: "trunk_step net c (batch_mask demo_batch) 1 (Tensor [1, 2, 1] [40, 0], None)
             = Inr (Tensor [1, 2, 1] [400, 0], None)"
    unfolding trunk_step_def prod.case if_not_P[OF len(2)] a(6)
      demo_block_eval[OF B1] and_then_Inr
    by simp
  have u: "[0..<nat (nlayers net)] = [0, 1]" by (simp add: r upt_rec)
  have rt: "run_trunk net (Tensor [1, 2, 1] [4, 0]) None c (batch_mask demo_batch)
            = Inr (Tensor [1, 2, 1] [400, 0], None)"
    unfolding run_trunk_def u trunk_loop.simps st0 and_then_Inr st1 ..
  have fr: "forward_repr net demo_batch
         = Inr (Tensor [1, 2, 1] [400, 0], None, batch_mask demo_batch)"
    unfolding forward_repr_def ti and_then_Inr prod.case rt
    by (simp add: undo_registers_def r)
  have fw: "forward net demo_batch
         = Inr \<lparr>pair_pred = None, coors_pred = Tensor [1, 2, 3] [0, 0, 0, 0, 0, 0]\<rparr>"
    unfolding forward_def fr and_then_Inr prod.case
    by (rule demo_decode_eval[OF net k(1) a(1)])
  from net a(1-5) fr fw net' flt zero show ?thesis by blast
qed

section \<open>Register round trip\<close>

text \<open>
  Claim C2. On a constructed network, for a token tensor \<open>[b, n, token_dim]\<close>, a pair
  tensor \<open>[b, n, n, p]\<close>, a mask \<open>[b, n]\<close> and a conditioning tensor \<open>[b, n, c]\<close>,
  \<^verbatim>\<open>_extend_w_registers\<close> returns tensors with \<open>num_registers\<close> more positions and
  \<^verbatim>\<open>_undo_registers\<close> applied to them returns the original token tensor, pair tensor
  and mask. With \<open>num_registers = 0\<close> both functions return their arguments, whatever
  they are. With registers and the pair tensor \<^verbatim>\<open>None\<close> the extension raises
  \<^verbatim>\<open>AttributeError\<close>, so the round trip the claim states for every tuple does not
  happen there.
\<close>

theorem register_round_trip:
  assumes init: "ProteinTransformerAF3_init p kw = Inr net"
    and s: "shape seqs = [b, n, kw_token_dim kw]" "shape pair_t = [b, n, n, dp]"
      "shape m = [b, n]" "shape cond_seq = [b, n, dc]"
    and w: "well_formed seqs" "well_formed pair_t" "well_formed m"
  shows "(\<exists>seqs' pair' m' cond'.
           extend_w_registers net seqs (Some pair_t) m cond_seq = Inr (seqs', Some pair', m', cond')
           \<and> shape seqs' = [b, num_registers net + n, kw_token_dim kw]
           \<and> shape pair' = [b, num_registers net + n, num_registers net + n, dp]
           \<and> shape m' = [b, num_registers net + n]
           \<and> shape cond' = [b, num_registers net + n, dc]
           \<and> undo_registers net seqs' (Some pair') m' = Inr (seqs, Some pair_t, m))
     \<and> (num_registers net = 0 \<longrightarrow>
           (\<forall>s q mm c. extend_w_registers net s q mm c = Inr (s, q, mm, c)
              \<and> undo_registers net s q mm = Inr (s, q, mm)))
     \<and> (num_registers net \<noteq> 0 \<longrightarrow>
           extend_w_registers net seqs None m cond_seq = Inl AttributeError)"
proof (intro conjI impI)
  show "\<exists>seqs' pair' m' cond'.
           extend_w_registers net seqs (Some pair_t) m cond_seq = Inr (seqs', Some pair', m', cond')
           \<and> shape seqs' = [b, num_registers net + n, kw_token_dim kw]
           \<and> shape pair' = [b, num_registers net + n, num_registers net + n, dp]
           \<and> shape m' = [b, num_registers net + n]
           \<and> shape cond' = [b, num_registers net + n, dc]
           \<and> undo_registers net seqs' (Some pair') m' = Inr (seqs, Some pair_t, m)"
  proof (cases "num_registers net = 0")
    case True
    then show ?thesis using s by (simp add: extend_w_registers_def undo_registers_def)
  next
    case False
    from init_registers_shape[OF init False] obtain regs where
      "registers net = Some regs" "shape regs = [num_registers net, kw_token_dim kw]" by blast
    from extend_undo_registers[OF this _ s w] False show ?thesis by simp
  qed
next
  assume "num_registers net = 0"
  then show "\<forall>s q mm c. extend_w_registers net s q mm c = Inr (s, q, mm, c)
              \<and> undo_registers net s q mm = Inr (s, q, mm)"
    by (simp add: extend_w_registers_def undo_registers_def)
next
  assume "num_registers net \<noteq> 0"
  then show "extend_w_registers net seqs None m cond_seq = Inl AttributeError"
    using s by (simp add: extend_w_registers_def)
qed

theorem register_round_trip_witness:
  "\<exists>net. ProteinTransformerAF3_init demo_params (demo_kwargs\<lparr>kw_num_registers := Some 1\<rparr>) = Inr net
     \<and> (\<exists>seqs' pair' m' cond'.
           extend_w_registers net (mk [1, 2, 1] (\<lambda>idx. 1)) (Some (mk [1, 2, 2, 1] (\<lambda>idx. 1)))
               (batch_mask demo_batch) (mk [1, 2, 1] (\<lambda>idx. 1))
             = Inr (seqs', Some pair', m', cond')
           \<and> shape seqs' = [1, 3, 1] \<and> shape pair' = [1, 3, 3, 1] \<and> shape m' = [1, 3]
           \<and> shape cond' = [1, 3, 1]
           \<and> undo_registers net seqs' (Some pair') m'
             = Inr (mk [1, 2, 1] (\<lambda>idx. 1), Some (mk [1, 2, 2, 1] (\<lambda>idx. 1)), batch_mask demo_batch))
     \<and> extend_w_registers net (mk [1, 2, 1] (\<lambda>idx. 1)) None (batch_mask demo_batch)
          (mk [1, 2, 1] (\<lambda>idx. 1)) = Inl AttributeError"
proof -
  obtain net where net:
    "ProteinTransformerAF3_init demo_params (demo_kwargs\<lparr>kw_num_registers := Some 1\<rparr>) = Inr net"
    using init_ok[of "demo_kwargs\<lparr>kw_num_registers := Some 1\<rparr>" demo_params] by (auto simp: demo_kwargs_def)
  from net have r: "num_registers net = 1"
    by (elim init_cases) (simp add: init_registers_def demo_kwargs_def)
  have s: "shape (mk [1, 2, 1] (\<lambda>idx. 1::real))
             = [1, 2, kw_token_dim (demo_kwargs\<lparr>kw_num_registers := Some 1\<rparr>)]"
    "shape (mk [1, 2, 2, 1] (\<lambda>idx. 1::real)) = [1, 2, 2, 1]"
    "shape (batch_mask demo_batch) = [1, 2]"
    "shape (mk [1, 2, 1] (\<lambda>idx. 1::real)) = [1, 2, 1]"
    by (simp_all add: demo_kwargs_def demo_batch_def)
  have w: "well_formed (mk [1, 2, 1] (\<lambda>idx. 1::real))"
    "well_formed (mk [1, 2, 2, 1] (\<lambda>idx. 1::real))" "well_formed (batch_mask demo_batch)"
    by (simp_all add: demo_batch_def)
  from register_round_trip[OF net s w] r net show ?thesis
    by (simp add: demo_kwargs_def numeral_3_eq_3)
qed


section \<open>Registers without a pair tensor\<close>

text \<open>
  Claim C5. On a network constructed with registers and without pair bias,
  \<^verbatim>\<open>_extend_w_registers\<close> raises on the pair tensor \<^verbatim>\<open>None\<close>
  (\<^verbatim>\<open>AttributeError\<close> from \<^verbatim>\<open>pair.shape[-1]\<close> once the token tensor has rank 3), and
  the forward pass raises on every batch: it does not complete as the claim says.
\<close>

theorem registers_without_pair_bias_fault:
  assumes init: "ProteinTransformerAF3_init p kw = Inr net"
    and nb: "\<not> kw_use_attn_pair_bias kw"
    and r: "kw_num_registers kw = Some k" "0 < k"
  shows "(\<forall>seqs m c. \<exists>e. extend_w_registers net seqs None m c = Inl e)
     \<and> (\<forall>seqs m c b n d. shape seqs = [b, n, d] \<longrightarrow>
           extend_w_registers net seqs None m c = Inl AttributeError)
     \<and> (\<forall>batch. \<exists>e. trunk_inputs net batch = Inl e)
     \<and> (\<forall>batch. \<exists>e. forward net batch = Inl e)"
proof -
  from init r have nr: "num_registers net \<noteq> 0"
    by (elim init_cases) (simp add: init_registers_def)
  from init nb have ub: "\<not> use_attn_pair_bias net" by (elim init_cases) simp
  have e1: "\<exists>e. extend_w_registers net seqs None m c = Inl e" for seqs m c
    using nr by (simp add: extend_w_registers_def split: list.splits)
  have e2: "extend_w_registers net seqs None m c = Inl AttributeError"
    if "shape seqs = [b, n, d]" for seqs m c b n d
    using nr that by (simp add: extend_w_registers_def)
  have t: "\<exists>e. trunk_inputs net batch = Inl e" for batch
  proof (cases "trunk_inputs net batch")
    case (Inl e) then show ?thesis by blast
  next
    case (Inr v)
    then obtain c seqs where "extend_w_registers net seqs None (batch_mask batch) c = Inr v"
      by (auto simp: trunk_inputs_def and_then_eq_Inr initial_pair_def ub)
    with e1 show ?thesis by (metis sum.distinct(1))
  qed
  have f: "\<exists>e. forward net batch = Inl e" for batch
  proof -
    from t obtain e where "trunk_inputs net batch = Inl e" by blast
    then show ?thesis by (simp add: forward_def forward_repr_def)
  qed
  from e1 e2 t f show ?thesis by blast
qed

theorem registers_without_pair_bias_fault_witness:
  "\<exists>net. ProteinTransformerAF3_init demo_params
            (demo_kwargs\<lparr>kw_use_attn_pair_bias := False, kw_num_registers := Some 1\<rparr>) = Inr net
     \<and> extend_w_registers net (mk [1, 2, 1] (\<lambda>idx. 1)) None (batch_mask demo_batch)
          (mk [1, 2, 1] (\<lambda>idx. 1)) = Inl AttributeError
     \<and> forward net demo_batch = Inl AttributeError"
proof -
  let ?kw = "demo_kwargs\<lparr>kw_use_attn_pair_bias := False, kw_num_registers := Some 1\<rparr>"
  obtain net where net: "ProteinTransformerAF3_init demo_params ?kw = Inr net"
    using init_ok[of ?kw demo_params] by (auto simp: demo_kwargs_def)
  have h: "\<not> kw_use_attn_pair_bias ?kw" "kw_num_registers ?kw = Some 1" "(0::int) < 1"
    by simp_all
  note fault = registers_without_pair_bias_fault[OF net h]
  from fault have ext: "extend_w_registers net seqs None m c = Inl AttributeError"
    if "shape seqs = [b, n, d]" for seqs m c b n d
    using that by blast
  obtain c where c: "conditioning net demo_batch = Inr c"
    using demo_conditioning[OF net] by (auto simp: demo_kwargs_def)
  obtain s where s: "initial_seqs net demo_batch = Inr s" "shape s = [1, 2, 1]"
    using demo_initial_seqs[OF net] by (auto simp: demo_kwargs_def)
  from net have "\<not> use_attn_pair_bias net" by (elim init_cases) simp
  then have ip: "initial_pair net demo_batch = Inr None" by (simp add: initial_pair_def)
  have "trunk_inputs net demo_batch = Inl AttributeError"
    using c s ip ext[OF s(2)] by (simp add: trunk_inputs_def)
  then have f: "forward net demo_batch = Inl AttributeError"
    by (simp add: forward_def forward_repr_def)
  have "extend_w_registers net (mk [1, 2, 1] (\<lambda>idx. 1)) None (batch_mask demo_batch)
          (mk [1, 2, 1] (\<lambda>idx. 1)) = Inl AttributeError"
    by (rule ext) simp
  with net f show ?thesis by blast
qed


section \<open>The outer-sum step of the pair update\<close>

text \<open>
  Claim C7. \<^verbatim>\<open>PairReprUpdate.forward\<close> on a token tensor \<open>[b, n, token_dim]\<close>, a pair
  tensor \<open>[b, n, n, pair_dim]\<close> and a mask \<open>[b, n]\<close> masks the token tensor, applies
  the layer norm and the projection to \<open>2 * pair_dim\<close> features, and cuts the result
  into \<open>x_proj_1\<close> and \<open>x_proj_2\<close> of width \<open>pair_dim\<close>. The pair tensor \<open>p'\<close> it
  then forms has at \<open>[i, j, k, l]\<close> the old entry plus \<open>x_proj_1 [i, k, l]\<close> (the
  column's contribution) plus \<open>x_proj_2 [i, j, l]\<close> (the row's contribution), times the
  pair mask, which is 1 exactly when positions \<open>j\<close> and \<open>k\<close> of sample \<open>i\<close> are both
  unmasked. What \<^verbatim>\<open>forward\<close> returns is the rest of the method (the triangle updates
  when enabled, then the pair transition, each residual and masked) applied to \<open>p'\<close>.
\<close>

theorem pair_update_outer_sum:
  assumes U: "U = PairReprUpdate_init pp td pd tri"
    and s: "shape x = [b, n, td]" "shape pair_t = [b, n, n, pd]" "shape m = [b, n]"
  shows "\<exists>xm xn proj x_proj_1 x_proj_2 pair_mask p'.
      mul_mask x m = Inr xm
      \<and> LayerNorm_forward (layer_norm_in U) xm = Inr xn
      \<and> Linear_forward (linear_x U) xn = Inr proj
      \<and> chunk2_last proj = Inr (x_proj_1, x_proj_2)
      \<and> shape x_proj_1 = [b, n, pd] \<and> shape x_proj_2 = [b, n, pd]
      \<and> outer_sum_step U x (Some pair_t) m = Inr (p', pair_mask)
      \<and> shape p' = [b, n, n, pd]
      \<and> (\<forall>i<b. \<forall>j<n. \<forall>k<n. \<forall>l<pd.
            elem p' [i, j, k, l] =
              (elem pair_t [i, j, k, l] + elem x_proj_1 [i, k, l] + elem x_proj_2 [i, j, l])
              * of_bool (elem m [i, j] \<and> elem m [i, k]))
      \<and> shape pair_mask = [b, n, n]
      \<and> PairReprUpdate_forward U x (Some pair_t) m =
          and_then (if tri
                    then and_then (residual_pair_op (pp_tri_mult_out pp) p' pair_mask)
                           (\<lambda>p. residual_pair_op (pp_tri_mult_in pp) p pair_mask)
                    else Inr p')
            (\<lambda>p. residual_pair_op (pp_transition_out pp) p pair_mask)"
proof -
  from outer_sum_step_entries[OF U s]
  obtain xm xn proj x1 x2 pm p' where big:
     "mul_mask x m = Inr xm
      \<and> LayerNorm_forward (layer_norm_in U) xm = Inr xn
      \<and> Linear_forward (linear_x U) xn = Inr proj
      \<and> chunk2_last proj = Inr (x1, x2)
      \<and> shape x1 = [b, n, pd] \<and> shape x2 = [b, n, pd]
      \<and> outer_sum_step U x (Some pair_t) m = Inr (p', pm)
      \<and> shape p' = [b, n, n, pd]
      \<and> (\<forall>i<b. \<forall>j<n. \<forall>k<n. \<forall>l<pd.
            elem p' [i, j, k, l] =
              (elem pair_t [i, j, k, l] + elem x1 [i, k, l] + elem x2 [i, j, l])
              * of_bool (elem m [i, j] \<and> elem m [i, k]))
      \<and> shape pm = [b, n, n]"
    by (elim exE) (rule that)
  note c4 = big[THEN conjunct2, THEN conjunct2, THEN conjunct2, THEN conjunct2]
  note c6 = c4[THEN conjunct2, THEN conjunct2]
  note step = c6[THEN conjunct1]
  have fw: "PairReprUpdate_forward U x (Some pair_t) m =
          and_then (if tri
                    then and_then (residual_pair_op (pp_tri_mult_out pp) p' pm)
                           (\<lambda>p. residual_pair_op (pp_tri_mult_in pp) p pm)
                    else Inr p')
            (\<lambda>p. residual_pair_op (pp_transition_out pp) p pm)"
    unfolding PairReprUpdate_forward_def step and_then_Inr prod.case
    by (simp add: U PairReprUpdate_init_def)
  show ?thesis
    by (intro exI[of _ xm] exI[of _ xn] exI[of _ proj] exI[of _ x1] exI[of _ x2]
        exI[of _ pm] exI[of _ p'] conjI big[THEN conjunct1]
        big[THEN conjunct2, THEN conjunct1]
        big[THEN conjunct2, THEN conjunct2, THEN conjunct1]
        big[THEN conjunct2, THEN conjunct2, THEN conjunct2, THEN conjunct1]
        c4[THEN conjunct1] c4[THEN conjunct2, THEN conjunct1] step
        c6[THEN conjunct2, THEN conjunct1] c6[THEN conjunct2, THEN conjunct2, THEN conjunct1]
        c6[THEN conjunct2, THEN conjunct2, THEN conjunct2] fw)
qed

text \<open>
  On the sample update the two projections of the first token are \<open>9 / 11\<close> and
  \<open>90 / 11\<close>, those of the second \<open>- 9 / 11\<close> and \<open>- 90 / 11\<close>: entry \<open>[0, 0, 1]\<close>
  is \<open>1 - 9 / 11 + 90 / 11\<close> and entry \<open>[0, 1, 0]\<close> is \<open>1 + 9 / 11 - 90 / 11\<close>, so
  the first projection is read at the column and the second at the row.
\<close>

theorem pair_update_outer_sum_witness:
  "\<exists>xm xn proj x_proj_1 x_proj_2 pair_mask p'.
      mul_mask demo_tokens demo_mask3 = Inr xm
      \<and> LayerNorm_forward (layer_norm_in (PairReprUpdate_init demo_outer_sum_params 2 1 False)) xm
          = Inr xn
      \<and> Linear_forward (linear_x (PairReprUpdate_init demo_outer_sum_params 2 1 False)) xn
          = Inr proj
      \<and> chunk2_last proj = Inr (x_proj_1, x_proj_2)
      \<and> x_proj_1 = Tensor [1, 3, 1] [9 / 11, - 9 / 11, 0]
      \<and> x_proj_2 = Tensor [1, 3, 1] [90 / 11, - 90 / 11, 0]
      \<and> outer_sum_step (PairReprUpdate_init demo_outer_sum_params 2 1 False) demo_tokens
            (Some demo_pair3) demo_mask3 = Inr (p', pair_mask)
      \<and> elem p' [0, 0, 1, 0] = 1 + elem x_proj_1 [0, 1, 0] + elem x_proj_2 [0, 0, 0]
      \<and> elem p' [0, 1, 0, 0] = 1 + elem x_proj_1 [0, 0, 0] + elem x_proj_2 [0, 1, 0]
      \<and> elem p' [0, 0, 1, 0] = 92 / 11
      \<and> elem p' [0, 1, 0, 0] = - 70 / 11
      \<and> elem p' [0, 0, 2, 0] = 0
      \<and> PairReprUpdate_forward (PairReprUpdate_init demo_outer_sum_params 2 1 False) demo_tokens
            (Some demo_pair3) demo_mask3
          = Inr (Tensor [1, 3, 3, 1] [10, 92 / 11, 0, - 70 / 11, - 8, 0, 0, 0, 0])"
proof -
  let ?U = "PairReprUpdate_init demo_outer_sum_params 2 1 False"
  have s: "shape demo_tokens = [1, 3, 2]" "shape demo_pair3 = [1, 3, 3, 1]"
    "shape demo_mask3 = [1, 3]"
    by (simp_all add: demo_tokens_def demo_pair3_def demo_mask3_def)
  from pair_update_outer_sum[OF refl s, of demo_outer_sum_params False]
  obtain xm xn proj x1 x2 pm p' where big:
     "mul_mask demo_tokens demo_mask3 = Inr xm
      \<and> LayerNorm_forward (layer_norm_in ?U) xm = Inr xn
      \<and> Linear_forward (linear_x ?U) xn = Inr proj
      \<and> chunk2_last proj = Inr (x1, x2)
      \<and> shape x1 = [1, 3, 1] \<and> shape x2 = [1, 3, 1]
      \<and> outer_sum_step ?U demo_tokens (Some demo_pair3) demo_mask3 = Inr (p', pm)
      \<and> shape p' = [1, 3, 3, 1]
      \<and> (\<forall>i<1. \<forall>j<3. \<forall>k<3. \<forall>l<1.
            elem p' [i, j, k, l] =
              (elem demo_pair3 [i, j, k, l] + elem x1 [i, k, l] + elem x2 [i, j, l])
              * of_bool (elem demo_mask3 [i, j] \<and> elem demo_mask3 [i, k]))
      \<and> shape pm = [1, 3, 3]
      \<and> PairReprUpdate_forward ?U demo_tokens (Some demo_pair3) demo_mask3 =
          and_then (if False
                    then and_then (residual_pair_op (pp_tri_mult_out demo_outer_sum_params) p' pm)
                           (\<lambda>p. residual_pair_op (pp_tri_mult_in demo_outer_sum_params) p pm)
                    else Inr p')
            (\<lambda>p. residual_pair_op (pp_transition_out demo_outer_sum_params) p pm)"
    by (elim exE) (rule that)
  note b1 = big[THEN conjunct1]
  note b2 = big[THEN conjunct2, THEN conjunct1]
  note b3 = big[THEN conjunct2, THEN conjunct2, THEN conjunct1]
  note b4 = big[THEN conjunct2, THEN conjunct2, THEN conjunct2, THEN conjunct1]
  note c4 = big[THEN conjunct2, THEN conjunct2, THEN conjunct2, THEN conjunct2]
  note c6 = c4[THEN conjunct2, THEN conjunct2]
  note step = c6[THEN conjunct1]
  note ent = c6[THEN conjunct2, THEN conjunct2, THEN conjunct1, rule_format]
  have ev1: "and_then (mul_mask demo_tokens demo_mask3) (\<lambda>xm.
             and_then (LayerNorm_forward (layer_norm_in ?U) xm) (\<lambda>xn.
             and_then (Linear_forward (linear_x ?U) xn) chunk2_last))
           = Inr (Tensor [1, 3, 1] [9 / 11, - 9 / 11, 0], Tensor [1, 3, 1] [90 / 11, - 90 / 11, 0])"
    apply (simp add: demo_defs init_defs op_defs)
    apply (simp add: eval_defs)
    apply (simp add: sqrt_demo power2_eq_square)
    done
  have x12: "x1 = Tensor [1, 3, 1] [9 / 11, - 9 / 11, 0]"
    "x2 = Tensor [1, 3, 1] [90 / 11, - 90 / 11, 0]"
    using ev1 unfolding b1 and_then_Inr b2 b3 b4 by simp_all
  have e01: "elem p' [0, 0, 1, 0] =
          (elem demo_pair3 [0, 0, 1, 0] + elem x1 [0, 1, 0] + elem x2 [0, 0, 0])
          * of_bool (elem demo_mask3 [0, 0] \<and> elem demo_mask3 [0, 1])"
    by (rule ent) simp_all
  have e10: "elem p' [0, 1, 0, 0] =
          (elem demo_pair3 [0, 1, 0, 0] + elem x1 [0, 0, 0] + elem x2 [0, 1, 0])
          * of_bool (elem demo_mask3 [0, 1] \<and> elem demo_mask3 [0, 0])"
    by (rule ent) simp_all
  have e02: "elem p' [0, 0, 2, 0] =
          (elem demo_pair3 [0, 0, 2, 0] + elem x1 [0, 2, 0] + elem x2 [0, 0, 0])
          * of_bool (elem demo_mask3 [0, 0] \<and> elem demo_mask3 [0, 2])"
    by (rule ent) simp_all
  have v1: "elem p' [0, 0, 1, 0] = 1 + elem x1 [0, 1, 0] + elem x2 [0, 0, 0]"
    using e01 by (simp add: demo_pair3_def demo_mask3_def elem_def)
  have v2: "elem p' [0, 1, 0, 0] = 1 + elem x1 [0, 0, 0] + elem x2 [0, 1, 0]"
    using e10 by (simp add: demo_pair3_def demo_mask3_def elem_def)
  have v3: "elem p' [0, 0, 1, 0] = 92 / 11" using v1 by (simp add: x12 elem_def)
  have v4: "elem p' [0, 1, 0, 0] = - 70 / 11" using v2 by (simp add: x12 elem_def)
  have v5: "elem p' [0, 0, 2, 0] = 0"
    using e02 by (simp add: demo_mask3_def elem_def)
  have fw: "PairReprUpdate_forward ?U demo_tokens (Some demo_pair3) demo_mask3
          = Inr (Tensor [1, 3, 3, 1] [10, 92 / 11, 0, - 70 / 11, - 8, 0, 0, 0, 0])"
    apply (simp add: PairReprUpdate_forward_def outer_sum_step_def pair_mask_of_def
        residual_pair_op_def checkpoint_def apply_mask_def demo_defs init_defs op_defs)
    apply (simp add: eval_defs)
    apply (simp add: sqrt_demo power2_eq_square)
    done
  show ?thesis
    by (intro exI[of _ xm] exI[of _ xn] exI[of _ proj] exI[of _ x1] exI[of _ x2]
        exI[of _ pm] exI[of _ p'] conjI b1 b2 b3 b4 x12 step v1 v2 v3 v4 v5 fw)
qed

section \<open>The output of the auxiliary head\<close>




end
